(* ===== verification/Prelude.thy ===== *)
theory Prelude
  imports Complex_Main
begin

text \<open>
  Shared vocabulary of the development: the Python exceptions the pipeline can
  raise (as values of a datatype), the error-or-value type that every fallible
  stage returns, and the Python string primitives the source relies on
  (\<open>str.lower\<close>, \<open>str.strip\<close>, \<open>str.split\<close>, slicing, \<open>\b\<close> word characters).
  Python \<open>str\<close> values are modelled as lists of code points below 256
  (Isabelle's \<open>char\<close>, read as Latin-1), so the Unicode tables of CPython are
  written out for that range.
\<close>

named_theorems pipeline_simps "unfolding rules of the pipeline stages"

section \<open>Exceptions as values\<close>

text \<open>
  Every exception class that some line of \<open>src/\<close> can raise on the
  processing path. The worker catches all of them with one
  \<open>except Exception\<close>, so the model keeps the kind only for documentation
  and for the lemmas that say which stage failed.
\<close>

datatype py_exc =
    TypeError           \<comment> \<open>\<open>in\<close>, subscription or iteration on the wrong JSON type\<close>
  | KeyError            \<comment> \<open>a missing key in \<open>record["s3"]["bucket"]["name"]\<close>\<close>
  | AttributeError      \<comment> \<open>\<open>.get\<close> or \<open>.lower()\<close> on a non-dict or on \<open>None\<close>\<close>
  | JSONDecodeError     \<comment> \<open>\<open>json.loads\<close> on a malformed body or object\<close>
  | ParamValidationError \<comment> \<open>boto3 called with a non-string bucket or key\<close>
  | NoSuchKey           \<comment> \<open>\<open>get_object\<close> on a missing object\<close>
  | ValidationError     \<comment> \<open>pydantic rejected a \<open>RawTicket\<close> or \<open>EnrichmentData\<close>\<close>
  | ModelError          \<comment> \<open>an exception raised by an ML model\<close>
  | ServiceError        \<comment> \<open>an AWS call (put, delete, receive) failed\<close>
  | ValueError          \<comment> \<open>\<open>int(s)\<close> on a string that is not an integer\<close>

type_synonym 'a res = "py_exc + 'a"

definition rbind :: "'a res \<Rightarrow> ('a \<Rightarrow> 'b res) \<Rightarrow> 'b res" where
  "rbind r f = (case r of Inl e \<Rightarrow> Inl e | Inr a \<Rightarrow> f a)"

text \<open>A loop that builds a list and lets the first exception escape.\<close>

fun res_sequence :: "'a res list \<Rightarrow> 'a list res" where
  "res_sequence [] = Inr []"
| "res_sequence (r # rs) = rbind r (\<lambda>a. rbind (res_sequence rs) (\<lambda>as. Inr (a # as)))"

section \<open>Characters\<close>

text \<open>\<open>str.isspace\<close> below code point 256: \<open>\t \n \v \f \r\<close>, the separators
  \<open>\x1c\<close>--\<open>\x1f\<close>, space, NEL (\<open>\x85\<close>) and NBSP (\<open>\xa0\<close>).\<close>

definition py_isspace :: "char \<Rightarrow> bool" where
  "py_isspace c \<longleftrightarrow> of_char c \<in> ({9..13} \<union> {28..32} \<union> {133, 160} :: nat set)"

text \<open>\<open>str.lower\<close> on one code point: ASCII capitals and the Latin-1 capitals
  \<open>\xc0\<close>--\<open>\xde\<close> except the multiplication sign \<open>\xd7\<close> move up by 32.\<close>

definition py_lower_char :: "char \<Rightarrow> char" where
  "py_lower_char c =
     (let n = (of_char c :: nat)
      in if (65 \<le> n \<and> n \<le> 90) \<or> (192 \<le> n \<and> n \<le> 222 \<and> n \<noteq> 215)
         then char_of (n + 32) else c)"

definition py_lower :: "string \<Rightarrow> string" where
  "py_lower s = map py_lower_char s"

text \<open>\<open>str.upper\<close> on ASCII letters (the only letters of the labels it is applied to).\<close>

definition py_upper_char :: "char \<Rightarrow> char" where
  "py_upper_char c =
     (let n = (of_char c :: nat) in if 97 \<le> n \<and> n \<le> 122 then char_of (n - 32) else c)"

definition py_upper :: "string \<Rightarrow> string" where
  "py_upper s = map py_upper_char s"

text \<open>The \<open>\w\<close> class of Python's \<open>re\<close> for \<open>str\<close> patterns below code point 256:
  letters, digits and numerics (\<open>str.isalnum\<close>) and the underscore.\<close>

definition is_word_char :: "char \<Rightarrow> bool" where
  "is_word_char c \<longleftrightarrow>
     (let n = (of_char c :: nat)
      in (48 \<le> n \<and> n \<le> 57) \<or> (65 \<le> n \<and> n \<le> 90) \<or> n = 95 \<or> (97 \<le> n \<and> n \<le> 122)
         \<or> n \<in> {170, 178, 179, 181, 185, 186, 188, 189, 190}
         \<or> (192 \<le> n \<and> n \<le> 255 \<and> n \<noteq> 215 \<and> n \<noteq> 247))"

section \<open>Strings\<close>

text \<open>\<open>s.strip()\<close>, and the test \<open>not s.strip()\<close> the source uses for ``blank''.\<close>

definition py_strip :: "string \<Rightarrow> string" where
  "py_strip s = rev (dropWhile py_isspace (rev (dropWhile py_isspace s)))"

definition py_blank :: "string \<Rightarrow> bool" where
  "py_blank s \<longleftrightarrow> py_strip s = []"

text \<open>\<open>s.split()\<close> with no separator: the maximal runs of non-space characters.\<close>

function py_split :: "string \<Rightarrow> string list" where
  "py_split s =
     (let s' = dropWhile py_isspace s
      in if s' = [] then []
         else takeWhile (\<lambda>c. \<not> py_isspace c) s'
              # py_split (dropWhile (\<lambda>c. \<not> py_isspace c) s'))"
  by pat_completeness auto
termination
proof (relation "measure length")
  fix s s' :: string
  assume s': "s' = dropWhile py_isspace s" and ne: "s' \<noteq> []"
  then have hd: "\<not> py_isspace (hd s')" by (simp add: hd_dropWhile)
  have "length (dropWhile (\<lambda>c. \<not> py_isspace c) s') < length s'"
    using ne hd by (cases s') (simp_all add: le_imp_less_Suc length_dropWhile_le)
  moreover have "length s' \<le> length s"
    using s' by (simp add: length_dropWhile_le)
  ultimately show "(dropWhile (\<lambda>c. \<not> py_isspace c) s', s) \<in> measure length"
    by simp
qed simp

declare py_split.simps [simp del]

text \<open>\<open>sep.join(xs)\<close>.\<close>

fun py_join :: "string \<Rightarrow> string list \<Rightarrow> string" where
  "py_join sep [] = []"
| "py_join sep [w] = w"
| "py_join sep (w # ws) = w @ sep @ py_join sep ws"

text \<open>\<open>s[:n]\<close>: a negative bound counts from the end, as CPython does.\<close>

definition py_slice_to :: "'a list \<Rightarrow> int \<Rightarrow> 'a list" where
  "py_slice_to s n =
     (if 0 \<le> n then take (nat n) s else take (nat (int (length s) + n)) s)"

text \<open>\<open>sub in s\<close> for strings: a contiguous occurrence.\<close>

definition py_str_contains :: "string \<Rightarrow> string \<Rightarrow> bool" where
  "py_str_contains s sub \<longleftrightarrow>
     list_ex (\<lambda>i. take (length sub) (drop i s) = sub) [0..<Suc (length s)]"

text \<open>\<open>s.replace(old, new)\<close>: the occurrences of \<open>old\<close>, scanned from the
  left and not overlapping, each replaced by \<open>new\<close>. An empty \<open>old\<close>
  matches before every character and at the end.\<close>

function py_replace_aux :: "string \<Rightarrow> string \<Rightarrow> string \<Rightarrow> string" where
  "py_replace_aux old new [] = []"
| "py_replace_aux old new (c # s) =
     (if old \<noteq> [] \<and> take (length old) (c # s) = old
      then new @ py_replace_aux old new (drop (length old) (c # s))
      else c # py_replace_aux old new s)"
  by pat_completeness auto
termination by (relation "measure (\<lambda>(old, new, s). length s)") auto

definition py_replace :: "string \<Rightarrow> string \<Rightarrow> string \<Rightarrow> string" where
  "py_replace s old new =
     (if old = [] then new @ concat (map (\<lambda>c. c # new) s) else py_replace_aux old new s)"

text \<open>\<open>str(n)\<close> for a natural number: its decimal digits.\<close>

fun py_str_nat :: "nat \<Rightarrow> string" where
  "py_str_nat n =
     (if n < 10 then [char_of (48 + n)] else py_str_nat (n div 10) @ [char_of (48 + n mod 10)])"

declare py_str_nat.simps [simp del]

text \<open>The range \<open>ge=0.0, le=1.0\<close> pydantic checks on a confidence.\<close>

definition unit_interval :: "rat \<Rightarrow> bool" where
  "unit_interval q \<longleftrightarrow> 0 \<le> q \<and> q \<le> 1"

section \<open>Generic lemmas\<close>

lemma rbind_Inl [simp]: "rbind (Inl e) f = Inl e"
  by (simp add: rbind_def)

lemma rbind_Inr [simp]: "rbind (Inr a) f = f a"
  by (simp add: rbind_def)

lemma rbind_eq_Inr:
  "rbind r f = Inr b \<longleftrightarrow> (\<exists>a. r = Inr a \<and> f a = Inr b)"
  by (cases r) (auto simp: rbind_def)

lemma rbind_eq_Inl:
  "rbind r f = Inl e \<longleftrightarrow> r = Inl e \<or> (\<exists>a. r = Inr a \<and> f a = Inl e)"
  by (cases r) (auto simp: rbind_def)

lemma res_sequence_Inr:
  "(\<forall>r \<in> set rs. \<exists>a. r = Inr a) \<Longrightarrow> \<exists>as. res_sequence rs = Inr as \<and> length as = length rs"
  by (induction rs) (auto simp: rbind_def)

lemma res_sequence_length: "res_sequence rs = Inr as \<Longrightarrow> length as = length rs"
  by (induction rs arbitrary: as) (auto simp: rbind_eq_Inr)

lemma res_sequence_map_Inr: "res_sequence (map (\<lambda>x. Inr (g x)) xs) = Inr (map g xs)"
  by (induction xs) (simp_all add: rbind_def)

lemma length_py_lower [simp]: "length (py_lower s) = length s"
  by (simp add: py_lower_def)

lemma py_lower_Nil [simp]: "py_lower [] = []"
  by (simp add: py_lower_def)

lemma py_lower_append [simp]: "py_lower (xs @ ys) = py_lower xs @ py_lower ys"
  by (simp add: py_lower_def)

lemma length_py_slice_to_le: "length (py_slice_to s n) \<le> length s"
  by (simp add: py_slice_to_def nat_le_iff)

lemma length_py_slice_to_nonneg:
  "0 \<le> n \<Longrightarrow> length (py_slice_to s n) = min (nat n) (length s)"
  by (simp add: py_slice_to_def)

lemma dropWhile_all_iff: "(\<forall>c \<in> set (dropWhile P xs). P c) \<longleftrightarrow> dropWhile P xs = []"
proof
  assume all: "\<forall>c \<in> set (dropWhile P xs). P c"
  show "dropWhile P xs = []"
  proof (rule ccontr)
    assume ne: "dropWhile P xs \<noteq> []"
    then have "\<not> P (hd (dropWhile P xs))" by (rule hd_dropWhile)
    with all ne show False by simp
  qed
qed (auto dest: set_dropWhileD)

lemma py_blank_iff: "py_blank s \<longleftrightarrow> (\<forall>c \<in> set s. py_isspace c)"
proof -
  have "py_blank s \<longleftrightarrow> (\<forall>c \<in> set (dropWhile py_isspace s). py_isspace c)"
    by (simp add: py_blank_def py_strip_def)
  also have "\<dots> \<longleftrightarrow> dropWhile py_isspace s = []"
    by (rule dropWhile_all_iff)
  finally show ?thesis by simp
qed

lemma py_str_contains_iff:
  "py_str_contains s sub \<longleftrightarrow> (\<exists>i \<le> length s. take (length sub) (drop i s) = sub)"
  by (auto simp: py_str_contains_def list_ex_iff less_Suc_eq_le simp del: upt_Suc)

lemma py_replace_aux_absent:
  "\<not> py_str_contains s old \<Longrightarrow> py_replace_aux old new s = s"
proof (induction s)
  case (Cons c s)
  have "take (length old) (c # s) \<noteq> old"
    using Cons.prems by (auto simp: py_str_contains_iff)
  moreover have "\<not> py_str_contains s old"
  proof
    assume "py_str_contains s old"
    then obtain i where "i \<le> length s" "take (length old) (drop i s) = old"
      by (auto simp: py_str_contains_iff)
    then have "py_str_contains (c # s) old"
      unfolding py_str_contains_iff by (intro exI [of _ "Suc i"]) simp
    with Cons.prems show False by simp
  qed
  ultimately show ?case using Cons.IH by simp
qed simp

lemma py_replace_aux_skip:
  assumes "old \<noteq> []" and "hd old \<notin> set xs"
  shows "py_replace_aux old new (xs @ ys) = xs @ py_replace_aux old new ys"
  using assms(2)
proof (induction xs)
  case (Cons x xs)
  have "take (length old) (x # xs @ ys) \<noteq> old"
    using assms(1) Cons.prems by (cases old) auto
  then show ?case using Cons by simp
qed simp

lemma py_str_nat_digits: "set (py_str_nat n) \<subseteq> char_of ` {48..<58::nat}"
proof (induction n rule: py_str_nat.induct)
  case (1 n)
  then show ?case by (subst py_str_nat.simps) (auto intro: imageI)
qed

end
