(* ===== verification/Json.thy ===== *)
theory Json
  imports Prelude
begin

text \<open>
  The values \<open>json.loads\<close> returns, and the Python operations the worker
  applies to them in \<open>src/src/processor/worker.py\<close>: \<open>k in v\<close>, \<open>v[k]\<close>,
  \<open>for x in v\<close> and \<open>v.get(k, d)\<close>. A JSON object becomes a Python
  \<open>dict\<close>: when a key repeats, the last value wins and the key keeps its first
  position, which the lookup and the iteration below write out. The worker's
  state holds a message body or an S3 object as the value \<open>json.loads\<close>
  decodes it to, or as \<open>None\<close> when it does not decode; the text itself
  and the scanner are in \<open>JsonText\<close>.
\<close>

datatype json =
    JNull
  | JBool bool
  | JInt int
  | JFloat rat
  | JStr string
  | JArr "json list"
  | JObj "(string \<times> json) list"

section \<open>Dictionary access\<close>

text \<open>\<open>d[k]\<close> on a dict decoded from an object with repeated keys: the last binding.\<close>

definition jlookup :: "(string \<times> json) list \<Rightarrow> string \<Rightarrow> json option" where
  "jlookup kvs k = map_of (rev kvs) k"

text \<open>Iteration order of such a dict: each key once, where it first appeared.\<close>

definition jkeys :: "(string \<times> json) list \<Rightarrow> string list" where
  "jkeys kvs = remdups (map fst kvs)"

text \<open>\<open>k in v\<close>: key membership for a dict, element equality for a list,
  substring for a string; \<open>TypeError\<close> for \<open>None\<close>, booleans and numbers.\<close>

fun py_in :: "string \<Rightarrow> json \<Rightarrow> bool res" where
  "py_in k (JObj kvs) = Inr (k \<in> set (map fst kvs))"
| "py_in k (JArr xs) = Inr (JStr k \<in> set xs)"
| "py_in k (JStr s) = Inr (py_str_contains s k)"
| "py_in k _ = Inl TypeError"

text \<open>\<open>v[k]\<close> with a string \<open>k\<close>: \<open>KeyError\<close> for a missing key, \<open>TypeError\<close>
  for every value that is not a dict (a list or a string wants an integer index).\<close>

fun py_getitem :: "json \<Rightarrow> string \<Rightarrow> json res" where
  "py_getitem (JObj kvs) k = (case jlookup kvs k of None \<Rightarrow> Inl KeyError | Some v \<Rightarrow> Inr v)"
| "py_getitem _ k = Inl TypeError"

text \<open>\<open>for x in v\<close>: the elements of a list, the keys of a dict, the characters of a
  string; the other values are not iterable.\<close>

fun py_iter :: "json \<Rightarrow> json list res" where
  "py_iter (JArr xs) = Inr xs"
| "py_iter (JObj kvs) = Inr (map JStr (jkeys kvs))"
| "py_iter (JStr s) = Inr (map (\<lambda>c. JStr [c]) s)"
| "py_iter _ = Inl TypeError"

text \<open>\<open>v.get(k, d)\<close>: only a dict has \<open>.get\<close>.\<close>

fun py_get :: "json \<Rightarrow> string \<Rightarrow> json \<Rightarrow> json res" where
  "py_get (JObj kvs) k d = Inr (case jlookup kvs k of None \<Rightarrow> d | Some v \<Rightarrow> v)"
| "py_get _ k d = Inl AttributeError"

section \<open>Lemmas\<close>

lemma jlookup_Nil [simp]: "jlookup [] k = None"
  by (simp add: jlookup_def)

lemma jlookup_Cons:
  "jlookup ((k', v) # kvs) k =
     (case jlookup kvs k of None \<Rightarrow> (if k = k' then Some v else None) | Some w \<Rightarrow> Some w)"
  by (simp add: jlookup_def map_add_def split: option.splits)

lemma jlookup_None_iff: "jlookup kvs k = None \<longleftrightarrow> k \<notin> set (map fst kvs)"
  by (simp add: jlookup_def map_of_eq_None_iff image_iff)

lemma jlookup_Some_mem: "jlookup kvs k = Some v \<Longrightarrow> (k, v) \<in> set kvs"
  by (simp add: jlookup_def) (metis map_of_SomeD set_rev)

lemma py_in_JObj_iff: "py_in k (JObj kvs) = Inr (jlookup kvs k \<noteq> None)"
  by (simp add: jlookup_None_iff)

lemma py_getitem_Inr_iff:
  "py_getitem v k = Inr w \<longleftrightarrow> (\<exists>kvs. v = JObj kvs \<and> jlookup kvs k = Some w)"
  by (cases v) (auto split: option.splits)

lemma py_get_JObj_present:
  "jlookup kvs k = Some v \<Longrightarrow> py_get (JObj kvs) k d = Inr v"
  by simp

end
