(* ===== verification/Schemas.thy ===== *)
theory Schemas
  imports Json
begin

text \<open>
  The pydantic models of \<open>src/src/common/schemas.py\<close> as records, their
  validation (pydantic v2 in its default lax mode, applied to the dict
  \<open>json.loads\<close> produced) as functions into \<open>'a res\<close>, and the two
  conversions \<open>EnrichedTicket.from_raw\<close> and \<open>DynamoDBTicket.from_enriched\<close>,
  and the documented \<open>json_schema_extra\<close> examples, which validate.
  Python floats are modelled as exact rationals. The fields of
  \<open>DynamoDBTicket\<close> carry the prefix \<open>ddb_\<close> because a record field is a
  constant and \<open>RawTicket\<close> already owns the names \<open>ticket_id\<close>,
  \<open>subject\<close>, \<open>created_at\<close> and \<open>customer_id\<close>.
\<close>

section \<open>Records\<close>

record ticket_metadata =
  source :: string
  language :: string
  tags :: "string list"

record raw_ticket =
  ticket_id :: string
  subject :: string
  body :: string
  priority :: "string option"
  created_at :: int
  customer_id :: string
  metadata :: ticket_metadata

record enrichment_data =
  embedding :: "rat list"
  intent :: string
  intent_confidence :: rat
  urgency :: string
  urgency_confidence :: rat
  sentiment :: string
  sentiment_confidence :: rat
  summary :: string
  processed_at :: string
  model_version :: string

text \<open>\<open>EnrichedTicket\<close> repeats the fields of \<open>RawTicket\<close> and adds
  \<open>enrichment\<close>: a record extension of \<open>raw_ticket\<close>.\<close>

record enriched_ticket = raw_ticket +
  enrichment :: enrichment_data

record dynamodb_ticket =
  ddb_ticket_id :: string
  ddb_created_at :: int
  ddb_subject :: string
  ddb_customer_id :: string
  ddb_intent :: string
  ddb_urgency :: string
  ddb_sentiment :: string
  ddb_summary :: string
  ddb_processed_at :: string
  s3_key :: string

section \<open>Field validators (pydantic v2, lax mode)\<close>

text \<open>A \<open>str\<close> field takes a string only; pydantic v2 does not turn numbers
  into strings.\<close>

fun v_str :: "json \<Rightarrow> string res" where
  "v_str (JStr s) = Inr s"
| "v_str _ = Inl ValidationError"

text \<open>An \<open>int\<close> field takes an integer, a boolean (as 0 or 1) and a float
  with no fractional part. Numeric strings, which lax mode also accepts, are
  not modelled: they are rejected here.\<close>

fun v_int :: "json \<Rightarrow> int res" where
  "v_int (JInt i) = Inr i"
| "v_int (JBool b) = Inr (if b then 1 else 0)"
| "v_int (JFloat q) = (if q = of_int \<lfloor>q\<rfloor> then Inr \<lfloor>q\<rfloor> else Inl ValidationError)"
| "v_int _ = Inl ValidationError"

fun v_opt_str :: "json \<Rightarrow> string option res" where
  "v_opt_str JNull = Inr None"
| "v_opt_str (JStr s) = Inr (Some s)"
| "v_opt_str _ = Inl ValidationError"

fun v_str_list :: "json \<Rightarrow> string list res" where
  "v_str_list (JArr []) = Inr []"
| "v_str_list (JArr (x # xs)) =
     rbind (v_str x) (\<lambda>s. rbind (v_str_list (JArr xs)) (\<lambda>ss. Inr (s # ss)))"
| "v_str_list _ = Inl ValidationError"

text \<open>\<open>Field(...)\<close>: a required field; \<open>Field(default=d)\<close>: an optional one.\<close>

definition required :: "(string \<times> json) list \<Rightarrow> string \<Rightarrow> (json \<Rightarrow> 'a res) \<Rightarrow> 'a res" where
  "required kvs k v = (case jlookup kvs k of None \<Rightarrow> Inl ValidationError | Some x \<Rightarrow> v x)"

definition defaulted :: "(string \<times> json) list \<Rightarrow> string \<Rightarrow> 'a \<Rightarrow> (json \<Rightarrow> 'a res) \<Rightarrow> 'a res" where
  "defaulted kvs k d v = (case jlookup kvs k of None \<Rightarrow> Inr d | Some x \<Rightarrow> v x)"

section \<open>Model validation\<close>

definition default_metadata :: ticket_metadata where
  "default_metadata = \<lparr>source = ''unknown'', language = ''en'', tags = []\<rparr>"

fun validate_metadata :: "json \<Rightarrow> ticket_metadata res" where
  "validate_metadata (JObj kvs) =
     rbind (required kvs ''source'' v_str) (\<lambda>src.
     rbind (defaulted kvs ''language'' ''en'' v_str) (\<lambda>lang.
     rbind (defaulted kvs ''tags'' [] v_str_list) (\<lambda>tg.
       Inr \<lparr>source = src, language = lang, tags = tg\<rparr>)))"
| "validate_metadata _ = Inl ValidationError"

text \<open>\<open>RawTicket(**raw_ticket)\<close>; keys the model does not declare are ignored.\<close>

definition validate_raw_ticket :: "(string \<times> json) list \<Rightarrow> raw_ticket res" where
  "validate_raw_ticket kvs =
     rbind (required kvs ''ticket_id'' v_str) (\<lambda>tid.
     rbind (required kvs ''subject'' v_str) (\<lambda>subj.
     rbind (required kvs ''body'' v_str) (\<lambda>bdy.
     rbind (defaulted kvs ''priority'' None v_opt_str) (\<lambda>prio.
     rbind (required kvs ''created_at'' v_int) (\<lambda>ts.
     rbind (required kvs ''customer_id'' v_str) (\<lambda>cid.
     rbind (defaulted kvs ''metadata'' default_metadata validate_metadata) (\<lambda>md.
       Inr \<lparr>ticket_id = tid, subject = subj, body = bdy, priority = prio,
            created_at = ts, customer_id = cid, metadata = md\<rparr>)))))))"

text \<open>\<open>EnrichmentData(...)\<close>: the three confidences carry \<open>ge=0.0, le=1.0\<close>.\<close>

definition validate_enrichment :: "enrichment_data \<Rightarrow> enrichment_data res" where
  "validate_enrichment e =
     (if unit_interval (intent_confidence e) \<and> unit_interval (urgency_confidence e)
         \<and> unit_interval (sentiment_confidence e)
      then Inr e else Inl ValidationError)"

section \<open>Conversions\<close>

definition from_raw :: "raw_ticket \<Rightarrow> enrichment_data \<Rightarrow> enriched_ticket" where
  "from_raw r e =
     \<lparr>ticket_id = ticket_id r, subject = subject r, body = body r, priority = priority r,
      created_at = created_at r, customer_id = customer_id r, metadata = metadata r,
      enrichment = e\<rparr>"

definition s3_key_of :: "string \<Rightarrow> string" where
  "s3_key_of tid = tid @ ''.json''"

definition from_enriched :: "enriched_ticket \<Rightarrow> dynamodb_ticket" where
  "from_enriched t =
     \<lparr>ddb_ticket_id = ticket_id t, ddb_created_at = created_at t,
      ddb_subject = subject t, ddb_customer_id = customer_id t,
      ddb_intent = intent (enrichment t), ddb_urgency = urgency (enrichment t),
      ddb_sentiment = sentiment (enrichment t), ddb_summary = summary (enrichment t),
      ddb_processed_at = processed_at (enrichment t), s3_key = s3_key_of (ticket_id t)\<rparr>"

section \<open>The generator's ticket dict\<close>

text \<open>The dict \<open>generate_ticket\<close> in \<open>src/src/generator/ticket_generator.py\<close>
  builds and uploads: the raw document every ticket of the demo starts from.\<close>

definition generated_ticket ::
  "string \<Rightarrow> string \<Rightarrow> string \<Rightarrow> string \<Rightarrow> int \<Rightarrow> string \<Rightarrow> string \<Rightarrow> json" where
  "generated_ticket tid cid subj bdy ts prio src =
     JObj [(''ticket_id'', JStr tid), (''customer_id'', JStr cid),
           (''subject'', JStr subj), (''body'', JStr bdy),
           (''created_at'', JInt ts), (''priority'', JStr prio),
           (''metadata'', JObj [(''source'', JStr src), (''language'', JStr ''en''),
                                (''tags'', JArr [])])]"

text \<open>\<open>RawTicket(**v)\<close> on a decoded value: only a dict unpacks into keyword
  arguments.\<close>

fun raw_ticket_of_json :: "json \<Rightarrow> raw_ticket res" where
  "raw_ticket_of_json (JObj kvs) = validate_raw_ticket kvs"
| "raw_ticket_of_json _ = Inl TypeError"

section \<open>Example values\<close>

text \<open>The raw document of the spec's worked example, and an enrichment of it.\<close>

definition example_raw :: raw_ticket where
  "example_raw =
     \<lparr>ticket_id = ''T-1'', subject = ''Cannot login'', body = ''...'', priority = None,
      created_at = 1700000000, customer_id = ''C-1'',
      metadata = \<lparr>source = ''email'', language = ''en'', tags = []\<rparr>\<rparr>"

definition example_enrichment :: enrichment_data where
  "example_enrichment =
     \<lparr>embedding = [0, 1/2], intent = ''login_issue'', intent_confidence = 1/3,
      urgency = ''medium'', urgency_confidence = 6/10, sentiment = ''NEGATIVE'',
      sentiment_confidence = 9/10, summary = ''Cannot login'',
      processed_at = ''2024-01-15T10:30:00'', model_version = ''1.0.0''\<rparr>"

text \<open>The documented examples, \<open>json_schema_extra["example"]\<close> of
  \<open>RawTicket\<close> (a JSON document) and of \<open>EnrichmentData\<close> (the keyword
  arguments of the model; the floats as the rationals their literals denote).\<close>

definition raw_ticket_schema_example :: json where
  "raw_ticket_schema_example =
     JObj [(''ticket_id'', JStr ''TKT-001''),
           (''subject'', JStr ''Cannot login to account''),
           (''body'', JStr ''I've been trying to login for an hour but keep getting 'invalid credentials' error.''),
           (''priority'', JStr ''high''),
           (''created_at'', JInt 1700000000),
           (''customer_id'', JStr ''CUST-12345''),
           (''metadata'', JObj [(''source'', JStr ''email''), (''language'', JStr ''en'')])]"

definition enrichment_schema_example :: enrichment_data where
  "enrichment_schema_example =
     \<lparr>embedding = [123/1000, -456/1000, 789/1000], intent = ''login_issue'', intent_confidence = 92/100,
      urgency = ''high'', urgency_confidence = 88/100, sentiment = ''NEGATIVE'',
      sentiment_confidence = 95/100, summary = ''Customer unable to login after password reset'',
      processed_at = ''2024-01-15T10:30:00Z'', model_version = ''1.0.0''\<rparr>"

section \<open>Validation lemmas\<close>

lemma v_str_error: "v_str x = Inl e \<Longrightarrow> e = ValidationError"
  by (cases x) auto

lemma v_int_error: "v_int x = Inl e \<Longrightarrow> e = ValidationError"
  by (cases x) (auto split: if_splits)

lemma v_opt_str_error: "v_opt_str x = Inl e \<Longrightarrow> e = ValidationError"
  by (cases x) auto

lemma v_str_list_error: "v_str_list x = Inl e \<Longrightarrow> e = ValidationError"
  by (induction x rule: v_str_list.induct) (auto simp: rbind_eq_Inl dest: v_str_error)

lemma validate_metadata_error: "validate_metadata x = Inl e \<Longrightarrow> e = ValidationError"
  by (cases x)
     (auto simp: rbind_eq_Inl required_def defaulted_def split: option.splits
           dest: v_str_error v_str_list_error)

lemmas validator_errors =
  v_str_error v_int_error v_opt_str_error v_str_list_error validate_metadata_error

text \<open>Pydantic raises one exception class, whatever field is wrong.\<close>

lemma validate_raw_ticket_error:
  "validate_raw_ticket kvs = Inl e \<Longrightarrow> e = ValidationError"
  unfolding validate_raw_ticket_def
  by (auto simp: rbind_eq_Inl required_def defaulted_def split: option.splits
           dest: validator_errors)

lemma validate_raw_ticket_Inr:
  assumes "validate_raw_ticket kvs = Inr t"
  shows "jlookup kvs ''ticket_id'' = Some (JStr (ticket_id t))"
    and "jlookup kvs ''subject'' = Some (JStr (subject t))"
    and "jlookup kvs ''body'' = Some (JStr (body t))"
    and "jlookup kvs ''customer_id'' = Some (JStr (customer_id t))"
  using assms
  by (auto simp: validate_raw_ticket_def rbind_eq_Inr required_def defaulted_def
           split: option.splits elim!: v_str.elims)

text \<open>A raw document without \<open>customer_id\<close> is rejected with a
  \<open>ValidationError\<close>, whatever else it holds.\<close>

lemma validate_missing_customer_id:
  assumes "jlookup kvs ''customer_id'' = None"
  shows "validate_raw_ticket kvs = Inl ValidationError"
proof (cases "validate_raw_ticket kvs")
  case (Inl e)
  then show ?thesis by (simp add: validate_raw_ticket_error)
next
  case (Inr t)
  then have "jlookup kvs ''customer_id'' = Some (JStr (customer_id t))"
    by (rule validate_raw_ticket_Inr)
  with assms show ?thesis by simp
qed

lemma validate_missing_customer_id_witness:
  "jlookup [(''ticket_id'', JStr ''T-1''), (''subject'', JStr ''Cannot login''),
            (''body'', JStr ''...''), (''created_at'', JInt 1700000000)] ''customer_id'' = None
   \<and> validate_raw_ticket [(''ticket_id'', JStr ''T-1''), (''subject'', JStr ''Cannot login''),
            (''body'', JStr ''...''), (''created_at'', JInt 1700000000)] = Inl ValidationError"
  using validate_missing_customer_id
    [of "[(''ticket_id'', JStr ''T-1''), (''subject'', JStr ''Cannot login''),
          (''body'', JStr ''...''), (''created_at'', JInt 1700000000)]"]
  by (simp add: jlookup_def)



text \<open>A ticket dict of the generator's shape validates as a RawTicket carrying
  exactly its fields.\<close>
lemma generated_ticket_validates:
  "raw_ticket_of_json (generated_ticket tid cid subj bdy ts prio src) =
     Inr \<lparr>ticket_id = tid, subject = subj, body = bdy, priority = Some prio,
          created_at = ts, customer_id = cid,
          metadata = \<lparr>source = src, language = ''en'', tags = []\<rparr>\<rparr>"
  by (simp add: generated_ticket_def validate_raw_ticket_def required_def defaulted_def
                jlookup_def)

section \<open>Conversion lemmas\<close>

lemma from_enriched_key:
  "ddb_ticket_id (from_enriched t) = ticket_id t \<and> ddb_created_at (from_enriched t) = created_at t
   \<and> s3_key (from_enriched t) = ticket_id t @ ''.json''"
  by (simp add: from_enriched_def s3_key_of_def)

lemma from_raw_fields [simp]:
  "ticket_id (from_raw r e) = ticket_id r" "created_at (from_raw r e) = created_at r"
  "subject (from_raw r e) = subject r" "customer_id (from_raw r e) = customer_id r"
  "enrichment (from_raw r e) = e"
  by (simp_all add: from_raw_def)


lemma validate_raw_ticket_priority:
  assumes "validate_raw_ticket kvs = Inr t"
  shows "jlookup kvs ''priority'' = None \<or> jlookup kvs ''priority'' = Some JNull
         \<or> (\<exists>p. jlookup kvs ''priority'' = Some (JStr p))"
  using assms
  by (auto simp: validate_raw_ticket_def rbind_eq_Inr defaulted_def split: option.splits
           elim!: v_opt_str.elims)

text \<open>The documented examples are valid: the raw example validates, with the
  default empty tag list, and the enrichment example passes the confidence
  bounds.\<close>

lemma raw_ticket_schema_example_valid:
  "raw_ticket_of_json raw_ticket_schema_example =
     Inr \<lparr>ticket_id = ''TKT-001'', subject = ''Cannot login to account'',
          body = ''I've been trying to login for an hour but keep getting 'invalid credentials' error.'',
          priority = Some ''high'', created_at = 1700000000, customer_id = ''CUST-12345'',
          metadata = \<lparr>source = ''email'', language = ''en'', tags = []\<rparr>\<rparr>"
  by (simp add: raw_ticket_schema_example_def validate_raw_ticket_def required_def defaulted_def jlookup_def)

lemma enrichment_schema_example_valid:
  "validate_enrichment enrichment_schema_example = Inr enrichment_schema_example"
  by (simp add: validate_enrichment_def enrichment_schema_example_def unit_interval_def)

end
