(* ===== verification/Classifier.thy ===== *)
theory Classifier
  imports Prelude Json
begin

text \<open>
  \<open>src/src/processor/classifier.py\<close>: the keyword tables, the regular
  expression \<open>\b<keyword>\b\<close> as \<open>re.findall\<close> (counted) and
  \<open>re.search\<close> (tested) evaluate it, and the three classifiers
  \<open>classify_intent\<close>, \<open>classify_urgency\<close> and \<open>classify_sentiment\<close>
  with their combination \<open>get_classification_summary\<close>. The sentiment model
  (a HuggingFace pipeline) is a parameter: a function from the text to a
  label and a score, or to the exception it raised.
\<close>

section \<open>Keyword tables\<close>

definition INTENT_KEYWORDS :: "(string \<times> string list) list" where
  "INTENT_KEYWORDS = [
    (''login_issue'', [''login'', ''log in'', ''sign in'', ''signin'', ''password'', ''credentials'',
       ''authentication'', ''auth'', ''access denied'', ''locked out'', ''2fa'', ''mfa'']),
    (''payment_issue'', [''payment'', ''charge'', ''charged'', ''refund'', ''billing'', ''invoice'',
       ''transaction'', ''credit card'', ''debit'', ''declined'', ''failed payment'']),
    (''bug_report'', [''bug'', ''error'', ''crash'', ''broken'', ''not working'', ''doesn't work'',
       ''issue'', ''problem'', ''glitch'', ''freeze'', ''hang'', ''exception'']),
    (''feature_request'', [''feature'', ''request'', ''enhancement'', ''add'', ''support for'',
       ''would love'', ''suggestion'', ''improve'', ''could you add'', ''wish'']),
    (''account_management'', [''account'', ''profile'', ''settings'', ''update'', ''change'',
       ''delete'', ''deactivate'', ''email address'', ''phone number'', ''password reset'']),
    (''performance_issue'', [''slow'', ''performance'', ''loading'', ''timeout'', ''lag'', ''delay'',
       ''hanging'', ''speed'', ''takes too long'']),
    (''security_concern'', [''security'', ''hack'', ''hacked'', ''unauthorized'', ''breach'',
       ''suspicious'', ''fraud'', ''scam'', ''phishing'', ''malware'', ''virus'']),
    (''data_request'', [''data'', ''export'', ''download'', ''gdpr'', ''privacy'', ''information'',
       ''personal data'', ''data protection'']),
    (''integration_help'', [''integration'', ''api'', ''webhook'', ''oauth'', ''sdk'', ''plugin'',
       ''third party'', ''connect'', ''sync''])]"

definition URGENCY_KEYWORDS :: "(string \<times> string list) list" where
  "URGENCY_KEYWORDS = [
    (''critical'', [''urgent'', ''critical'', ''emergency'', ''asap'', ''immediately'', ''right now'',
       ''down'', ''outage'', ''broken'', ''can't access'', ''unable to'', ''blocked'',
       ''losing money'', ''production'', ''hacked'', ''security breach'']),
    (''high'', [''important'', ''need help'', ''problem'', ''issue'', ''can't'', ''cannot'',
       ''doesn't work'', ''not working'', ''error'', ''failing'', ''soon'', ''business impact'']),
    (''medium'', [''question'', ''how to'', ''how do i'', ''help'', ''assistance'',
       ''wondering'', ''clarify'', ''explain'']),
    (''low'', [''suggestion'', ''feature'', ''enhancement'', ''when possible'',
       ''sometime'', ''eventually'', ''minor'', ''nice to have''])]"

text \<open>The levels in the order the loop of \<open>classify_urgency\<close> tries them, and the
  confidence it attaches to each.\<close>

definition URGENCY_LEVELS :: "string list" where
  "URGENCY_LEVELS = [''critical'', ''high'', ''medium'', ''low'']"

definition urgency_conf :: "string \<Rightarrow> rat" where
  "urgency_conf lvl =
     (if lvl = ''critical'' then 9/10 else if lvl = ''high'' then 8/10 else 7/10)"

section \<open>The pattern \<open>\b<keyword>\b\<close>\<close>

text \<open>\<open>\b\<close> between two positions: exactly one side is a word character; the
  ends of the text count as non-word.\<close>

definition word_at :: "char option \<Rightarrow> bool" where
  "word_at c = (case c of None \<Rightarrow> False | Some x \<Rightarrow> is_word_char x)"

definition boundary :: "char option \<Rightarrow> char option \<Rightarrow> bool" where
  "boundary p n \<longleftrightarrow> word_at p \<noteq> word_at n"

text \<open>The pattern matches at the start of \<open>rest\<close>, \<open>prev\<close> being the character
  before it.\<close>

definition match_here :: "char option \<Rightarrow> string \<Rightarrow> string \<Rightarrow> bool" where
  "match_here prev kw rest \<longleftrightarrow>
     boundary prev (if rest = [] then None else Some (hd rest))
     \<and> take (length kw) rest = kw
     \<and> boundary (if kw = [] then prev else Some (last kw))
                (if length kw < length rest then Some (rest ! length kw) else None)"

text \<open>\<open>len(re.findall(pattern, text))\<close>: the scan tries each position from the
  left and, after a match, resumes where the match ended (after an empty match,
  one position further).\<close>

function findall_count :: "char option \<Rightarrow> string \<Rightarrow> string \<Rightarrow> nat" where
  "findall_count prev kw rest =
     (case rest of
        [] \<Rightarrow> (if match_here prev kw [] then 1 else 0)
      | c # cs \<Rightarrow>
          (if match_here prev kw rest \<and> kw \<noteq> []
           then Suc (findall_count (Some (last kw)) kw (drop (length kw) rest))
           else (if match_here prev kw rest then 1 else 0) + findall_count (Some c) kw cs))"
  by pat_completeness auto
termination
  by (relation "measure (\<lambda>(p, kw, rest). length rest)") auto

declare findall_count.simps [simp del]

text \<open>\<open>re.search(pattern, text)\<close> succeeds: some position of the text matches.\<close>

definition prev_char :: "string \<Rightarrow> nat \<Rightarrow> char option" where
  "prev_char s i = (if i = 0 then None else Some (s ! (i - 1)))"

definition re_search :: "string \<Rightarrow> string \<Rightarrow> bool" where
  "re_search kw text \<longleftrightarrow>
     list_ex (\<lambda>i. match_here (prev_char text i) kw (drop i text)) [0..<Suc (length text)]"

section \<open>classify_intent\<close>

definition intent_text :: "string \<Rightarrow> string \<Rightarrow> string" where
  "intent_text subj bdy = py_lower (subj @ '' '' @ bdy)"

definition keyword_score :: "string \<Rightarrow> string list \<Rightarrow> nat" where
  "keyword_score text kws = sum_list (map (\<lambda>k. findall_count None k text) kws)"

text \<open>The dict \<open>intent_scores\<close>: the intents with a positive score, in table order.\<close>

definition intent_scores :: "string \<Rightarrow> (string \<times> nat) list" where
  "intent_scores text =
     filter (\<lambda>(i, sc). 0 < sc) (map (\<lambda>(i, kws). (i, keyword_score text kws)) INTENT_KEYWORDS)"

text \<open>\<open>max(d, key=d.get)\<close>: the first entry of greatest score.\<close>

fun py_max_by_score :: "string \<times> nat \<Rightarrow> (string \<times> nat) list \<Rightarrow> string \<times> nat" where
  "py_max_by_score b [] = b"
| "py_max_by_score b (x # xs) = py_max_by_score (if snd b < snd x then x else b) xs"

definition classify_intent :: "string \<Rightarrow> string \<Rightarrow> string \<times> rat" where
  "classify_intent subj bdy =
     (let text = intent_text subj bdy
      in if py_blank text then (''general_inquiry'', 0)
         else (case intent_scores text of
                 [] \<Rightarrow> (''general_inquiry'', 1/2)
               | x # xs \<Rightarrow>
                   (let (best, sc) = py_max_by_score x xs in (best, min (of_nat sc / 3) 1))))"

section \<open>classify_urgency\<close>

text \<open>\<open>ticket.get("priority", "").lower()\<close>: an absent key gives the empty
  string; \<open>None\<close> and every other non-string value have no \<open>.lower()\<close>.\<close>

fun priority_lower :: "json option \<Rightarrow> string res" where
  "priority_lower None = Inr []"
| "priority_lower (Some (JStr s)) = Inr (py_lower s)"
| "priority_lower (Some _) = Inl AttributeError"

fun first_urgency :: "string \<Rightarrow> (string \<times> string list) list \<Rightarrow> (string \<times> rat) option" where
  "first_urgency text [] = None"
| "first_urgency text ((lvl, kws) # rest) =
     (if list_ex (\<lambda>k. re_search k text) kws then Some (lvl, urgency_conf lvl)
      else first_urgency text rest)"

definition classify_urgency :: "json option \<Rightarrow> string \<Rightarrow> string \<Rightarrow> (string \<times> rat) res" where
  "classify_urgency prio subj bdy =
     rbind (priority_lower prio) (\<lambda>explicit.
       if explicit \<in> set URGENCY_LEVELS then Inr (explicit, 1)
       else (let text = intent_text subj bdy
             in if py_blank text then Inr (''medium'', 6/10)
                else (case first_urgency text URGENCY_KEYWORDS of
                        Some r \<Rightarrow> Inr r
                      | None \<Rightarrow> Inr (''medium'', 6/10))))"

section \<open>classify_sentiment\<close>

type_synonym sentiment_model = "string \<Rightarrow> (string \<times> rat) res"

text \<open>\<open>f"{subject}. {body}" if subject and body else subject or body\<close>; the
  embedding module builds the same text.\<close>

definition model_text :: "string \<Rightarrow> string \<Rightarrow> string" where
  "model_text subj bdy =
     (if subj \<noteq> [] \<and> bdy \<noteq> [] then subj @ ''. '' @ bdy
      else if subj \<noteq> [] then subj else bdy)"

definition truncate_words :: "nat \<Rightarrow> string \<Rightarrow> string" where
  "truncate_words n text =
     (let ws = py_split text in if n < length ws then py_join '' '' (take n ws) else text)"

definition classify_sentiment :: "sentiment_model \<Rightarrow> string \<Rightarrow> string \<Rightarrow> string \<times> rat" where
  "classify_sentiment clf subj bdy =
     (let text = model_text subj bdy
      in if py_blank text then (''NEUTRAL'', 1/2)
         else (case clf (truncate_words 400 text) of
                 Inl _ \<Rightarrow> (''NEUTRAL'', 1/2)
               | Inr (lbl, score) \<Rightarrow>
                   (if 45/100 \<le> score \<and> score \<le> 55/100 then (''NEUTRAL'', 1/2)
                    else (py_upper lbl, score))))"

section \<open>get_classification_summary\<close>

record classification =
  c_intent :: string
  c_intent_confidence :: rat
  c_urgency :: string
  c_urgency_confidence :: rat
  c_sentiment :: string
  c_sentiment_confidence :: rat

definition get_classification_summary ::
  "sentiment_model \<Rightarrow> json option \<Rightarrow> string \<Rightarrow> string \<Rightarrow> classification res" where
  "get_classification_summary clf prio subj bdy =
     (let (i, ic) = classify_intent subj bdy
      in rbind (classify_urgency prio subj bdy) (\<lambda>(u, uc).
           let (s, sc) = classify_sentiment clf subj bdy
           in Inr \<lparr>c_intent = i, c_intent_confidence = ic, c_urgency = u,
                   c_urgency_confidence = uc, c_sentiment = s, c_sentiment_confidence = sc\<rparr>))"


section \<open>Lemmas\<close>

lemma findall_count_pos_iff:
  "0 < findall_count prev kw rest \<longleftrightarrow>
     (\<exists>i \<le> length rest. match_here (if i = 0 then prev else Some (rest ! (i - 1))) kw (drop i rest))"
proof (induction prev kw rest rule: findall_count.induct)
  case (1 prev kw rest)
  show ?case
  proof (cases rest)
    case Nil
    then show ?thesis by (simp add: findall_count.simps)
  next
    case (Cons c cs)
    show ?thesis
    proof (cases "match_here prev kw rest")
      case True
      then have "0 < findall_count prev kw rest"
        unfolding Cons findall_count.simps [of prev kw "c # cs"] using True Cons
        by (cases "kw = []") auto
      moreover have "\<exists>i \<le> length rest. match_here (if i = 0 then prev else Some (rest ! (i - 1))) kw (drop i rest)"
        using True by (intro exI [of _ 0]) simp
      ultimately show ?thesis by simp
    next
      case False
      then have eq: "findall_count prev kw rest = findall_count (Some c) kw cs"
        unfolding Cons findall_count.simps [of prev kw "c # cs"] using False Cons by simp
      have IH: "0 < findall_count (Some c) kw cs \<longleftrightarrow>
          (\<exists>i \<le> length cs. match_here (if i = 0 then Some c else Some (cs ! (i - 1))) kw (drop i cs))"
        using "1.IH"(2) [OF Cons] False by simp
      have shift: "(\<exists>i \<le> length rest. match_here (if i = 0 then prev else Some (rest ! (i - 1))) kw (drop i rest))
          \<longleftrightarrow> (\<exists>j \<le> length cs. match_here (if j = 0 then Some c else Some (cs ! (j - 1))) kw (drop j cs))"
      proof
        assume "\<exists>i \<le> length rest. match_here (if i = 0 then prev else Some (rest ! (i - 1))) kw (drop i rest)"
        then obtain i where i: "i \<le> length rest"
          and m: "match_here (if i = 0 then prev else Some (rest ! (i - 1))) kw (drop i rest)" by blast
        with False obtain j where "i = Suc j" by (cases i) auto
        with i m Cons show "\<exists>j \<le> length cs. match_here (if j = 0 then Some c else Some (cs ! (j - 1))) kw (drop j cs)"
          by (intro exI [of _ j]) (cases j, auto)
      next
        assume "\<exists>j \<le> length cs. match_here (if j = 0 then Some c else Some (cs ! (j - 1))) kw (drop j cs)"
        then obtain j where j: "j \<le> length cs"
          and m: "match_here (if j = 0 then Some c else Some (cs ! (j - 1))) kw (drop j cs)" by blast
        with Cons show "\<exists>i \<le> length rest. match_here (if i = 0 then prev else Some (rest ! (i - 1))) kw (drop i rest)"
          by (intro exI [of _ "Suc j"]) (cases j, auto)
      qed
      show ?thesis using eq IH shift by simp
    qed
  qed
qed

lemma re_search_iff:
  "re_search kw text \<longleftrightarrow> (\<exists>i \<le> length text. match_here (prev_char text i) kw (drop i text))"
  unfolding re_search_def list_ex_iff set_upt atLeastLessThan_iff
  by (auto simp: less_Suc_eq_le)


text \<open>The counted scan of re.findall finds a match exactly when re.search does.\<close>
lemma findall_search:
  "0 < findall_count None kw text \<longleftrightarrow> re_search kw text"
  unfolding findall_count_pos_iff re_search_iff prev_char_def by (rule refl)

lemma findall_search_witness:
  "findall_count None ''hang'' ''no hanging here'' = 0 \<and> \<not> re_search ''hang'' ''no hanging here''"
  by (simp add: findall_count.simps match_here_def boundary_def word_at_def is_word_char_def
      re_search_def prev_char_def)


text \<open>The intent confidence is always in [0, 1].\<close>
lemma classify_intent_confidence:
  "unit_interval (snd (classify_intent subj bdy))"
  by (auto simp: classify_intent_def unit_interval_def Let_def
           split: list.splits prod.splits)


lemma first_urgency_Some:
  "first_urgency t tbl = Some (u, c) \<Longrightarrow> u \<in> fst ` set tbl \<and> c = urgency_conf u"
  by (induction t tbl rule: first_urgency.induct) (auto split: if_splits)

lemma urgency_levels_keywords: "fst ` set URGENCY_KEYWORDS = set URGENCY_LEVELS"
  by (simp add: URGENCY_KEYWORDS_def URGENCY_LEVELS_def)

lemma urgency_conf_unit: "unit_interval (urgency_conf u)"
  by (simp add: urgency_conf_def unit_interval_def)


text \<open>Every urgency \<open>classify_urgency\<close> returns is a level, with a confidence in [0, 1].\<close>
lemma classify_urgency_levels:
  assumes "classify_urgency prio subj bdy = Inr (u, c)"
  shows "u \<in> set URGENCY_LEVELS \<and> unit_interval c"
proof -
  obtain explicit where ex: "priority_lower prio = Inr explicit"
    using assms by (cases "priority_lower prio") (simp_all add: classify_urgency_def)
  have medium: "''medium'' \<in> set URGENCY_LEVELS" and six: "unit_interval (6/10)"
    and one: "unit_interval 1"
    by (simp_all add: URGENCY_LEVELS_def unit_interval_def)
  show ?thesis
  proof (cases "explicit \<in> set URGENCY_LEVELS")
    case True
    with assms ex one show ?thesis by (simp add: classify_urgency_def)
  next
    case False
    show ?thesis
    proof (cases "first_urgency (intent_text subj bdy) URGENCY_KEYWORDS")
      case None
      with assms ex False medium show ?thesis
        by (auto simp: classify_urgency_def Let_def unit_interval_def split: if_splits)
    next
      case (Some r)
      with assms ex False
      have "u = ''medium'' \<and> c = 6/10 \<or> first_urgency (intent_text subj bdy) URGENCY_KEYWORDS = Some (u, c)"
        by (auto simp: classify_urgency_def Let_def split: if_splits)
      then show ?thesis
        using medium first_urgency_Some [of "intent_text subj bdy" URGENCY_KEYWORDS u c]
          urgency_conf_unit [of u]
        by (auto simp: urgency_levels_keywords unit_interval_def)
    qed
  qed
qed

text \<open>C24: a ticket whose priority is JSON null makes classify_urgency raise AttributeError (None has no lower()).\<close>
lemma classify_urgency_null_priority:
  "classify_urgency (Some JNull) subj bdy = Inl AttributeError"
  by (simp add: classify_urgency_def)


text \<open>Under the model contract (scores in [0, 1]) the sentiment confidence is in [0, 1].\<close>
lemma classify_sentiment_confidence:
  assumes "\<forall>t l sc. clf t = Inr (l, sc) \<longrightarrow> unit_interval sc"
  shows "unit_interval (snd (classify_sentiment clf subj bdy))"
  using assms
  by (auto simp: classify_sentiment_def unit_interval_def Let_def split: sum.splits)

text \<open>C23: the classification the worker stores satisfies the bounds the spec
  asks of an enrichment result: the urgency is one of critical, high, medium,
  low, and the three confidences lie in [0, 1], provided the sentiment model
  reports scores in [0, 1].\<close>
lemma get_classification_summary_bounds:
  assumes clf: "\<forall>t l sc. clf t = Inr (l, sc) \<longrightarrow> unit_interval sc"
    and res: "get_classification_summary clf prio subj bdy = Inr c"
  shows "c_urgency c \<in> set URGENCY_LEVELS \<and> unit_interval (c_intent_confidence c)
         \<and> unit_interval (c_urgency_confidence c) \<and> unit_interval (c_sentiment_confidence c)"
proof -
  obtain u uc where u: "classify_urgency prio subj bdy = Inr (u, uc)"
    using res by (cases "classify_urgency prio subj bdy")
                 (auto simp: get_classification_summary_def split: prod.splits)
  have c: "c = \<lparr>c_intent = fst (classify_intent subj bdy),
                 c_intent_confidence = snd (classify_intent subj bdy),
                 c_urgency = u, c_urgency_confidence = uc,
                 c_sentiment = fst (classify_sentiment clf subj bdy),
                 c_sentiment_confidence = snd (classify_sentiment clf subj bdy)\<rparr>"
    using res u by (simp add: get_classification_summary_def split: prod.splits)
  show ?thesis
    using c classify_urgency_levels [OF u] classify_intent_confidence [of subj bdy]
      classify_sentiment_confidence [OF clf, of subj bdy]
    by simp
qed

lemma get_classification_summary_bounds_witness:
  "get_classification_summary (\<lambda>_. Inr (''NEGATIVE'', 9/10)) (Some (JStr ''high'')) [] []
     = Inr \<lparr>c_intent = ''general_inquiry'', c_intent_confidence = 0, c_urgency = ''high'',
            c_urgency_confidence = 1, c_sentiment = ''NEUTRAL'', c_sentiment_confidence = 1/2\<rparr>
   \<and> ''high'' \<in> set URGENCY_LEVELS \<and> unit_interval 0 \<and> unit_interval 1 \<and> unit_interval (1/2)"
proof -
  have clf: "\<forall>t l sc. (\<lambda>_. Inr (''NEGATIVE'', 9/10)) t = Inr (l, sc) \<longrightarrow> unit_interval sc"
    by (simp add: unit_interval_def)
  have eq: "get_classification_summary (\<lambda>_. Inr (''NEGATIVE'', 9/10)) (Some (JStr ''high'')) [] []
     = Inr \<lparr>c_intent = ''general_inquiry'', c_intent_confidence = 0, c_urgency = ''high'',
            c_urgency_confidence = 1, c_sentiment = ''NEUTRAL'', c_sentiment_confidence = 1/2\<rparr>"
    by (simp add: get_classification_summary_def classify_intent_def intent_text_def
        classify_urgency_def URGENCY_LEVELS_def py_lower_def py_lower_char_def
        classify_sentiment_def model_text_def py_blank_iff py_isspace_def)
  show ?thesis using get_classification_summary_bounds [OF clf eq] eq by simp
qed


lemma classification_ok:
  assumes "priority_lower prio = Inr p"
  shows "\<exists>c. get_classification_summary clf prio subj bdy = Inr c"
proof -
  have "classify_urgency prio subj bdy \<noteq> Inl e" for e
    using assms by (auto simp: classify_urgency_def Let_def split: option.splits if_splits)
  then have "\<exists>r. classify_urgency prio subj bdy = Inr r"
    by (cases "classify_urgency prio subj bdy") auto
  then obtain u uc where "classify_urgency prio subj bdy = Inr (u, uc)" by auto
  then show ?thesis by (auto simp: get_classification_summary_def split: prod.splits)
qed





lemma py_max_by_score_mem: "py_max_by_score b xs \<in> set (b # xs)"
  by (induction xs arbitrary: b) auto

lemma intent_scores_labels: "fst ` set (intent_scores t) \<subseteq> fst ` set INTENT_KEYWORDS"
  by (force simp: intent_scores_def)







text \<open>C26: classify_intent only returns an intent of INTENT_KEYWORDS or
  general_inquiry.\<close>
lemma classify_intent_label:
  "fst (classify_intent subj bdy) \<in> insert ''general_inquiry'' (fst ` set INTENT_KEYWORDS)"
proof (cases "intent_scores (intent_text subj bdy)")
  case Nil
  then show ?thesis by (simp add: classify_intent_def Let_def)
next
  case (Cons x xs)
  have "py_max_by_score x xs \<in> set (intent_scores (intent_text subj bdy))"
    using py_max_by_score_mem [of x xs] Cons by simp
  then have "fst (py_max_by_score x xs) \<in> fst ` set INTENT_KEYWORDS"
    using intent_scores_labels [of "intent_text subj bdy"] by blast
  then show ?thesis
    using Cons by (cases "py_max_by_score x xs") (simp add: classify_intent_def Let_def)
qed

end
