(* ===== verification/Enrichment.thy ===== *)
theory Enrichment
  imports Classifier
begin

text \<open>
  The enrichment gateway: the three ML stages the worker runs on a ticket,
  \<open>generate_ticket_embedding\<close> (\<open>src/src/processor/embeddings.py\<close>),
  \<open>get_classification_summary\<close> (\<open>Classifier\<close>) and \<open>generate_summary\<close>
  with \<open>summarize_for_display\<close> (\<open>src/src/processor/summarizer.py\<close>). The
  models themselves (a sentence transformer, a sentiment pipeline, a
  summarisation pipeline, loaded once by \<open>src/src/processor/models.py\<close>) are
  the fields of the record \<open>gateway\<close>: each maps its input to a result or to
  the exception it raised. Everything the source does around a model call is
  modelled: the text it builds, the fallbacks, the truncation, the clean-up.
\<close>

record gateway =
  encode :: "string \<Rightarrow> rat list res"
  sentiment_clf :: sentiment_model
  summarizer :: "string \<Rightarrow> int \<Rightarrow> int \<Rightarrow> string res"

text \<open>\<open>MODEL_CONFIGS["embeddings"]["dim"]\<close>: the width of the zero vector returned
  for a blank ticket.\<close>

definition EMBEDDING_DIM :: nat where
  "EMBEDDING_DIM = 384"

section \<open>generate_ticket_embedding\<close>

definition generate_ticket_embedding :: "gateway \<Rightarrow> string \<Rightarrow> string \<Rightarrow> rat list res" where
  "generate_ticket_embedding gw subj bdy =
     (let text = model_text subj bdy
      in if py_blank text then Inr (replicate EMBEDDING_DIM 0) else encode gw text)"

section \<open>generate_summary\<close>

text \<open>The clean-up of a model summary: \<open>strip()\<close>, then a final \<open>.\<close> unless it
  already ends in \<open>.\<close>, \<open>!\<close> or \<open>?\<close>.\<close>

definition finish_summary :: "string \<Rightarrow> string" where
  "finish_summary s =
     (let t = py_strip s
      in if t \<noteq> [] \<and> last t \<notin> set ''.!?'' then t @ ''.'' else t)"

definition generate_summary :: "gateway \<Rightarrow> int \<Rightarrow> int \<Rightarrow> string \<Rightarrow> string \<Rightarrow> string" where
  "generate_summary gw max_length min_length subj bdy =
     (if subj = [] \<and> bdy = [] then []
      else if bdy = [] then subj
      else if length (py_split bdy) < 20 then (if subj \<noteq> [] then subj else py_slice_to bdy 100)
      else
        (let text = (if subj \<noteq> [] then subj @ ''. '' @ bdy else bdy)
         in case summarizer gw (truncate_words 700 text) max_length min_length of
              Inr s \<Rightarrow> finish_summary s
            | Inl _ \<Rightarrow> (if subj \<noteq> [] then py_slice_to subj 100 else py_slice_to bdy 100)))"

section \<open>summarize_for_display\<close>

text \<open>\<open>t.rsplit(' ', 1)[0]\<close>: what comes before the last space, or \<open>t\<close> itself.\<close>

definition rsplit_head :: "string \<Rightarrow> string" where
  "rsplit_head t =
     (if CHR '' '' \<in> set t then rev (tl (dropWhile (\<lambda>c. c \<noteq> CHR '' '') (rev t))) else t)"

definition summarize_for_display :: "gateway \<Rightarrow> string \<Rightarrow> string \<Rightarrow> int \<Rightarrow> string" where
  "summarize_for_display gw subj bdy max_display_length =
     (let s = generate_summary gw 30 10 subj bdy
      in if int (length s) \<le> max_display_length then s
         else rsplit_head (py_slice_to s (max_display_length - 3)) @ ''...'')"

section \<open>generate_summaries_batch and get_summary_stats\<close>

text \<open>\<open>generate_summaries_batch\<close>: \<open>generate_summary\<close> ticket by ticket, in
  order. On tickets whose subject and body are strings \<open>generate_summary\<close>
  raises nothing (the model call has its own fallback), so the batch's
  \<open>except\<close> branch, which appends \<open>ticket.get("subject", "")[:100]\<close>, is not
  reached.\<close>

definition generate_summaries_batch ::
  "gateway \<Rightarrow> int \<Rightarrow> int \<Rightarrow> (string \<times> string) list \<Rightarrow> string list" where
  "generate_summaries_batch gw max_length min_length tickets =
     map (\<lambda>(subj, bdy). generate_summary gw max_length min_length subj bdy) tickets"

record summary_stats =
  original_words :: nat
  original_chars :: nat
  summary_words :: nat
  summary_chars :: nat
  compression_ratio :: rat
  word_reduction :: int
  char_reduction :: int

definition get_summary_stats :: "string \<Rightarrow> string \<Rightarrow> summary_stats" where
  "get_summary_stats original_text summary =
     (let orig_words = length (py_split original_text); orig_chars = length original_text;
          summ_words = length (py_split summary); summ_chars = length summary
      in \<lparr>original_words = orig_words, original_chars = orig_chars,
          summary_words = summ_words, summary_chars = summ_chars,
          compression_ratio = (if 0 < summ_chars then of_nat orig_chars / of_nat summ_chars else 0),
          word_reduction = int orig_words - int summ_words,
          char_reduction = int orig_chars - int summ_chars\<rparr>)"

section \<open>batch_generate_embeddings\<close>

text \<open>The batch variant builds the same text per ticket, but a blank text becomes
  a single space instead of the zero vector, and all texts go to the encoder in
  one call; the call raises when the encoder raises on any text. Batching
  (\<open>batch_size\<close>) and the progress bar do not change the vectors.
  The one call \<open>model.encode(texts)\<close> is modelled as one \<open>encode\<close> per text,
  in order, the first failure raising: this is the batched call of an encoder
  that embeds each text on its own, as sentence-transformers does; an encoder
  whose batch output depends on the other texts (padding effects) is not
  modelled.\<close>

definition batch_text :: "string \<Rightarrow> string \<Rightarrow> string" where
  "batch_text subj bdy = (let text = model_text subj bdy in if py_blank text then '' '' else text)"

definition batch_generate_embeddings ::
  "gateway \<Rightarrow> (string \<times> string) list \<Rightarrow> rat list list res" where
  "batch_generate_embeddings gw tickets =
     (let texts = map (\<lambda>(subj, bdy). batch_text subj bdy) tickets
      in res_sequence (map (encode gw) texts))"

text \<open>What the worker expects of the models: the encoder always answers, and a
  sentiment score is a probability.\<close>

definition gateway_contract :: "gateway \<Rightarrow> bool" where
  "gateway_contract gw \<longleftrightarrow>
     (\<forall>x. \<exists>v. encode gw x = Inr v) \<and> (\<forall>x l sc. sentiment_clf gw x = Inr (l, sc) \<longrightarrow> unit_interval sc)"

section \<open>Lemmas\<close>

lemma length_rsplit_head_le: "length (rsplit_head t) \<le> length t"
proof -
  have "length (dropWhile (\<lambda>c. c \<noteq> CHR '' '') (rev t)) \<le> length t"
    using length_dropWhile_le [of _ "rev t"] by simp
  then show ?thesis
    by (auto simp: rsplit_head_def)
qed

lemma batch_text_nonblank:
  "\<not> py_blank (model_text subj bdy) \<Longrightarrow>
     encode gw (batch_text subj bdy) = generate_ticket_embedding gw subj bdy"
  by (simp add: generate_ticket_embedding_def batch_text_def)

lemma map_batch_text_nonblank:
  "\<forall>(subj, bdy) \<in> set ts. \<not> py_blank (model_text subj bdy) \<Longrightarrow>
     map (encode gw) (map (\<lambda>(subj, bdy). batch_text subj bdy) ts)
     = map (\<lambda>(subj, bdy). generate_ticket_embedding gw subj bdy) ts"
  by (induction ts) (auto simp: batch_text_nonblank)

lemma summary_longer_than_body:
  "generate_summary gw 30 10 ''Cannot login to my account'' ''Help''
     = ''Cannot login to my account''
   \<and> length ''Help'' < length (generate_summary gw 30 10 ''Cannot login to my account'' ''Help'')"
  by (simp add: generate_summary_def py_split.simps py_isspace_def)

lemma batch_blank_differs:
  "generate_ticket_embedding \<lparr>encode = (\<lambda>_. Inr [1]), sentiment_clf = (\<lambda>_. Inr (''POSITIVE'', 1)),
                               summarizer = (\<lambda>_ _ _. Inr [])\<rparr> [] [] = Inr (replicate EMBEDDING_DIM 0)
   \<and> batch_generate_embeddings \<lparr>encode = (\<lambda>_. Inr [1]), sentiment_clf = (\<lambda>_. Inr (''POSITIVE'', 1)),
                                summarizer = (\<lambda>_ _ _. Inr [])\<rparr> [([], [])] = Inr [[1]]"
  by (simp add: generate_ticket_embedding_def batch_generate_embeddings_def batch_text_def
                model_text_def py_blank_def py_strip_def)

text \<open>C34: summarize_for_display keeps its promise len(display) <= max_display_length
  whenever max_display_length >= 3.\<close>
lemma summarize_for_display_length:
  assumes "3 \<le> m"
  shows "int (length (summarize_for_display gw subj bdy m)) \<le> m"
proof -
  let ?s = "generate_summary gw 30 10 subj bdy"
  have "length (py_slice_to ?s (m - 3)) \<le> nat (m - 3)"
    using assms length_py_slice_to_nonneg [of "m - 3" ?s] by simp
  then have "length (rsplit_head (py_slice_to ?s (m - 3))) \<le> nat (m - 3)"
    using length_rsplit_head_le order_trans by blast
  then have "int (length (rsplit_head (py_slice_to ?s (m - 3)))) \<le> m - 3"
    using assms by (simp add: le_nat_iff)
  then show ?thesis
    using assms by (simp add: summarize_for_display_def Let_def)
qed

text \<open>C35: on tickets whose text is not blank, batch_generate_embeddings gives
  what generate_ticket_embedding gives ticket by ticket, errors included.\<close>
lemma batch_generate_embeddings_agree:
  assumes "\<forall>(subj, bdy) \<in> set tickets. \<not> py_blank (model_text subj bdy)"
  shows "batch_generate_embeddings gw tickets
         = res_sequence (map (\<lambda>(subj, bdy). generate_ticket_embedding gw subj bdy) tickets)"
  using map_batch_text_nonblank [OF assms]
  by (simp add: batch_generate_embeddings_def del: map_map)

lemma summarize_for_display_length_witness:
  "(3 :: int) \<le> 10
   \<and> summarize_for_display \<lparr>encode = (\<lambda>_. Inr []), sentiment_clf = (\<lambda>_. Inr (''POSITIVE'', 1)),
                              summarizer = (\<lambda>_ _ _. Inr [])\<rparr> ''Cannot login to my account'' [] 10
       = ''Cannot...''
   \<and> int (length ''Cannot...'') \<le> 10"
proof -
  have "summarize_for_display \<lparr>encode = (\<lambda>_. Inr []), sentiment_clf = (\<lambda>_. Inr (''POSITIVE'', 1)),
                              summarizer = (\<lambda>_ _ _. Inr [])\<rparr> ''Cannot login to my account'' [] 10
       = ''Cannot...''"
    by (simp add: summarize_for_display_def generate_summary_def rsplit_head_def py_slice_to_def)
  then show ?thesis
    using summarize_for_display_length [of 10] by simp
qed

lemma batch_generate_embeddings_agree_witness:
  "\<not> py_blank (model_text ''Login'' ''Cannot log in'')
   \<and> batch_generate_embeddings \<lparr>encode = (\<lambda>t. Inr [of_nat (length t)]),
                                sentiment_clf = (\<lambda>_. Inr (''POSITIVE'', 1)),
                                summarizer = (\<lambda>_ _ _. Inr [])\<rparr> [(''Login'', ''Cannot log in'')]
       = Inr [[20]]"
proof -
  have nb: "\<forall>(subj, bdy) \<in> set [(''Login'', ''Cannot log in'')]. \<not> py_blank (model_text subj bdy)"
    by (simp add: model_text_def py_blank_def py_strip_def py_isspace_def)
  show ?thesis
    using batch_generate_embeddings_agree [OF nb] nb
    by (simp add: generate_ticket_embedding_def model_text_def py_blank_def py_strip_def py_isspace_def)
qed

lemma embedding_ok:
  "gateway_contract gw \<Longrightarrow> \<exists>v. generate_ticket_embedding gw subj bdy = Inr v"
  by (auto simp: generate_ticket_embedding_def gateway_contract_def Let_def)

lemma compression_ratio_gt_1:
  "1 < compression_ratio (get_summary_stats t s) \<longleftrightarrow> s \<noteq> [] \<and> length s < length t"
  by (simp add: get_summary_stats_def Let_def)

lemma get_summary_stats_docstring:
  "1 < compression_ratio (get_summary_stats (concat (replicate 100 ''Long text '')) ''Short summary'')"
  by (simp add: compression_ratio_gt_1 length_concat sum_list_replicate)

lemma generate_summaries_batch_nth:
  "i < length ts \<Longrightarrow>
     generate_summaries_batch gw ml mn ts ! i = generate_summary gw ml mn (fst (ts ! i)) (snd (ts ! i))
   \<and> length (generate_summaries_batch gw ml mn ts) = length ts"
  by (simp add: generate_summaries_batch_def case_prod_beta)

end
