(* ===== verification/Config.thy ===== *)
theory Config
  imports Prelude
begin

text \<open>
  \<open>src/src/common/config.py\<close>: the five configuration dataclasses with their
  defaults, and their \<open>from_env\<close> constructors over an environment given as a
  map from variable names to values. \<open>os.getenv(k, d)\<close> is a lookup with a
  default; \<open>int(s)\<close> is a parse that raises \<open>ValueError\<close>, so a malformed
  numeric variable makes \<open>ProcessorConfig.from_env\<close> raise and the worker
  never starts. \<open>os.path.expanduser\<close> is given the home directory.
  \<open>ProcessorConfig.__repr__\<close> is the string it formats; the lemmas show
  that it shows only the region, the LocalStack flag, the queue and the
  table.
\<close>

type_synonym env = "string \<rightharpoonup> string"

record aws_config =
  region :: string
  endpoint_url :: "string option"
  use_localstack :: bool

record s3_config =
  raw_bucket :: string
  enriched_bucket :: string

record sqs_config =
  queue_name :: string
  poll_interval :: int
  max_messages :: int
  visibility_timeout :: int

record dynamodb_config =
  table_name :: string

record model_config =
  cache_dir :: string
  embedding_model :: string
  classifier_model :: string
  summarizer_model :: string
  max_summary_length :: int

record processor_config =
  aws :: aws_config
  s3 :: s3_config
  sqs :: sqs_config
  dynamodb :: dynamodb_config
  model :: model_config

section \<open>Environment access\<close>

definition getenv :: "env \<Rightarrow> string \<Rightarrow> string \<Rightarrow> string" where
  "getenv e k d = (case e k of None \<Rightarrow> d | Some v \<Rightarrow> v)"

text \<open>\<open>int(s)\<close> on a string: surrounding white space, an optional sign, then one
  or more decimal digits. (Underscores between digits, which CPython also
  accepts, are not modelled.)\<close>

definition digit_val :: "char \<Rightarrow> int" where
  "digit_val c = int (of_char c) - 48"

definition is_digit :: "char \<Rightarrow> bool" where
  "is_digit c \<longleftrightarrow> (48 \<le> (of_char c :: nat) \<and> (of_char c :: nat) \<le> 57)"

definition digits_val :: "string \<Rightarrow> int" where
  "digits_val ds = foldl (\<lambda>acc c. 10 * acc + digit_val c) 0 ds"

definition py_int :: "string \<Rightarrow> int res" where
  "py_int s =
     (let t = py_strip s;
          (sgn, ds) = (case t of
                         c # cs \<Rightarrow> (if c = CHR ''-'' then (-1, cs)
                                   else if c = CHR ''+'' then (1, cs) else (1, t))
                       | [] \<Rightarrow> (1, []))
      in if ds \<noteq> [] \<and> list_all is_digit ds then Inr (sgn * digits_val ds) else Inl ValueError)"

section \<open>Defaults and from_env\<close>

definition aws_from_env :: "env \<Rightarrow> aws_config" where
  "aws_from_env e =
     (let ls = (py_lower (getenv e ''USE_LOCALSTACK'' ''false'') = ''true'')
      in \<lparr>region = getenv e ''AWS_REGION'' ''us-east-1'',
          endpoint_url = (if ls then e ''AWS_ENDPOINT_URL'' else None),
          use_localstack = ls\<rparr>)"

definition s3_from_env :: "env \<Rightarrow> s3_config" where
  "s3_from_env e =
     \<lparr>raw_bucket = getenv e ''S3_BUCKET_RAW'' ''tickets-raw'',
      enriched_bucket = getenv e ''S3_BUCKET_ENRICHED'' ''tickets-enriched''\<rparr>"

definition sqs_from_env :: "env \<Rightarrow> sqs_config res" where
  "sqs_from_env e =
     rbind (py_int (getenv e ''SQS_POLL_INTERVAL'' ''20'')) (\<lambda>pi.
     rbind (py_int (getenv e ''SQS_MAX_MESSAGES'' ''10'')) (\<lambda>mm.
     rbind (py_int (getenv e ''SQS_VISIBILITY_TIMEOUT'' ''300'')) (\<lambda>vt.
       Inr \<lparr>queue_name = getenv e ''SQS_QUEUE_NAME'' ''ticket-processing-queue'',
            poll_interval = pi, max_messages = mm, visibility_timeout = vt\<rparr>)))"

definition dynamodb_from_env :: "env \<Rightarrow> dynamodb_config" where
  "dynamodb_from_env e = \<lparr>table_name = getenv e ''DYNAMODB_TABLE'' ''tickets''\<rparr>"

definition model_from_env :: "string \<Rightarrow> env \<Rightarrow> model_config res" where
  "model_from_env home e =
     rbind (py_int (getenv e ''MAX_SUMMARY_LENGTH'' ''50'')) (\<lambda>msl.
       Inr \<lparr>cache_dir = getenv e ''MODEL_CACHE_DIR'' (home @ ''/.cache/models''),
            embedding_model = getenv e ''EMBEDDING_MODEL'' ''sentence-transformers/all-MiniLM-L6-v2'',
            classifier_model = getenv e ''CLASSIFIER_MODEL''
                                 ''distilbert-base-uncased-finetuned-sst-2-english'',
            summarizer_model = getenv e ''SUMMARIZER_MODEL'' ''sshleifer/distilbart-cnn-6-6'',
            max_summary_length = msl\<rparr>)"

definition processor_from_env :: "string \<Rightarrow> env \<Rightarrow> processor_config res" where
  "processor_from_env home e =
     rbind (sqs_from_env e) (\<lambda>q.
     rbind (model_from_env home e) (\<lambda>m.
       Inr \<lparr>aws = aws_from_env e, s3 = s3_from_env e, sqs = q,
            dynamodb = dynamodb_from_env e, model = m\<rparr>))"

text \<open>\<open>ProcessorConfig.__repr__\<close>, the f-string the worker logs: a \<open>bool\<close>
  prints as \<open>True\<close> or \<open>False\<close>.\<close>

definition py_str_bool :: "bool \<Rightarrow> string" where
  "py_str_bool b = (if b then ''True'' else ''False'')"

definition processor_config_repr :: "processor_config \<Rightarrow> string" where
  "processor_config_repr cfg =
     ''ProcessorConfig('' @ ''region='' @ region (aws cfg) @ '', ''
       @ ''localstack='' @ py_str_bool (use_localstack (aws cfg)) @ '', ''
       @ ''queue='' @ queue_name (sqs cfg) @ '', ''
       @ ''table='' @ table_name (dynamodb cfg) @ '')''"

text \<open>The configuration \<open>ProcessorConfig.from_env()\<close> builds in an empty
  environment, for a user whose home is \<open>/root\<close>.\<close>

definition example_config :: processor_config where
  "example_config =
     \<lparr>aws = \<lparr>region = ''us-east-1'', endpoint_url = None, use_localstack = False\<rparr>,
      s3 = \<lparr>raw_bucket = ''tickets-raw'', enriched_bucket = ''tickets-enriched''\<rparr>,
      sqs = \<lparr>queue_name = ''ticket-processing-queue'', poll_interval = 20, max_messages = 10,
             visibility_timeout = 300\<rparr>,
      dynamodb = \<lparr>table_name = ''tickets''\<rparr>,
      model = \<lparr>cache_dir = ''/root/.cache/models'',
               embedding_model = ''sentence-transformers/all-MiniLM-L6-v2'',
               classifier_model = ''distilbert-base-uncased-finetuned-sst-2-english'',
               summarizer_model = ''sshleifer/distilbart-cnn-6-6'', max_summary_length = 50\<rparr>\<rparr>"

section \<open>Lemmas\<close>

lemma py_int_error: "py_int s = Inl x \<Longrightarrow> x = ValueError"
  by (auto simp: py_int_def Let_def split: list.splits if_splits prod.splits)

text \<open>In an empty environment ProcessorConfig.from_env builds the documented
  defaults (buckets tickets-raw and tickets-enriched, queue
  ticket-processing-queue, 20 s long polling, batches of 10, table tickets,
  summaries of at most 50 tokens).\<close>
lemma processor_from_env_defaults: "processor_from_env ''/root'' Map.empty = Inr example_config"
  by (simp add: processor_from_env_def sqs_from_env_def model_from_env_def aws_from_env_def
                s3_from_env_def dynamodb_from_env_def example_config_def getenv_def py_int_def
                py_strip_def py_isspace_def is_digit_def digits_val_def digit_val_def py_lower_def
                py_lower_char_def)

text \<open>The representation is safe for logging, as its docstring says: it shows
  the region, the LocalStack flag, the queue and the table, and nothing else
  of the configuration (the endpoint, the buckets, the model settings).\<close>

lemma processor_config_repr_fields:
  assumes "region (aws c1) = region (aws c2)" "use_localstack (aws c1) = use_localstack (aws c2)"
    "queue_name (sqs c1) = queue_name (sqs c2)" "table_name (dynamodb c1) = table_name (dynamodb c2)"
  shows "processor_config_repr c1 = processor_config_repr c2"
  using assms by (simp add: processor_config_repr_def)

lemma processor_config_repr_example:
  "processor_config_repr example_config =
     ''ProcessorConfig(region=us-east-1, localstack=False, queue=ticket-processing-queue, table=tickets)''"
  by (simp add: processor_config_repr_def example_config_def py_str_bool_def)

text \<open>C29: ProcessorConfig.from_env fails exactly when one of its four integer
  variables is set to a string int() rejects, and then with ValueError.\<close>
lemma processor_from_env_error:
  "processor_from_env home e = Inl x \<longleftrightarrow>
     x = ValueError \<and>
     (\<exists>(v, d) \<in> set [(''SQS_POLL_INTERVAL'', ''20''), (''SQS_MAX_MESSAGES'', ''10''),
                     (''SQS_VISIBILITY_TIMEOUT'', ''300''), (''MAX_SUMMARY_LENGTH'', ''50'')].
        py_int (getenv e v d) = Inl ValueError)"
  by (auto simp: processor_from_env_def sqs_from_env_def model_from_env_def rbind_def
           split: sum.splits dest: py_int_error)

lemma processor_from_env_error_witness:
  "processor_from_env ''/root'' [''SQS_MAX_MESSAGES'' \<mapsto> ''ten''] = Inl ValueError
   \<and> ValueError = ValueError
   \<and> py_int (getenv [''SQS_MAX_MESSAGES'' \<mapsto> ''ten''] ''SQS_MAX_MESSAGES'' ''10'') = Inl ValueError"
proof -
  have p: "py_int (getenv [''SQS_MAX_MESSAGES'' \<mapsto> ''ten''] ''SQS_MAX_MESSAGES'' ''10'') = Inl ValueError"
    by (simp add: getenv_def py_int_def py_strip_def py_isspace_def is_digit_def)
  show ?thesis
    using processor_from_env_error [of "''/root''" "[''SQS_MAX_MESSAGES'' \<mapsto> ''ten'']" ValueError] p
    by auto
qed

end
