(* ===== verification/Worker.thy ===== *)
theory Worker
  imports Schemas Enrichment Config
begin

text \<open>
  \<open>TicketProcessor\<close> of \<open>src/src/processor/worker.py\<close>. The state is one
  record holding what the worker's boto3 clients see and what the worker
  keeps itself:
  \<^item> the raw bucket objects (bucket and key to the value the bytes decode to,
    \<open>None\<close> when they are not JSON), the enriched bucket objects and the
    DynamoDB table keyed by \<open>(ticket_id, created_at)\<close>;
  \<^item> the receipt handles of the messages deleted from the queue, in order;
  \<^item> whether DynamoDB, S3 and SQS accept writes (a call to a service that is
    down raises);
  \<^item> the clock \<open>datetime.utcnow().isoformat()\<close> reads;
  \<^item> the counters \<open>tickets_processed\<close> and \<open>tickets_failed\<close> of \<open>self.stats\<close>.
  A stateful step returns the exception it raised, if any, with the state as
  it was when the exception left it: writes done before the exception stay
  done, as they do in the service.
  S3 is two disjoint maps: the raw objects the worker only reads and the
  enriched objects it only writes, so its writes never change what it reads
  (a configuration with one bucket for both is outside the model); and
  \<open>s3_up\<close> governs writes only: \<open>get_object\<close> of an existing raw object
  always answers. The receipt handle is the message's identity: the model
  does not issue a fresh handle per receive as SQS does.
\<close>

record wstate =
  raw_objects :: "(string \<times> string) \<rightharpoonup> json option"
  enriched_objects :: "(string \<times> string) \<rightharpoonup> enriched_ticket"
  table :: "(string \<times> int) \<rightharpoonup> dynamodb_ticket"
  deleted :: "string list"
  dynamo_up :: bool
  s3_up :: bool
  sqs_up :: bool
  clock :: string
  tickets_processed :: nat
  tickets_failed :: nat

text \<open>An SQS message: \<open>message["ReceiptHandle"]\<close>, and \<open>message["Body"]\<close>
  as \<open>json.loads\<close> decodes it.\<close>

record message =
  receipt_handle :: string
  msg_body :: "json option"

type_synonym outcome = "py_exc option \<times> wstate"

section \<open>fetch_ticket_from_s3\<close>

text \<open>\<open>get_object\<close> wants string parameters; a missing object raises
  \<open>NoSuchKey\<close>; \<open>json.loads\<close> of the body may raise.\<close>

fun fetch_ticket_from_s3 :: "wstate \<Rightarrow> json \<Rightarrow> json \<Rightarrow> json res" where
  "fetch_ticket_from_s3 s (JStr b) (JStr k) =
     (case raw_objects s (b, k) of
        None \<Rightarrow> Inl NoSuchKey
      | Some None \<Rightarrow> Inl JSONDecodeError
      | Some (Some v) \<Rightarrow> Inr v)"
| "fetch_ticket_from_s3 s _ _ = Inl ParamValidationError"

section \<open>process_ticket\<close>

text \<open>Validation, embedding, classification, summary, \<open>EnrichmentData\<close>,
  \<open>EnrichedTicket.from_raw\<close>. The ML stages read \<open>subject\<close>, \<open>body\<close> and
  \<open>priority\<close> from the raw dict; after validation the first two are the
  validated strings. \<open>raw_ticket.get\<close> on a value that is not a dict raises
  \<open>AttributeError\<close> before validation starts.\<close>

definition MODEL_VERSION :: string where
  "MODEL_VERSION = ''1.0.0''"

fun process_ticket :: "gateway \<Rightarrow> processor_config \<Rightarrow> string \<Rightarrow> json \<Rightarrow> enriched_ticket res" where
  "process_ticket gw cfg now (JObj kvs) =
     rbind (validate_raw_ticket kvs) (\<lambda>t.
     rbind (generate_ticket_embedding gw (subject t) (body t)) (\<lambda>emb.
     rbind (get_classification_summary (sentiment_clf gw) (jlookup kvs ''priority'')
              (subject t) (body t)) (\<lambda>c.
     let smry = generate_summary gw (max_summary_length (model cfg)) 10 (subject t) (body t)
     in rbind (validate_enrichment
                 \<lparr>embedding = emb, intent = c_intent c,
                  intent_confidence = c_intent_confidence c, urgency = c_urgency c,
                  urgency_confidence = c_urgency_confidence c, sentiment = c_sentiment c,
                  sentiment_confidence = c_sentiment_confidence c, summary = smry,
                  processed_at = now, model_version = MODEL_VERSION\<rparr>) (\<lambda>e.
        Inr (from_raw t e)))))"
| "process_ticket gw cfg now _ = Inl AttributeError"

section \<open>store_results\<close>

text \<open>\<open>table.put_item\<close>: an upsert keyed by \<open>(ticket_id, created_at)\<close>. DynamoDB
  rejects an empty partition key.\<close>

definition put_item :: "dynamodb_ticket \<Rightarrow> wstate \<Rightarrow> outcome" where
  "put_item it s =
     (if dynamo_up s \<and> ddb_ticket_id it \<noteq> []
      then (None, s\<lparr>table := (table s)((ddb_ticket_id it, ddb_created_at it) \<mapsto> it)\<rparr>)
      else (Some ServiceError, s))"

definition put_object :: "string \<Rightarrow> string \<Rightarrow> enriched_ticket \<Rightarrow> wstate \<Rightarrow> outcome" where
  "put_object b k t s =
     (if s3_up s then (None, s\<lparr>enriched_objects := (enriched_objects s)((b, k) \<mapsto> t)\<rparr>)
      else (Some ServiceError, s))"

text \<open>DynamoDB first, then S3, as the source orders the two writes.\<close>

definition store_results :: "processor_config \<Rightarrow> enriched_ticket \<Rightarrow> wstate \<Rightarrow> outcome" where
  "store_results cfg t s =
     (case put_item (from_enriched t) s of
        (Some e, s') \<Rightarrow> (Some e, s')
      | (None, s') \<Rightarrow> put_object (enriched_bucket (s3 cfg)) (s3_key_of (ticket_id t)) t s')"

section \<open>One record of a message\<close>

text \<open>Where the record points: \<open>record["s3"]["bucket"]["name"]\<close> and
  \<open>record["s3"]["object"]["key"]\<close> for an S3 event record, else the raw bucket
  and \<open>record.get("key", record.get("Key"))\<close>.\<close>

definition record_location :: "processor_config \<Rightarrow> json \<Rightarrow> (json \<times> json) res" where
  "record_location cfg r =
     rbind (py_in ''s3'' r) (\<lambda>has_s3.
       if has_s3 then
         rbind (py_getitem r ''s3'') (\<lambda>ev.
         rbind (rbind (py_getitem ev ''bucket'') (\<lambda>b. py_getitem b ''name'')) (\<lambda>bucket.
         rbind (rbind (py_getitem ev ''object'') (\<lambda>ob. py_getitem ob ''key'')) (\<lambda>key.
           Inr (bucket, key))))
       else
         rbind (py_get r ''Key'' JNull) (\<lambda>d.
         rbind (py_get r ''key'' d) (\<lambda>key.
           Inr (JStr (raw_bucket (s3 cfg)), key))))"

text \<open>The reads of one record: where it points, \<open>fetch_ticket_from_s3\<close>,
  \<open>process_ticket\<close>.\<close>

definition fetch_and_process :: "gateway \<Rightarrow> processor_config \<Rightarrow> json \<Rightarrow> wstate \<Rightarrow> enriched_ticket res" where
  "fetch_and_process gw cfg r s =
     rbind (record_location cfg r) (\<lambda>(b, k).
       rbind (fetch_ticket_from_s3 s b k) (\<lambda>raw. process_ticket gw cfg (clock s) raw))"

text \<open>Fetch, process, store, then \<open>tickets_processed += 1\<close>.\<close>

definition process_record :: "gateway \<Rightarrow> processor_config \<Rightarrow> json \<Rightarrow> wstate \<Rightarrow> outcome" where
  "process_record gw cfg r s =
     (case fetch_and_process gw cfg r s of
        Inl e \<Rightarrow> (Some e, s)
      | Inr t \<Rightarrow>
          (case store_results cfg t s of
             (Some e, s') \<Rightarrow> (Some e, s')
           | (None, s') \<Rightarrow> (None, s'\<lparr>tickets_processed := Suc (tickets_processed s')\<rparr>)))"

text \<open>The loop over \<open>body["Records"]\<close>: the first exception leaves the loop.\<close>

fun process_records :: "gateway \<Rightarrow> processor_config \<Rightarrow> json list \<Rightarrow> wstate \<Rightarrow> outcome" where
  "process_records gw cfg [] s = (None, s)"
| "process_records gw cfg (r # rs) s =
     (case process_record gw cfg r s of
        (Some e, s') \<Rightarrow> (Some e, s')
      | (None, s') \<Rightarrow> process_records gw cfg rs s')"

section \<open>One message\<close>

text \<open>\<open>sqs.delete_message\<close>.\<close>

definition delete_message :: "string \<Rightarrow> wstate \<Rightarrow> outcome" where
  "delete_message rh s =
     (if sqs_up s then (None, s\<lparr>deleted := deleted s @ [rh]\<rparr>) else (Some ServiceError, s))"

text \<open>The body of the \<open>try\<close> block for one message: decode, run every record
  when the body has \<open>"Records"\<close>, then delete the message. A body without
  \<open>"Records"\<close> runs nothing and is deleted.\<close>

definition process_message :: "gateway \<Rightarrow> processor_config \<Rightarrow> message \<Rightarrow> wstate \<Rightarrow> outcome" where
  "process_message gw cfg m s =
     (case msg_body m of
        None \<Rightarrow> (Some JSONDecodeError, s)
      | Some b \<Rightarrow>
          (case py_in ''Records'' b of
             Inl e \<Rightarrow> (Some e, s)
           | Inr has_records \<Rightarrow>
               (case (if has_records
                      then (case rbind (py_getitem b ''Records'') py_iter of
                              Inl e \<Rightarrow> (Some e, s)
                            | Inr recs \<Rightarrow> process_records gw cfg recs s)
                      else (None, s)) of
                  (Some e, s') \<Rightarrow> (Some e, s')
                | (None, s') \<Rightarrow> delete_message (receipt_handle m) s')))"

text \<open>The \<open>except Exception\<close> around it: \<open>tickets_failed += 1\<close>, the message
  stays in the queue.\<close>

definition handle_message :: "gateway \<Rightarrow> processor_config \<Rightarrow> wstate \<Rightarrow> message \<Rightarrow> wstate" where
  "handle_message gw cfg s m =
     (case process_message gw cfg m s of
        (None, s') \<Rightarrow> s'
      | (Some e, s') \<Rightarrow> s'\<lparr>tickets_failed := Suc (tickets_failed s')\<rparr>)"

section \<open>poll_and_process and run_forever\<close>

text \<open>\<open>receive_message\<close> is the environment's answer: the batch it delivered,
  or the exception it raised (then the poll returns 0).\<close>

definition poll_and_process ::
  "gateway \<Rightarrow> processor_config \<Rightarrow> message list res \<Rightarrow> wstate \<Rightarrow> nat \<times> wstate" where
  "poll_and_process gw cfg resp s =
     (case resp of
        Inl _ \<Rightarrow> (0, s)
      | Inr [] \<Rightarrow> (0, s)
      | Inr msgs \<Rightarrow> (length msgs, foldl (handle_message gw cfg) s msgs))"

text \<open>\<open>run_forever\<close> until the interrupt: one poll per answer of the queue. The
  sleep after an empty poll changes no state.\<close>

fun run_forever :: "gateway \<Rightarrow> processor_config \<Rightarrow> message list res list \<Rightarrow> wstate \<Rightarrow> wstate" where
  "run_forever gw cfg [] s = s"
| "run_forever gw cfg (r # rs) s = run_forever gw cfg rs (snd (poll_and_process gw cfg r s))"

text \<open>\<open>print_stats\<close>, run when the interrupt ends \<open>run_forever\<close>: the values
  it logs, namely the runtime in seconds since \<open>start_time\<close> (an input: the
  clock is not read here), the two counters, and the throughput, logged only
  when the runtime is positive.\<close>

definition print_stats :: "rat \<Rightarrow> wstate \<Rightarrow> rat \<times> nat \<times> nat \<times> rat option" where
  "print_stats elapsed s =
     (elapsed, tickets_processed s, tickets_failed s,
      if 0 < elapsed then Some (of_nat (tickets_processed s) / elapsed) else None)"

section \<open>Derived predicates\<close>

text \<open>What a step reads and no step of the worker writes: the raw objects, the
  availability of the three services and the clock.\<close>

definition env_view :: "wstate \<Rightarrow> ((string \<times> string) \<rightharpoonup> json option) \<times> bool \<times> bool \<times> bool \<times> string" where
  "env_view s = (raw_objects s, dynamo_up s, s3_up s, sqs_up s, clock s)"

definition record_ok :: "gateway \<Rightarrow> processor_config \<Rightarrow> wstate \<Rightarrow> json \<Rightarrow> bool" where
  "record_ok gw cfg s r \<longleftrightarrow> fst (process_record gw cfg r s) = None"

definition msg_ok :: "gateway \<Rightarrow> processor_config \<Rightarrow> wstate \<Rightarrow> message \<Rightarrow> bool" where
  "msg_ok gw cfg s m \<longleftrightarrow> fst (process_message gw cfg m s) = None"

text \<open>The records a decoded body asks for: \<open>None\<close> when the code raises before the
  loop, the empty list when the body has no \<open>"Records"\<close>.\<close>

definition body_records :: "json \<Rightarrow> json list option" where
  "body_records b =
     (case py_in ''Records'' b of
        Inl _ \<Rightarrow> None
      | Inr h \<Rightarrow> (if h then (case rbind (py_getitem b ''Records'') py_iter of
                               Inl _ \<Rightarrow> None | Inr recs \<Rightarrow> Some recs)
                 else Some []))"

text \<open>How many records of a message \<open>process_records\<close> gets through before
  its first failure, each of them counted in \<open>tickets_processed\<close>.\<close>

definition records_run :: "gateway \<Rightarrow> processor_config \<Rightarrow> wstate \<Rightarrow> message \<Rightarrow> nat" where
  "records_run gw cfg s m =
     (case msg_body m of
        None \<Rightarrow> 0
      | Some b \<Rightarrow> (case body_records b of None \<Rightarrow> 0 | Some recs \<Rightarrow> length (takeWhile (record_ok gw cfg s) recs)))"

definition blob_has_row :: "wstate \<Rightarrow> bool" where
  "blob_has_row s \<longleftrightarrow>
     (\<forall>k t. enriched_objects s k = Some t \<longrightarrow> table s (ticket_id t, created_at t) \<noteq> None)"

text \<open>The same enriched ticket as processed at clock \<open>c\<close>.\<close>

definition at_clock :: "string \<Rightarrow> enriched_ticket \<Rightarrow> enriched_ticket" where
  "at_clock c t = t\<lparr>enrichment := (enrichment t)\<lparr>processed_at := c\<rparr>\<rparr>"

text \<open>The enriched bucket as a store of tickets by id, the view the spec's
  dual-store writer promises (a blob under \<open>"{ticket_id}.json"\<close>), and the
  abstract operation it promises: an upsert of the whole record.\<close>

definition blob_view :: "processor_config \<Rightarrow> wstate \<Rightarrow> string \<rightharpoonup> enriched_ticket" where
  "blob_view cfg s tid = enriched_objects s (enriched_bucket (s3 cfg), s3_key_of tid)"

definition ticket_upsert ::
  "enriched_ticket \<Rightarrow> (string \<rightharpoonup> enriched_ticket) \<Rightarrow> string \<rightharpoonup> enriched_ticket" where
  "ticket_upsert t b = b(ticket_id t \<mapsto> t)"

section \<open>Example values\<close>

text \<open>A gateway whose models always answer, and a world with every service up
  and nothing stored yet.\<close>

definition example_gateway :: gateway where
  "example_gateway =
     \<lparr>encode = (\<lambda>_. Inr [0, 1/2]), sentiment_clf = (\<lambda>_. Inr (''NEGATIVE'', 9/10)),
      summarizer = (\<lambda>_ _ _. Inr ''Customer cannot login'')\<rparr>"

definition example_world :: wstate where
  "example_world =
     \<lparr>raw_objects = Map.empty, enriched_objects = Map.empty, table = Map.empty, deleted = [],
      dynamo_up = True, s3_up = True, sqs_up = True, clock = ''2024-01-15T10:30:00'',
      tickets_processed = 0, tickets_failed = 0\<rparr>"

section \<open>Lemmas\<close>

lemma put_item_env: "env_view (snd (put_item it s)) = env_view s"
  by (simp add: put_item_def env_view_def)

lemma put_object_env: "env_view (snd (put_object b k t s)) = env_view s"
  by (simp add: put_object_def env_view_def)

lemma store_results_env: "env_view (snd (store_results cfg t s)) = env_view s"
  by (auto simp: store_results_def put_item_def put_object_def env_view_def split: prod.splits option.splits)

lemma process_record_env: "env_view (snd (process_record gw cfg r s)) = env_view s"
proof (cases "fetch_and_process gw cfg r s")
  case (Inl e)
  then show ?thesis by (simp add: process_record_def)
next
  case (Inr t)
  obtain x s' where st: "store_results cfg t s = (x, s')" by fastforce
  with store_results_env [of cfg t s] have "env_view s' = env_view s" by simp
  with Inr st show ?thesis
    by (cases x) (simp_all add: process_record_def env_view_def)
qed

lemma process_records_env: "env_view (snd (process_records gw cfg rs s)) = env_view s"
proof (induction rs arbitrary: s)
  case Nil then show ?case by simp
next
  case (Cons r rs)
  then show ?case using process_record_env [of gw cfg r s]
    by (auto split: prod.splits option.splits)
qed

lemma fetch_env:
  "raw_objects s = raw_objects s' \<Longrightarrow> fetch_ticket_from_s3 s b k = fetch_ticket_from_s3 s' b k"
  by (cases "(s, b, k)" rule: fetch_ticket_from_s3.cases) simp_all

lemma store_results_outcome_env:
  "env_view s = env_view s' \<Longrightarrow> fst (store_results cfg t s) = fst (store_results cfg t s')"
  by (simp add: store_results_def put_item_def put_object_def env_view_def)

lemma fetch_and_process_env:
  "env_view s = env_view s' \<Longrightarrow> fetch_and_process gw cfg r s = fetch_and_process gw cfg r s'"
  using fetch_env [of s s'] by (simp add: fetch_and_process_def env_view_def)

lemma process_record_outcome_env:
  assumes "env_view s = env_view s'"
  shows "fst (process_record gw cfg r s) = fst (process_record gw cfg r s')"
proof (cases "fetch_and_process gw cfg r s")
  case (Inl e)
  moreover have "fetch_and_process gw cfg r s' = Inl e"
    using Inl fetch_and_process_env [OF assms] by simp
  ultimately show ?thesis by (simp add: process_record_def)
next
  case (Inr t)
  moreover have "fetch_and_process gw cfg r s' = Inr t"
    using Inr fetch_and_process_env [OF assms] by simp
  moreover obtain x s1 x' s2 where st: "store_results cfg t s = (x, s1)"
    and st': "store_results cfg t s' = (x', s2)" by fastforce+
  moreover have "x = x'"
    using store_results_outcome_env [OF assms, of cfg t] st st' by simp
  ultimately show ?thesis
    by (cases x') (simp_all add: process_record_def)
qed

lemma process_records_ok:
  "fst (process_records gw cfg rs s) = None \<longleftrightarrow> (\<forall>r \<in> set rs. record_ok gw cfg s r)"
proof (induction rs arbitrary: s)
  case Nil then show ?case by simp
next
  case (Cons r rs)
  obtain x s' where pr: "process_record gw cfg r s = (x, s')" by fastforce
  have env: "env_view s' = env_view s"
    using process_record_env [of gw cfg r s] pr by simp
  have "\<forall>q. record_ok gw cfg s' q = record_ok gw cfg s q"
    using process_record_outcome_env [OF env] by (simp add: record_ok_def)
  with Cons.IH [of s'] pr show ?case
    by (cases x) (auto simp: record_ok_def)
qed

lemma record_ok_env:
  "env_view s = env_view s' \<Longrightarrow> record_ok gw cfg s = record_ok gw cfg s'"
  using process_record_outcome_env [of s s'] by (auto simp: record_ok_def fun_eq_iff)

text \<open>What the processing of records leaves alone: the deletions and the failure count.\<close>

lemma process_record_queue:
  "deleted (snd (process_record gw cfg r s)) = deleted s
   \<and> tickets_failed (snd (process_record gw cfg r s)) = tickets_failed s"
  by (auto simp: process_record_def store_results_def put_item_def put_object_def
           split: sum.splits prod.splits option.splits)

lemma process_records_queue:
  "deleted (snd (process_records gw cfg rs s)) = deleted s
   \<and> tickets_failed (snd (process_records gw cfg rs s)) = tickets_failed s"
proof (induction rs arbitrary: s)
  case Nil then show ?case by simp
next
  case (Cons r rs)
  obtain x s' where pr: "process_record gw cfg r s = (x, s')" by fastforce
  with process_record_queue [of gw cfg r s] Cons.IH [of s'] show ?case
    by (cases x) auto
qed

lemma process_message_cases:
  "process_message gw cfg m s =
     (case msg_body m of
        None \<Rightarrow> (Some JSONDecodeError, s)
      | Some b \<Rightarrow>
          (case py_in ''Records'' b of
             Inl e \<Rightarrow> (Some e, s)
           | Inr h \<Rightarrow>
              (if h then (case rbind (py_getitem b ''Records'') py_iter of
                            Inl e \<Rightarrow> (Some e, s)
                          | Inr recs \<Rightarrow>
                              (case process_records gw cfg recs s of
                                 (Some e, s') \<Rightarrow> (Some e, s')
                               | (None, s') \<Rightarrow> delete_message (receipt_handle m) s'))
               else delete_message (receipt_handle m) s)))"
  by (simp add: process_message_def split: option.splits sum.splits prod.splits)

lemma delete_message_facts:
  "let (x, s') = delete_message rh s in
     (x = None \<longleftrightarrow> sqs_up s) \<and> deleted s' = deleted s @ (if x = None then [rh] else [])
     \<and> tickets_failed s' = tickets_failed s \<and> env_view s' = env_view s"
  by (simp add: delete_message_def env_view_def)

lemma process_message_facts:
  "let (x, s') = process_message gw cfg m s in
     (x = None \<longleftrightarrow> (\<exists>b recs. msg_body m = Some b \<and> body_records b = Some recs
                         \<and> (\<forall>r \<in> set recs. record_ok gw cfg s r) \<and> sqs_up s))
     \<and> deleted s' = deleted s @ (if x = None then [receipt_handle m] else [])
     \<and> tickets_failed s' = tickets_failed s \<and> env_view s' = env_view s"
proof (cases "msg_body m")
  case None
  then show ?thesis by (simp add: process_message_cases)
next
  case (Some b)
  show ?thesis
  proof (cases "py_in ''Records'' b")
    case (Inl e)
    with Some show ?thesis by (simp add: process_message_cases body_records_def)
  next
    case (Inr h)
    show ?thesis
    proof (cases h)
      case False
      with Some Inr delete_message_facts [of "receipt_handle m" s] show ?thesis
        by (simp add: process_message_cases body_records_def)
    next
      case True
      show ?thesis
      proof (cases "rbind (py_getitem b ''Records'') py_iter")
        case (Inl e)
        with Some Inr True show ?thesis by (simp add: process_message_cases body_records_def)
      next
        case (Inr recs)
        note br = Inr
        obtain x s' where pr: "process_records gw cfg recs s = (x, s')" by fastforce
        have env: "env_view s' = env_view s"
          using process_records_env [of gw cfg recs s] pr by simp
        have q: "deleted s' = deleted s" "tickets_failed s' = tickets_failed s"
          using process_records_queue [of gw cfg recs s] pr by simp_all
        have ok: "x = None \<longleftrightarrow> (\<forall>r \<in> set recs. record_ok gw cfg s r)"
          using process_records_ok [of gw cfg recs s] pr by simp
        have rec: "body_records b = Some recs"
          using \<open>py_in ''Records'' b = Inr h\<close> True br by (simp add: body_records_def)
        have sqs: "sqs_up s' = sqs_up s" using env by (simp add: env_view_def)
        show ?thesis
        proof (cases x)
          case None
          with Some \<open>py_in ''Records'' b = Inr h\<close> True br pr rec ok env q sqs
            delete_message_facts [of "receipt_handle m" s']
          show ?thesis by (simp add: process_message_cases split: prod.splits)
        next
          case (Some e)
          with \<open>msg_body m = Some b\<close> \<open>py_in ''Records'' b = Inr h\<close> True br pr rec ok env q
          show ?thesis by (simp add: process_message_cases)
        qed
      qed
    qed
  qed
qed

lemma msg_ok_iff:
  "msg_ok gw cfg s m \<longleftrightarrow> (\<exists>b recs. msg_body m = Some b \<and> body_records b = Some recs
                          \<and> (\<forall>r \<in> set recs. record_ok gw cfg s r) \<and> sqs_up s)"
  using process_message_facts [of gw cfg m s] by (simp add: msg_ok_def split: prod.splits)

lemma msg_ok_env:
  "env_view s = env_view s' \<Longrightarrow> msg_ok gw cfg s m = msg_ok gw cfg s' m"
  using record_ok_env [of s s' gw cfg] by (simp add: msg_ok_iff env_view_def)

lemma handle_message_facts:
  "deleted (handle_message gw cfg s m) = deleted s @ (if msg_ok gw cfg s m then [receipt_handle m] else [])
   \<and> tickets_failed (handle_message gw cfg s m) = tickets_failed s + (if msg_ok gw cfg s m then 0 else 1)
   \<and> env_view (handle_message gw cfg s m) = env_view s"
  using process_message_facts [of gw cfg m s]
  by (auto simp: handle_message_def msg_ok_def env_view_def split: prod.splits option.splits)

lemma handle_messages_facts:
  "deleted (foldl (handle_message gw cfg) s msgs) = deleted s @ map receipt_handle (filter (msg_ok gw cfg s) msgs)
   \<and> tickets_failed (foldl (handle_message gw cfg) s msgs)
       = tickets_failed s + length (filter (\<lambda>m. \<not> msg_ok gw cfg s m) msgs)
   \<and> env_view (foldl (handle_message gw cfg) s msgs) = env_view s"
proof (induction msgs arbitrary: s)
  case Nil then show ?case by simp
next
  case (Cons m msgs)
  let ?s' = "handle_message gw cfg s m"
  have h: "deleted ?s' = deleted s @ (if msg_ok gw cfg s m then [receipt_handle m] else [])"
    "tickets_failed ?s' = tickets_failed s + (if msg_ok gw cfg s m then 0 else 1)"
    "env_view ?s' = env_view s"
    using handle_message_facts [of gw cfg s m] by simp_all
  have same: "msg_ok gw cfg ?s' = msg_ok gw cfg s"
    using msg_ok_env [OF h(3)] by (simp add: fun_eq_iff)
  show ?case using Cons.IH [of ?s'] h same by simp
qed


lemma process_record_count:
  "tickets_processed (snd (process_record gw cfg r s)) = tickets_processed s + (if record_ok gw cfg s r then 1 else 0)"
  by (auto simp: record_ok_def process_record_def store_results_def put_item_def put_object_def
           split: sum.splits prod.splits option.splits)

lemma process_records_count:
  "tickets_processed (snd (process_records gw cfg rs s))
     = tickets_processed s + length (takeWhile (record_ok gw cfg s) rs)"
proof (induction rs arbitrary: s)
  case Nil then show ?case by simp
next
  case (Cons r rs)
  obtain x s' where pr: "process_record gw cfg r s = (x, s')" by fastforce
  have env: "record_ok gw cfg s' = record_ok gw cfg s"
    using record_ok_env [of s' s gw cfg] process_record_env [of gw cfg r s] pr by simp
  show ?case
    using Cons.IH [of s'] pr process_record_count [of gw cfg r s] env
    by (cases x) (auto simp: record_ok_def)
qed

lemma process_message_count:
  "tickets_processed (snd (process_message gw cfg m s)) = tickets_processed s + records_run gw cfg s m"
  by (auto simp: process_message_cases records_run_def body_records_def process_records_count
                 process_records_ok delete_message_def
           split: option.splits sum.splits prod.splits)
     (metis process_records_count snd_conv)+

lemma records_run_env:
  "env_view s' = env_view s \<Longrightarrow> records_run gw cfg s' = records_run gw cfg s"
proof -
  assume "env_view s' = env_view s"
  then have r: "record_ok gw cfg s' = record_ok gw cfg s" by (rule record_ok_env)
  show ?thesis by (rule ext) (simp only: records_run_def r)
qed

lemma handle_message_count:
  "tickets_processed (handle_message gw cfg s m) = tickets_processed s + records_run gw cfg s m"
  using process_message_count [of gw cfg m s]
  by (auto simp: handle_message_def split: prod.splits option.splits)

lemma handle_messages_count:
  "tickets_processed (foldl (handle_message gw cfg) s msgs)
     = tickets_processed s + sum_list (map (records_run gw cfg s) msgs)"
proof (induction msgs arbitrary: s)
  case Nil then show ?case by simp
next
  case (Cons m msgs)
  have "env_view (handle_message gw cfg s m) = env_view s"
    using handle_message_facts [of gw cfg s m] by simp
  then have r: "records_run gw cfg (handle_message gw cfg s m) = records_run gw cfg s"
    by (rule records_run_env)
  show ?case
    using Cons.IH [of "handle_message gw cfg s m"] handle_message_count [of gw cfg s m]
    by (simp add: r)
qed

text \<open>C7: in a batch, the messages deleted are exactly those that succeed on their own, in batch order: a failing message never keeps another one from being acknowledged.\<close>
lemma poll_batch_isolation:
  "deleted (snd (poll_and_process gw cfg (Inr msgs) s))
     = deleted s @ map receipt_handle (filter (msg_ok gw cfg s) msgs)"
  using handle_messages_facts [of gw cfg s msgs]
  by (cases msgs) (simp_all add: poll_and_process_def)


text \<open>C20: the statistics of one poll: tickets_processed grows by the number
  of records each message got through before its first failure, counted even
  when the message then fails and is redelivered, and tickets_failed grows by
  the number of failed messages of the batch, whatever number of records they
  hold.\<close>
lemma poll_counters:
  "tickets_processed (snd (poll_and_process gw cfg (Inr msgs) s))
     = tickets_processed s + sum_list (map (records_run gw cfg s) msgs)
   \<and> tickets_failed (snd (poll_and_process gw cfg (Inr msgs) s))
     = tickets_failed s + length (filter (\<lambda>m. \<not> msg_ok gw cfg s m) msgs)"
  using handle_messages_facts [of gw cfg s msgs] handle_messages_count [of gw cfg s msgs]
  by (cases msgs) (simp_all add: poll_and_process_def)

lemma body_records_Records:
  "jlookup kvs ''Records'' = Some (JArr recs) \<Longrightarrow> body_records (JObj kvs) = Some recs"
  using jlookup_None_iff [of kvs "''Records''"]
  by (auto simp: body_records_def image_iff)


text \<open>C1: a message whose body carries a list of S3 event records is deleted from the queue exactly when the queue accepts the deletion and every record of it was fetched, processed and stored; otherwise it stays for redelivery.\<close>
lemma process_message_ack:
  assumes "msg_body m = Some (JObj kvs)" and "jlookup kvs ''Records'' = Some (JArr recs)"
  shows "deleted (snd (process_message gw cfg m s))
           = deleted s @ (if sqs_up s \<and> (\<forall>r \<in> set recs. record_ok gw cfg s r)
                          then [receipt_handle m] else [])"
  using process_message_facts [of gw cfg m s] body_records_Records [OF assms(2)] assms(1)
  by (auto simp: split: prod.splits)


text \<open>C8: store_results writes DynamoDB before S3: when the S3 write fails, the projection row is left in the table without its blob.\<close>
lemma store_results_partial:
  assumes "dynamo_up s" and "ticket_id t \<noteq> []" and "\<not> s3_up s"
  shows "store_results cfg t s =
           (Some ServiceError, s\<lparr>table := (table s)((ticket_id t, created_at t) \<mapsto> from_enriched t)\<rparr>)"
  using assms by (simp add: store_results_def put_item_def put_object_def from_enriched_def)


lemma s3_key_of_inj [simp]: "s3_key_of a = s3_key_of b \<longleftrightarrow> a = b"
  by (simp add: s3_key_of_def)

text \<open>C10: store_results refines the spec's upsert: the blobs, seen as a store
  of tickets by id, change exactly as an atomic upsert of the ticket when the
  call returns normally and not at all when it raises; the table gains the
  ticket's projection under (ticket_id, created_at) whenever DynamoDB accepted
  it, whatever S3 did afterwards.\<close>
lemma store_results_views:
  "blob_view cfg (snd (store_results cfg t s)) =
     (if fst (store_results cfg t s) = None then ticket_upsert t (blob_view cfg s) else blob_view cfg s)
   \<and> table (snd (store_results cfg t s)) =
     (if dynamo_up s \<and> ticket_id t \<noteq> [] then (table s)((ticket_id t, created_at t) \<mapsto> from_enriched t)
      else table s)"
  by (auto simp: store_results_def put_item_def put_object_def from_enriched_def blob_view_def
                 ticket_upsert_def fun_eq_iff)

text \<open>C19: a raw document without customer_id fails its record with a ValidationError and writes nothing: table, blobs and counters are unchanged.\<close>
lemma process_record_missing_customer_id:
  assumes "record_location cfg r = Inr (JStr b, JStr k)"
    and "raw_objects s (b, k) = Some (Some (JObj kvs))"
    and "jlookup kvs ''customer_id'' = None"
  shows "process_record gw cfg r s = (Some ValidationError, s)"
proof -
  have "validate_raw_ticket kvs = Inl ValidationError"
    using assms(3) by (rule validate_missing_customer_id)
  with assms(1,2) show ?thesis
    by (simp add: process_record_def fetch_and_process_def)
qed


text \<open>C21: a decoded body without a Records key (such as a direct key reference) processes nothing and is deleted.\<close>
lemma process_message_no_records:
  assumes "msg_body m = Some (JObj kvs)" and "jlookup kvs ''Records'' = None" and "sqs_up s"
  shows "process_message gw cfg m s = (None, s\<lparr>deleted := deleted s @ [receipt_handle m]\<rparr>)"
proof -
  have "py_in ''Records'' (JObj kvs) = Inr False"
    unfolding py_in_JObj_iff using assms(2) by simp
  with assms(1,3) show ?thesis by (simp add: process_message_cases delete_message_def)
qed


text \<open>C22: a body that is not JSON counts one failure and leaves the message in the queue.\<close>
lemma handle_message_malformed:
  "msg_body m = None \<Longrightarrow> handle_message gw cfg s m = s\<lparr>tickets_failed := Suc (tickets_failed s)\<rparr>"
  by (simp add: handle_message_def process_message_def)

lemma store_results_blob_has_row:
  "blob_has_row s \<Longrightarrow> blob_has_row (snd (store_results cfg t s))"
  by (auto simp: blob_has_row_def store_results_def put_item_def put_object_def from_enriched_def)

lemma blob_has_row_counters [simp]:
  "blob_has_row (s\<lparr>tickets_processed := n\<rparr>) = blob_has_row s"
  "blob_has_row (s\<lparr>tickets_failed := n\<rparr>) = blob_has_row s"
  "blob_has_row (s\<lparr>deleted := d\<rparr>) = blob_has_row s"
  by (simp_all add: blob_has_row_def)

lemma process_record_blob_has_row:
  assumes inv: "blob_has_row s"
  shows "blob_has_row (snd (process_record gw cfg r s))"
proof (cases "fetch_and_process gw cfg r s")
  case (Inl e)
  with inv show ?thesis by (simp add: process_record_def)
next
  case (Inr t)
  obtain x s' where st: "store_results cfg t s = (x, s')" by fastforce
  with store_results_blob_has_row [OF inv, of cfg t] have "blob_has_row s'" by simp
  with Inr st show ?thesis by (cases x) (simp_all add: process_record_def)
qed

lemma process_records_blob_has_row:
  "blob_has_row s \<Longrightarrow> blob_has_row (snd (process_records gw cfg rs s))"
proof (induction rs arbitrary: s)
  case Nil then show ?case by simp
next
  case (Cons r rs)
  obtain x s' where pr: "process_record gw cfg r s = (x, s')" by fastforce
  with process_record_blob_has_row [OF Cons.prems, of gw cfg r] have "blob_has_row s'" by simp
  with pr Cons.IH [of s'] show ?case by (cases x) simp_all
qed

lemma process_records_blob_has_row_pair:
  "process_records gw cfg rs s = (x, s') \<Longrightarrow> blob_has_row s \<Longrightarrow> blob_has_row s'"
  using process_records_blob_has_row [of s gw cfg rs] by simp

lemma process_message_blob_has_row:
  "blob_has_row s \<Longrightarrow> blob_has_row (snd (process_message gw cfg m s))"
  by (auto dest: process_records_blob_has_row_pair simp: process_message_cases delete_message_def
           split: option.splits sum.splits prod.splits)

lemma handle_message_blob_has_row:
  "blob_has_row s \<Longrightarrow> blob_has_row (handle_message gw cfg s m)"
  using process_message_blob_has_row [of s gw cfg m]
  by (auto simp: handle_message_def split: prod.splits option.splits)

lemma handle_messages_blob_has_row:
  "blob_has_row s \<Longrightarrow> blob_has_row (foldl (handle_message gw cfg) s msgs)"
  by (induction msgs arbitrary: s) (simp_all add: handle_message_blob_has_row)

lemma poll_blob_has_row:
  "blob_has_row s \<Longrightarrow> blob_has_row (snd (poll_and_process gw cfg resp s))"
  by (simp add: poll_and_process_def handle_messages_blob_has_row del: foldl_Cons
           split: sum.splits list.splits)


text \<open>C9: along any run of the worker loop, every enriched blob has a projection row under its (ticket_id, created_at) key.\<close>
lemma run_forever_blob_has_row:
  "blob_has_row s \<Longrightarrow> blob_has_row (run_forever gw cfg rs s)"
  by (induction rs arbitrary: s) (simp_all add: poll_blob_has_row)

lemma process_ticket_ok:
  assumes val: "validate_raw_ticket kvs = Inr r" and gw: "gateway_contract gw"
    and prio: "jlookup kvs ''priority'' \<noteq> Some JNull"
  shows "\<exists>e. process_ticket gw cfg now (JObj kvs) = Inr (from_raw r e) \<and> processed_at e = now"
proof -
  obtain emb where emb: "generate_ticket_embedding gw (subject r) (body r) = Inr emb"
    using embedding_ok [OF gw] by blast
  obtain p where p: "priority_lower (jlookup kvs ''priority'') = Inr p"
    using validate_raw_ticket_priority [OF val] prio by auto
  obtain c where c: "get_classification_summary (sentiment_clf gw) (jlookup kvs ''priority'')
                        (subject r) (body r) = Inr c"
    using classification_ok [OF p] by blast
  have clf: "\<forall>t l sc. sentiment_clf gw t = Inr (l, sc) \<longrightarrow> unit_interval sc"
    using gw by (simp add: gateway_contract_def)
  obtain u uc where u: "classify_urgency (jlookup kvs ''priority'') (subject r) (body r) = Inr (u, uc)"
    using c by (cases "classify_urgency (jlookup kvs ''priority'') (subject r) (body r)")
               (auto simp: get_classification_summary_def split: prod.splits)
  have cc: "c = \<lparr>c_intent = fst (classify_intent (subject r) (body r)),
                 c_intent_confidence = snd (classify_intent (subject r) (body r)),
                 c_urgency = u, c_urgency_confidence = uc,
                 c_sentiment = fst (classify_sentiment (sentiment_clf gw) (subject r) (body r)),
                 c_sentiment_confidence = snd (classify_sentiment (sentiment_clf gw) (subject r) (body r))\<rparr>"
    using c u by (simp add: get_classification_summary_def split: prod.splits)
  have bounds: "unit_interval (c_intent_confidence c) \<and> unit_interval (c_urgency_confidence c)
                \<and> unit_interval (c_sentiment_confidence c)"
    using cc classify_urgency_levels [OF u] classify_intent_confidence [of "subject r" "body r"]
      classify_sentiment_confidence [OF clf, of "subject r" "body r"]
    by simp
  let ?e = "\<lparr>embedding = emb, intent = c_intent c,
                  intent_confidence = c_intent_confidence c, urgency = c_urgency c,
                  urgency_confidence = c_urgency_confidence c, sentiment = c_sentiment c,
                  sentiment_confidence = c_sentiment_confidence c,
                  summary = generate_summary gw (max_summary_length (model cfg)) 10 (subject r) (body r),
                  processed_at = now, model_version = MODEL_VERSION\<rparr>"
  have "process_ticket gw cfg now (JObj kvs) = Inr (from_raw r ?e)"
    using val emb c bounds by (simp add: validate_enrichment_def)
  then show ?thesis by auto
qed

lemma store_results_ok:
  assumes "dynamo_up s" and "s3_up s" and "ticket_id t \<noteq> []"
  shows "store_results cfg t s =
           (None, s\<lparr>table := (table s)((ticket_id t, created_at t) \<mapsto> from_enriched t),
                    enriched_objects := (enriched_objects s)((enriched_bucket (s3 cfg), s3_key_of (ticket_id t)) \<mapsto> t)\<rparr>)"
  using assms by (simp add: store_results_def put_item_def put_object_def from_enriched_def)

text \<open>C11: the two stores key a ticket differently, the table by
  (ticket_id, created_at), the blob by ticket_id alone: when a ticket is stored
  again under the same id with another creation time, the first projection
  row stays in the table, still naming the blob key, and that key now holds
  the other ticket.\<close>
lemma store_results_stale_row:
  assumes "dynamo_up s" "s3_up s" and "ticket_id t2 = ticket_id t1" "ticket_id t1 \<noteq> []"
    and "created_at t1 \<noteq> created_at t2"
  shows "table (snd (store_results cfg t2 (snd (store_results cfg t1 s)))) (ticket_id t1, created_at t1)
           = Some (from_enriched t1)
         \<and> s3_key (from_enriched t1) = s3_key_of (ticket_id t1)
         \<and> blob_view cfg (snd (store_results cfg t2 (snd (store_results cfg t1 s)))) (ticket_id t1) = Some t2"
  using assms by (simp add: store_results_ok blob_view_def from_enriched_def)

lemma store_results_None:
  "store_results cfg t s = (None, s') \<Longrightarrow> dynamo_up s \<and> s3_up s \<and> ticket_id t \<noteq> []"
  by (auto simp: store_results_def put_item_def put_object_def from_enriched_def
           split: if_splits prod.splits option.splits)

lemma process_ticket_clock:
  "process_ticket gw cfg now raw = Inr t \<Longrightarrow> process_ticket gw cfg now' raw = Inr (at_clock now' t)"
  by (cases raw) (auto simp: rbind_eq_Inr validate_enrichment_def at_clock_def from_raw_def Let_def
                       split: if_splits)

lemma fetch_and_process_clock:
  "fetch_and_process gw cfg r s = Inr t \<Longrightarrow> raw_objects s' = raw_objects s \<Longrightarrow>
     fetch_and_process gw cfg r s' = Inr (at_clock (clock s') t)"
proof -
  assume f: "fetch_and_process gw cfg r s = Inr t" and ro: "raw_objects s' = raw_objects s"
  obtain b k raw where loc: "record_location cfg r = Inr (b, k)"
    and fe: "fetch_ticket_from_s3 s b k = Inr raw" and pt: "process_ticket gw cfg (clock s) raw = Inr t"
    using f by (auto simp: fetch_and_process_def rbind_eq_Inr)
  have "fetch_ticket_from_s3 s' b k = Inr raw"
    using fe ro by (cases "(s, b, k)" rule: fetch_ticket_from_s3.cases) simp_all
  then show ?thesis
    using loc process_ticket_clock [OF pt] by (simp add: fetch_and_process_def)
qed

lemma at_clock_keys [simp]:
  "ticket_id (at_clock c t) = ticket_id t" "created_at (at_clock c t) = created_at t"
  by (simp_all add: at_clock_def)

section \<open>Witnesses\<close>

lemma process_message_ack_witness:
  "msg_body \<lparr>receipt_handle = ''rh-1'', msg_body = Some (JObj [(''Records'', JArr [])])\<rparr>
     = Some (JObj [(''Records'', JArr [])])
   \<and> jlookup [(''Records'', JArr [])] ''Records'' = Some (JArr [])
   \<and> deleted (snd (process_message example_gateway example_config
        \<lparr>receipt_handle = ''rh-1'', msg_body = Some (JObj [(''Records'', JArr [])])\<rparr> example_world))
     = [''rh-1'']"
  using process_message_ack
    [where m = "\<lparr>receipt_handle = ''rh-1'', msg_body = Some (JObj [(''Records'', JArr [])])\<rparr>"
       and kvs = "[(''Records'', JArr [])]" and recs = "[]" and gw = example_gateway
       and cfg = example_config and s = example_world]
  by (simp add: example_world_def jlookup_def)

lemma store_results_partial_witness:
  "dynamo_up (example_world\<lparr>s3_up := False\<rparr>)
   \<and> ticket_id (from_raw example_raw example_enrichment) \<noteq> []
   \<and> \<not> s3_up (example_world\<lparr>s3_up := False\<rparr>)
   \<and> store_results example_config (from_raw example_raw example_enrichment) (example_world\<lparr>s3_up := False\<rparr>)
     = (Some ServiceError, example_world\<lparr>s3_up := False,
          table := [(''T-1'', 1700000000) \<mapsto> from_enriched (from_raw example_raw example_enrichment)]\<rparr>)"
  using store_results_partial
    [where s = "example_world\<lparr>s3_up := False\<rparr>" and t = "from_raw example_raw example_enrichment"
       and cfg = example_config]
  by (simp add: example_world_def example_raw_def)

lemma process_record_missing_customer_id_witness:
  "record_location example_config (JObj [(''key'', JStr ''T-1.json'')])
     = Inr (JStr ''tickets-raw'', JStr ''T-1.json'')
   \<and> raw_objects (example_world\<lparr>raw_objects := [(''tickets-raw'', ''T-1.json'') \<mapsto> Some (JObj [(''ticket_id'', JStr ''T-1'')])]\<rparr>)
       (''tickets-raw'', ''T-1.json'') = Some (Some (JObj [(''ticket_id'', JStr ''T-1'')]))
   \<and> jlookup [(''ticket_id'', JStr ''T-1'')] ''customer_id'' = None
   \<and> process_record example_gateway example_config (JObj [(''key'', JStr ''T-1.json'')])
       (example_world\<lparr>raw_objects := [(''tickets-raw'', ''T-1.json'') \<mapsto> Some (JObj [(''ticket_id'', JStr ''T-1'')])]\<rparr>)
     = (Some ValidationError,
        example_world\<lparr>raw_objects := [(''tickets-raw'', ''T-1.json'') \<mapsto> Some (JObj [(''ticket_id'', JStr ''T-1'')])]\<rparr>)"
proof -
  have loc: "record_location example_config (JObj [(''key'', JStr ''T-1.json'')])
     = Inr (JStr ''tickets-raw'', JStr ''T-1.json'')"
    by (simp add: record_location_def example_config_def jlookup_def)
  have lk: "jlookup [(''ticket_id'', JStr ''T-1'')] ''customer_id'' = None"
    by (simp add: jlookup_def)
  show ?thesis
    using process_record_missing_customer_id [OF loc _ lk,
        where s = "example_world\<lparr>raw_objects := [(''tickets-raw'', ''T-1.json'') \<mapsto> Some (JObj [(''ticket_id'', JStr ''T-1'')])]\<rparr>"
          and gw = example_gateway]
      loc lk by simp
qed

lemma run_forever_blob_has_row_witness:
  "blob_has_row example_world
   \<and> blob_has_row (run_forever example_gateway example_config [Inr []] example_world)"
  using run_forever_blob_has_row [where s = example_world and gw = example_gateway
      and cfg = example_config and rs = "[Inr []]"]
  by (simp add: blob_has_row_def example_world_def)

lemma process_message_no_records_witness:
  "msg_body \<lparr>receipt_handle = ''rh-2'', msg_body = Some (JObj [(''key'', JStr ''T-1.json'')])\<rparr>
     = Some (JObj [(''key'', JStr ''T-1.json'')])
   \<and> jlookup [(''key'', JStr ''T-1.json'')] ''Records'' = None \<and> sqs_up example_world
   \<and> process_message example_gateway example_config
       \<lparr>receipt_handle = ''rh-2'', msg_body = Some (JObj [(''key'', JStr ''T-1.json'')])\<rparr> example_world
     = (None, example_world\<lparr>deleted := [''rh-2'']\<rparr>)"
  using process_message_no_records
    [where m = "\<lparr>receipt_handle = ''rh-2'', msg_body = Some (JObj [(''key'', JStr ''T-1.json'')])\<rparr>"
       and kvs = "[(''key'', JStr ''T-1.json'')]" and s = example_world
       and gw = example_gateway and cfg = example_config]
  by (simp add: example_world_def jlookup_def)

lemma handle_message_malformed_witness:
  "msg_body \<lparr>receipt_handle = ''rh-3'', msg_body = None\<rparr> = None
   \<and> handle_message example_gateway example_config example_world
       \<lparr>receipt_handle = ''rh-3'', msg_body = None\<rparr> = example_world\<lparr>tickets_failed := 1\<rparr>"
  using handle_message_malformed
    [where m = "\<lparr>receipt_handle = ''rh-3'', msg_body = None\<rparr>" and s = example_world
       and gw = example_gateway and cfg = example_config]
  by (simp add: example_world_def)

lemma store_results_stale_row_witness:
  "dynamo_up example_world \<and> s3_up example_world
   \<and> ticket_id (from_raw (example_raw\<lparr>created_at := 1700000100\<rparr>) example_enrichment)
       = ticket_id (from_raw example_raw example_enrichment)
   \<and> ticket_id (from_raw example_raw example_enrichment) \<noteq> []
   \<and> created_at (from_raw example_raw example_enrichment)
       \<noteq> created_at (from_raw (example_raw\<lparr>created_at := 1700000100\<rparr>) example_enrichment)
   \<and> table (snd (store_results example_config (from_raw (example_raw\<lparr>created_at := 1700000100\<rparr>) example_enrichment)
              (snd (store_results example_config (from_raw example_raw example_enrichment) example_world))))
       (''T-1'', 1700000000) = Some (from_enriched (from_raw example_raw example_enrichment))
   \<and> blob_view example_config
       (snd (store_results example_config (from_raw (example_raw\<lparr>created_at := 1700000100\<rparr>) example_enrichment)
              (snd (store_results example_config (from_raw example_raw example_enrichment) example_world))))
       ''T-1'' = Some (from_raw (example_raw\<lparr>created_at := 1700000100\<rparr>) example_enrichment)"
  using store_results_stale_row [of example_world "from_raw (example_raw\<lparr>created_at := 1700000100\<rparr>) example_enrichment"
                                    "from_raw example_raw example_enrichment" example_config]
  by (simp add: example_world_def example_raw_def)

end
