(* ===== verification/Queue.thy ===== *)
theory Queue
  imports Worker "HOL-Library.Multiset" "HOL-Library.While_Combinator"
begin

text \<open>
  The worker against its queue. SQS is not code of this repository: its
  behaviour is taken from the interface the worker uses. A message stays in
  the queue until a \<open>delete_message\<close> with its receipt handle, and
  \<open>receive_message\<close> delivers up to \<open>MaxNumberOfMessages\<close> of the messages in
  the queue (a message whose visibility timeout ran out is delivered again);
  SQS rejects a \<open>MaxNumberOfMessages\<close> outside 1..10, and then every receive
  raises.
  The system state \<open>sys\<close> holds the queue, the worker state, and two ghost
  lists: every message S3 sent, and every message the queue dropped with the
  worker state in which it was processed. The step relation \<open>qstep\<close> has
  four rules: S3 sends a notification (\<open>send\<close>), the world changes objects,
  service availability or the clock (\<open>world\<close>), the worker polls a batch
  (\<open>poll\<close>, through \<open>poll_and_process\<close>), or the receive call fails
  (\<open>poll_error\<close>). By rule induction over \<open>qreach\<close>: no message is lost or
  duplicated, since every message sent is either in the queue or dropped after
  it succeeded; a poll drops exactly the delivered messages that succeed; and
  a queued message that would succeed can always be delivered and deleted.
\<close>

record sys =
  sq :: "message list"
  sent :: "message list"
  acked :: "(message \<times> wstate) list"
  w :: wstate

text \<open>The receipt handles a poll deleted: what \<open>delete_message\<close> appended to
  the worker's log.\<close>

definition new_deletions :: "wstate \<Rightarrow> wstate \<Rightarrow> string list" where
  "new_deletions s s' = drop (length (deleted s)) (deleted s')"

definition poll_step :: "gateway \<Rightarrow> processor_config \<Rightarrow> message list \<Rightarrow> sys \<Rightarrow> sys" where
  "poll_step gw cfg batch x =
     (let w' = snd (poll_and_process gw cfg (Inr batch) (w x));
          gone = new_deletions (w x) w'
      in x\<lparr>sq := filter (\<lambda>m. receipt_handle m \<notin> set gone) (sq x),
           acked := acked x @ map (\<lambda>m. (m, w x)) (filter (\<lambda>m. receipt_handle m \<in> set gone) batch),
           w := w'\<rparr>)"

inductive qstep :: "gateway \<Rightarrow> processor_config \<Rightarrow> sys \<Rightarrow> sys \<Rightarrow> bool" for gw cfg where
  send: "receipt_handle m \<notin> receipt_handle ` set (sent x) \<Longrightarrow>
         qstep gw cfg x (x\<lparr>sq := sq x @ [m], sent := sent x @ [m]\<rparr>)"
| world: "qstep gw cfg x (x\<lparr>w := (w x)\<lparr>raw_objects := ro, dynamo_up := d, s3_up := u3,
                                            sqs_up := uq, clock := c\<rparr>\<rparr>)"
| poll: "1 \<le> max_messages (sqs cfg) \<Longrightarrow> max_messages (sqs cfg) \<le> 10 \<Longrightarrow>
         distinct batch \<Longrightarrow> set batch \<subseteq> set (sq x) \<Longrightarrow> int (length batch) \<le> max_messages (sqs cfg) \<Longrightarrow>
         qstep gw cfg x (poll_step gw cfg batch x)"
| poll_error: "qstep gw cfg x (x\<lparr>w := snd (poll_and_process gw cfg (Inl e) (w x))\<rparr>)"

inductive qreach :: "gateway \<Rightarrow> processor_config \<Rightarrow> sys \<Rightarrow> bool" for gw cfg where
  init: "qreach gw cfg \<lparr>sq = [], sent = [], acked = [], w = s\<rparr>"
| step: "qreach gw cfg x \<Longrightarrow> qstep gw cfg x y \<Longrightarrow> qreach gw cfg y"

inductive_cases qstep_cases: "qstep gw cfg x y"

text \<open>The invariant: the messages sent are the messages queued plus the
  messages dropped, each dropped one succeeded in the state it was processed
  in, and receipt handles are unique.\<close>

definition queue_inv :: "gateway \<Rightarrow> processor_config \<Rightarrow> sys \<Rightarrow> bool" where
  "queue_inv gw cfg x \<longleftrightarrow>
     mset (sent x) = mset (sq x) + mset (map fst (acked x))
     \<and> list_all (\<lambda>(m, s). msg_ok gw cfg s m) (acked x)
     \<and> distinct (map receipt_handle (sent x)) \<and> distinct (map receipt_handle (sq x))"

text \<open>The loop of \<open>run_forever\<close> against the queue, until the queue is
  empty: each poll receives the first \<open>MaxNumberOfMessages\<close> queued
  messages. The worker's loop has no exit; \<open>drain\<close> observes it up to the
  first moment the queue is empty, and is \<open>None\<close> when that moment never
  comes.\<close>

definition drain :: "gateway \<Rightarrow> processor_config \<Rightarrow> sys \<Rightarrow> sys option" where
  "drain gw cfg x =
     while_option (\<lambda>x. sq x \<noteq> [])
       (\<lambda>x. poll_step gw cfg (take (nat (max_messages (sqs cfg))) (sq x)) x) x"

section \<open>Lemmas\<close>

lemma poll_gone:
  "new_deletions s (snd (poll_and_process gw cfg (Inr batch) s))
     = map receipt_handle (filter (msg_ok gw cfg s) batch)"
  using handle_messages_facts [of gw cfg s batch]
  by (cases batch) (simp_all add: poll_and_process_def new_deletions_def)

lemma filter_handles_eq:
  assumes "distinct (map f xs)" and "set ys \<subseteq> set xs" and "distinct ys"
    and "set G \<subseteq> f ` set ys"
  shows "mset (filter (\<lambda>m. f m \<in> set G) xs) = mset (filter (\<lambda>m. f m \<in> set G) ys)"
proof -
  have inj: "inj_on f (set xs)" using assms(1) by (simp add: distinct_map)
  have "set (filter (\<lambda>m. f m \<in> set G) xs) = set (filter (\<lambda>m. f m \<in> set G) ys)"
  proof
    show "set (filter (\<lambda>m. f m \<in> set G) xs) \<subseteq> set (filter (\<lambda>m. f m \<in> set G) ys)"
    proof
      fix x assume "x \<in> set (filter (\<lambda>m. f m \<in> set G) xs)"
      then have x: "x \<in> set xs" "f x \<in> set G" by simp_all
      have "f x \<in> f ` set ys" using assms(4) x(2) by (rule subsetD)
      then obtain y where y: "y \<in> set ys" "f y = f x" by (metis imageE)
      have "y \<in> set xs" using assms(2) y(1) by (rule subsetD)
      then have "y = x" using inj_onD [OF inj y(2)] x(1) by simp
      with y(1) x show "x \<in> set (filter (\<lambda>m. f m \<in> set G) ys)" by simp
    qed
    show "set (filter (\<lambda>m. f m \<in> set G) ys) \<subseteq> set (filter (\<lambda>m. f m \<in> set G) xs)"
      using assms(2) by (simp add: subset_iff)
  qed
  moreover have "distinct (filter (\<lambda>m. f m \<in> set G) xs)"
    using assms(1) by (simp add: distinct_map)
  moreover have "distinct (filter (\<lambda>m. f m \<in> set G) ys)"
    using assms(3) by simp
  ultimately show ?thesis
    by (metis set_eq_iff_mset_eq_distinct)
qed

lemma mset_sum_set_sub: "mset a = mset b + M \<Longrightarrow> set b \<subseteq> set a"
  by (metis Un_upper1 set_mset_mset set_mset_union)

lemma mset_filter_split:
  "mset (filter (\<lambda>m. \<not> P m) xs) + mset (filter P xs) = mset xs"
  by (induction xs) auto

lemma queue_inv_init: "queue_inv gw cfg \<lparr>sq = [], sent = [], acked = [], w = s\<rparr>"
  by (simp add: queue_inv_def)

lemma queue_inv_send:
  assumes inv: "queue_inv gw cfg x" and fresh: "receipt_handle m \<notin> receipt_handle ` set (sent x)"
  shows "queue_inv gw cfg (x\<lparr>sq := sq x @ [m], sent := sent x @ [m]\<rparr>)"
proof -
  have "set (sq x) \<subseteq> set (sent x)"
    using inv mset_sum_set_sub [of "sent x" "sq x" "mset (map fst (acked x))"]
    by (simp add: queue_inv_def)
  then have "receipt_handle m \<notin> receipt_handle ` set (sq x)"
    using fresh by blast
  then show ?thesis
    using inv fresh by (simp add: queue_inv_def)
qed

lemma queue_inv_world:
  "queue_inv gw cfg x \<Longrightarrow> queue_inv gw cfg (x\<lparr>w := s'\<rparr>)"
  by (simp add: queue_inv_def)

lemma queue_inv_poll:
  assumes inv: "queue_inv gw cfg x" and db: "distinct batch" and sub: "set batch \<subseteq> set (sq x)"
  shows "queue_inv gw cfg (poll_step gw cfg batch x)"
proof -
  let ?G = "map receipt_handle (filter (msg_ok gw cfg (w x)) batch)"
  have dsq: "distinct (map receipt_handle (sq x))" using inv by (simp add: queue_inv_def)
  have inj: "inj_on receipt_handle (set (sq x))" using dsq by (simp add: distinct_map)
  have G: "set ?G \<subseteq> receipt_handle ` set batch" by auto
  have eq: "mset (filter (\<lambda>m. receipt_handle m \<in> set ?G) (sq x))
            = mset (filter (\<lambda>m. receipt_handle m \<in> set ?G) batch)"
    by (rule filter_handles_eq [OF dsq sub db G])
  have split: "mset (filter (\<lambda>m. receipt_handle m \<notin> set ?G) (sq x))
               + mset (filter (\<lambda>m. receipt_handle m \<in> set ?G) (sq x)) = mset (sq x)"
    by (rule mset_filter_split)
  have ok: "msg_ok gw cfg (w x) m"
    if m_in: "m \<in> set batch" and m_G: "receipt_handle m \<in> set ?G" for m
  proof -
    obtain m' where m': "m' \<in> set batch" "msg_ok gw cfg (w x) m'" "receipt_handle m' = receipt_handle m"
      using m_G by auto
    have "m' = m" using inj_onD [OF inj m'(3)] m'(1) m_in sub by blast
    then show ?thesis using m'(2) by simp
  qed
  have s0: "mset (sent x) = mset (sq x) + mset (map fst (acked x))"
    using inv by (simp add: queue_inv_def)
  have s1: "mset (sq x) = mset (filter (\<lambda>m. receipt_handle m \<notin> set ?G) (sq x))
                          + mset (filter (\<lambda>m. receipt_handle m \<in> set ?G) batch)"
    by (metis split eq)
  have "mset (sent x) = mset (filter (\<lambda>m. receipt_handle m \<notin> set ?G) (sq x))
          + mset (map fst (acked x)) + mset (filter (\<lambda>m. receipt_handle m \<in> set ?G) batch)"
    unfolding s0 by (subst s1) (simp only: ac_simps)
  moreover have "list_all (\<lambda>(m, s). msg_ok gw cfg s m)
                   (map (\<lambda>m. (m, w x)) (filter (\<lambda>m. receipt_handle m \<in> set ?G) batch))"
    using ok by (auto simp: list_all_iff)
  ultimately show ?thesis
    using inv dsq by (simp add: queue_inv_def poll_step_def poll_gone Let_def o_def distinct_map_filter
                               algebra_simps)
qed

lemma qreach_inv: "qreach gw cfg x \<Longrightarrow> queue_inv gw cfg x"
proof (induction rule: qreach.induct)
  case (init s)
  then show ?case by (rule queue_inv_init)
next
  case (step x y)
  from step.hyps(2) step.IH show ?case
    by (cases rule: qstep_cases) (auto intro: queue_inv_send queue_inv_world queue_inv_poll)
qed

lemma poll_step_sq:
  "sq (poll_step gw cfg batch x)
     = filter (\<lambda>m. receipt_handle m \<notin> receipt_handle ` set (filter (msg_ok gw cfg (w x)) batch)) (sq x)"
  by (simp add: poll_step_def poll_gone Let_def)

lemma poll_and_process_env:
  "env_view (snd (poll_and_process gw cfg r s)) = env_view s"
proof (cases r)
  case (Inr msgs)
  then show ?thesis
    using handle_messages_facts [of gw cfg s msgs]
    by (cases msgs) (simp_all add: poll_and_process_def)
qed (simp add: poll_and_process_def)

lemma poll_step_env: "env_view (w (poll_step gw cfg batch x)) = env_view (w x)"
  by (simp add: poll_step_def Let_def poll_and_process_env)

lemma poll_step_sent: "sent (poll_step gw cfg batch x) = sent x"
  by (simp add: poll_step_def Let_def)

lemma queue_inv_distinct: "queue_inv gw cfg x \<Longrightarrow> distinct (sq x)"
  by (simp add: queue_inv_def distinct_map)

lemma poll_step_keeps_failed:
  assumes inv: "queue_inv gw cfg x" and sub: "set batch \<subseteq> set (sq x)"
    and m: "m \<in> set (sq x)" and bad: "\<not> msg_ok gw cfg (w x) m"
  shows "m \<in> set (sq (poll_step gw cfg batch x))"
proof -
  have inj: "inj_on receipt_handle (set (sq x))"
    using inv by (simp add: queue_inv_def distinct_map)
  have "receipt_handle m \<notin> receipt_handle ` set (filter (msg_ok gw cfg (w x)) batch)"
  proof
    assume "receipt_handle m \<in> receipt_handle ` set (filter (msg_ok gw cfg (w x)) batch)"
    then obtain m' where m': "m' \<in> set batch" "msg_ok gw cfg (w x) m'"
      "receipt_handle m' = receipt_handle m" by auto
    have "m' \<in> set (sq x)" using sub m'(1) by (rule subsetD)
    then have "m' = m" using inj_onD [OF inj m'(3)] m by simp
    then show False using m'(2) bad by simp
  qed
  then show ?thesis using m by (simp add: poll_step_sq)
qed

lemma drain_step_shrinks:
  assumes inv: "queue_inv gw cfg x" and ne: "sq x \<noteq> []" and k: "0 < k"
    and ok: "msg_ok gw cfg (w x) (hd (sq x))"
  shows "length (sq (poll_step gw cfg (take k (sq x)) x)) < length (sq x)"
proof -
  have "hd (sq x) \<in> set (filter (msg_ok gw cfg (w x)) (take k (sq x)))"
    using ne k ok by (cases "sq x"; cases k) simp_all
  then have "receipt_handle (hd (sq x)) \<in> receipt_handle ` set (filter (msg_ok gw cfg (w x)) (take k (sq x)))"
    by blast
  then show ?thesis
    using length_filter_less [OF hd_in_set [OF ne],
            of "\<lambda>m. receipt_handle m \<notin> receipt_handle ` set (filter (msg_ok gw cfg (w x)) (take k (sq x)))"]
    by (simp add: poll_step_sq)
qed

text \<open>C2: along every run of the worker against its queue, no message is lost
  or duplicated: the messages S3 sent are, as a multiset, the messages still
  queued plus the messages the worker deleted, and each deleted message had
  succeeded in the worker state in which it was processed.\<close>
lemma queue_no_loss:
  assumes "qreach gw cfg x"
  shows "mset (sent x) = mset (sq x) + mset (map fst (acked x))
         \<and> (\<forall>(m, s) \<in> set (acked x). msg_ok gw cfg s m)"
  using qreach_inv [OF assms] by (simp add: queue_inv_def list_all_iff)

text \<open>C3: a poll leaves a queued message in the queue exactly when it was not
  delivered or it failed: delivered messages that succeed are dropped, the
  others wait for redelivery.\<close>
lemma poll_drops_exactly:
  assumes "qreach gw cfg x" and "distinct batch" and "set batch \<subseteq> set (sq x)"
    and "m \<in> set (sq x)"
  shows "m \<in> set (sq (poll_step gw cfg batch x)) \<longleftrightarrow> m \<notin> set batch \<or> \<not> msg_ok gw cfg (w x) m"
proof -
  have "inj_on receipt_handle (set (sq x))"
    using qreach_inv [OF assms(1)] by (simp add: queue_inv_def distinct_map)
  then have "receipt_handle m \<in> receipt_handle ` set (filter (msg_ok gw cfg (w x)) batch)
             \<longleftrightarrow> m \<in> set batch \<and> msg_ok gw cfg (w x) m"
    using assms(3,4) by (auto dest: inj_onD)
  then show ?thesis
    using assms(4) by (simp add: poll_step_sq)
qed

text \<open>C4: progress. With MaxNumberOfMessages in 1..10, a queued message that
  would succeed in the current state can be delivered by a poll, which deletes
  it and records it as processed.\<close>
lemma queued_ok_message_deletable:
  assumes "m \<in> set (sq x)" and "msg_ok gw cfg (w x) m"
    and "1 \<le> max_messages (sqs cfg)" and "max_messages (sqs cfg) \<le> 10"
  shows "\<exists>y. qstep gw cfg x y \<and> m \<notin> set (sq y) \<and> (m, w x) \<in> set (acked y)"
proof -
  have "qstep gw cfg x (poll_step gw cfg [m] x)"
    using assms by (intro qstep.poll) simp_all
  moreover have "m \<notin> set (sq (poll_step gw cfg [m] x))"
    using assms(2) by (simp add: poll_step_sq)
  moreover have "(m, w x) \<in> set (acked (poll_step gw cfg [m] x))"
    using assms(2) by (simp add: poll_step_def poll_gone Let_def)
  ultimately show ?thesis by blast
qed

lemma drain_poll_step:
  assumes r: "qreach gw cfg y" and k: "1 \<le> max_messages (sqs cfg)" "max_messages (sqs cfg) \<le> 10"
    and ne: "sq y \<noteq> []" and ok: "msg_ok gw cfg (w y) (hd (sq y))"
  shows "qreach gw cfg (poll_step gw cfg (take (nat (max_messages (sqs cfg))) (sq y)) y)
         \<and> length (sq (poll_step gw cfg (take (nat (max_messages (sqs cfg))) (sq y)) y)) < length (sq y)"
proof -
  let ?b = "take (nat (max_messages (sqs cfg))) (sq y)"
  have inv: "queue_inv gw cfg y" using r by (rule qreach_inv)
  have "qstep gw cfg y (poll_step gw cfg ?b y)"
  proof (rule qstep.poll)
    show "distinct ?b" using queue_inv_distinct [OF inv] by simp
    show "set ?b \<subseteq> set (sq y)" by (rule set_take_subset)
    show "int (length ?b) \<le> max_messages (sqs cfg)" using k(1) by simp
  qed (use k in simp_all)
  then show ?thesis
    using qreach.step [OF r] drain_step_shrinks [OF inv ne _ ok] k(1) by simp
qed

lemma drained_all_acked:
  assumes "qreach gw cfg x" and "qreach gw cfg y" and "sent y = sent x" and "sq y = []"
  shows "set (sq x) \<subseteq> fst ` set (acked y)"
proof -
  have "mset (sent y) = mset (map fst (acked y))"
    using qreach_inv [OF assms(2)] assms(4) by (simp add: queue_inv_def)
  moreover have "set (sq x) \<subseteq> set (sent x)"
    using qreach_inv [OF assms(1)] mset_sum_set_sub [of "sent x" "sq x" "mset (map fst (acked x))"]
    by (simp add: queue_inv_def)
  ultimately show ?thesis
    using assms(3) by (metis set_map set_mset_mset)
qed

lemma qreach_queued:
  "distinct (map receipt_handle ms) \<Longrightarrow> qreach gw cfg \<lparr>sq = ms, sent = ms, acked = [], w = s\<rparr>"
proof (induction ms rule: rev_induct)
  case Nil
  show ?case by (rule qreach.init)
next
  case (snoc m ms)
  then have r: "qreach gw cfg \<lparr>sq = ms, sent = ms, acked = [], w = s\<rparr>"
    and f: "receipt_handle m \<notin> receipt_handle ` set ms" by auto
  show ?case
    using qreach.step [OF r qstep.send [of m "\<lparr>sq = ms, sent = ms, acked = [], w = s\<rparr>"]] f by simp
qed

lemma drain_ok:
  assumes "qreach gw cfg x" and "1 \<le> max_messages (sqs cfg)" and "max_messages (sqs cfg) \<le> 10"
    and "\<forall>m \<in> set (sq x). msg_ok gw cfg (w x) m"
  shows "\<exists>y. drain gw cfg x = Some y \<and> sq y = [] \<and> qreach gw cfg y
           \<and> env_view (w y) = env_view (w x) \<and> set (sq x) \<subseteq> fst ` set (acked y)"
proof -
  let ?c = "\<lambda>x. poll_step gw cfg (take (nat (max_messages (sqs cfg))) (sq x)) x"
  let ?P = "\<lambda>y. qreach gw cfg y \<and> env_view (w y) = env_view (w x) \<and> sent y = sent x
                \<and> set (sq y) \<subseteq> set (sq x)"
  have step: "?P (?c y) \<and> length (sq (?c y)) < length (sq y)" if P: "?P y" and ne: "sq y \<noteq> []" for y
  proof -
    have "msg_ok gw cfg (w y) (hd (sq y))"
      using P ne assms(4) msg_ok_env [of "w y" "w x" gw cfg] hd_in_set [OF ne] by blast
    then have "qreach gw cfg (?c y) \<and> length (sq (?c y)) < length (sq y)"
      using drain_poll_step [OF _ assms(2,3) ne] P by blast
    moreover have "set (sq (?c y)) \<subseteq> set (sq y)" by (simp add: poll_step_sq)
    ultimately show ?thesis
      using P by (simp add: poll_step_env poll_step_sent) blast
  qed
  have "\<exists>y. drain gw cfg x = Some y"
    unfolding drain_def
    by (rule measure_while_option_Some [of ?P _ _ "\<lambda>y. length (sq y)"]) (use step assms(1) in auto)
  then obtain y where y: "drain gw cfg x = Some y" by blast
  then have y': "while_option (\<lambda>x. sq x \<noteq> []) ?c x = Some y" by (simp add: drain_def)
  have Py: "?P y"
  proof (rule while_option_rule [OF _ y'])
    show "?P z \<Longrightarrow> sq z \<noteq> [] \<Longrightarrow> ?P (?c z)" for z using step by blast
  qed (use assms(1) in simp)
  have e: "sq y = []" using while_option_stop [OF y'] by simp
  then show ?thesis using y Py drained_all_acked [OF assms(1), of y] by blast
qed

text \<open>C5: termination. With MaxNumberOfMessages in 1..10 and every queued
  message one that succeeds, the polling loop empties the queue in finitely
  many polls (each poll deletes at least the first queued message), in a
  reachable state with the same environment, having deleted every message
  that was queued.\<close>
lemma drain_terminates:
  assumes "qreach gw cfg x" and "1 \<le> max_messages (sqs cfg)" and "max_messages (sqs cfg) \<le> 10"
    and "\<forall>m \<in> set (sq x). msg_ok gw cfg (w x) m"
  shows "\<exists>y. drain gw cfg x = Some y \<and> sq y = [] \<and> qreach gw cfg y
           \<and> env_view (w y) = env_view (w x) \<and> set (sq x) \<subseteq> fst ` set (acked y)"
  using assms by (rule drain_ok)

text \<open>C6: a message that fails in the current environment is never drained:
  the loop keeps receiving it and leaving it queued, so \<open>drain\<close> never ends
  (there is no retry cap and no dead-letter path).\<close>
lemma drain_blocked:
  assumes "qreach gw cfg x" and "m \<in> set (sq x)" and "\<not> msg_ok gw cfg (w x) m"
  shows "drain gw cfg x = None"
proof (rule ccontr)
  let ?c = "\<lambda>x. poll_step gw cfg (take (nat (max_messages (sqs cfg))) (sq x)) x"
  let ?P = "\<lambda>y. queue_inv gw cfg y \<and> env_view (w y) = env_view (w x) \<and> m \<in> set (sq y)"
  assume "drain gw cfg x \<noteq> None"
  then obtain y where y: "while_option (\<lambda>x. sq x \<noteq> []) ?c x = Some y"
    by (auto simp: drain_def)
  have "?P (?c y)" if P: "?P y" for y
  proof -
    have "\<not> msg_ok gw cfg (w y) m"
      using P assms(3) msg_ok_env [of "w y" "w x" gw cfg] by simp
    then have "m \<in> set (sq (?c y))"
      using P poll_step_keeps_failed [of gw cfg y "take (nat (max_messages (sqs cfg))) (sq y)" m]
      by (simp add: set_take_subset)
    moreover have "distinct (sq y)" using P queue_inv_distinct by blast
    then have "queue_inv gw cfg (?c y)"
      using P by (intro queue_inv_poll) (simp_all add: set_take_subset)
    ultimately show ?thesis using P by (simp add: poll_step_env)
  qed
  then have "?P y"
    using while_option_rule [OF _ y, of ?P] qreach_inv [OF assms(1)] assms(2) by blast
  then show False using while_option_stop [OF y] by auto
qed

section \<open>Witnesses\<close>

text \<open>A run: S3 sends a message whose body has no Records and one whose body is
  not JSON.\<close>

lemma example_queue_reach1:
  "qreach example_gateway example_config \<lparr>sq = [\<lparr>receipt_handle = ''rh-1'', msg_body = Some (JObj [])\<rparr>], sent = [\<lparr>receipt_handle = ''rh-1'', msg_body = Some (JObj [])\<rparr>], acked = [], w = example_world\<rparr>"
  using qreach.step [OF qreach.init qstep.send [of "\<lparr>receipt_handle = ''rh-1'', msg_body = Some (JObj [])\<rparr>"]] by simp

lemma example_queue_reach:
  "qreach example_gateway example_config \<lparr>sq = [\<lparr>receipt_handle = ''rh-1'', msg_body = Some (JObj [])\<rparr>, \<lparr>receipt_handle = ''rh-2'', msg_body = None\<rparr>], sent = [\<lparr>receipt_handle = ''rh-1'', msg_body = Some (JObj [])\<rparr>, \<lparr>receipt_handle = ''rh-2'', msg_body = None\<rparr>], acked = [], w = example_world\<rparr>"
  using qreach.step [OF example_queue_reach1 qstep.send [of "\<lparr>receipt_handle = ''rh-2'', msg_body = None\<rparr>"]] by simp

lemma example_msg_ok:
  "msg_ok example_gateway example_config example_world \<lparr>receipt_handle = ''rh-1'', msg_body = Some (JObj [])\<rparr>
   \<and> \<not> msg_ok example_gateway example_config example_world \<lparr>receipt_handle = ''rh-2'', msg_body = None\<rparr>"
  by (simp add: msg_ok_def process_message_def delete_message_def example_world_def)

lemma queue_no_loss_witness:
  "qreach example_gateway example_config (poll_step example_gateway example_config [\<lparr>receipt_handle = ''rh-1'', msg_body = Some (JObj [])\<rparr>, \<lparr>receipt_handle = ''rh-2'', msg_body = None\<rparr>] \<lparr>sq = [\<lparr>receipt_handle = ''rh-1'', msg_body = Some (JObj [])\<rparr>, \<lparr>receipt_handle = ''rh-2'', msg_body = None\<rparr>], sent = [\<lparr>receipt_handle = ''rh-1'', msg_body = Some (JObj [])\<rparr>, \<lparr>receipt_handle = ''rh-2'', msg_body = None\<rparr>], acked = [], w = example_world\<rparr>)
   \<and> sq (poll_step example_gateway example_config [\<lparr>receipt_handle = ''rh-1'', msg_body = Some (JObj [])\<rparr>, \<lparr>receipt_handle = ''rh-2'', msg_body = None\<rparr>] \<lparr>sq = [\<lparr>receipt_handle = ''rh-1'', msg_body = Some (JObj [])\<rparr>, \<lparr>receipt_handle = ''rh-2'', msg_body = None\<rparr>], sent = [\<lparr>receipt_handle = ''rh-1'', msg_body = Some (JObj [])\<rparr>, \<lparr>receipt_handle = ''rh-2'', msg_body = None\<rparr>], acked = [], w = example_world\<rparr>) = [\<lparr>receipt_handle = ''rh-2'', msg_body = None\<rparr>]
   \<and> mset (sent (poll_step example_gateway example_config [\<lparr>receipt_handle = ''rh-1'', msg_body = Some (JObj [])\<rparr>, \<lparr>receipt_handle = ''rh-2'', msg_body = None\<rparr>] \<lparr>sq = [\<lparr>receipt_handle = ''rh-1'', msg_body = Some (JObj [])\<rparr>, \<lparr>receipt_handle = ''rh-2'', msg_body = None\<rparr>], sent = [\<lparr>receipt_handle = ''rh-1'', msg_body = Some (JObj [])\<rparr>, \<lparr>receipt_handle = ''rh-2'', msg_body = None\<rparr>], acked = [], w = example_world\<rparr>))
       = mset (sq (poll_step example_gateway example_config [\<lparr>receipt_handle = ''rh-1'', msg_body = Some (JObj [])\<rparr>, \<lparr>receipt_handle = ''rh-2'', msg_body = None\<rparr>] \<lparr>sq = [\<lparr>receipt_handle = ''rh-1'', msg_body = Some (JObj [])\<rparr>, \<lparr>receipt_handle = ''rh-2'', msg_body = None\<rparr>], sent = [\<lparr>receipt_handle = ''rh-1'', msg_body = Some (JObj [])\<rparr>, \<lparr>receipt_handle = ''rh-2'', msg_body = None\<rparr>], acked = [], w = example_world\<rparr>))
         + mset (map fst (acked (poll_step example_gateway example_config [\<lparr>receipt_handle = ''rh-1'', msg_body = Some (JObj [])\<rparr>, \<lparr>receipt_handle = ''rh-2'', msg_body = None\<rparr>] \<lparr>sq = [\<lparr>receipt_handle = ''rh-1'', msg_body = Some (JObj [])\<rparr>, \<lparr>receipt_handle = ''rh-2'', msg_body = None\<rparr>], sent = [\<lparr>receipt_handle = ''rh-1'', msg_body = Some (JObj [])\<rparr>, \<lparr>receipt_handle = ''rh-2'', msg_body = None\<rparr>], acked = [], w = example_world\<rparr>)))"
proof -
  have r: "qreach example_gateway example_config (poll_step example_gateway example_config [\<lparr>receipt_handle = ''rh-1'', msg_body = Some (JObj [])\<rparr>, \<lparr>receipt_handle = ''rh-2'', msg_body = None\<rparr>] \<lparr>sq = [\<lparr>receipt_handle = ''rh-1'', msg_body = Some (JObj [])\<rparr>, \<lparr>receipt_handle = ''rh-2'', msg_body = None\<rparr>], sent = [\<lparr>receipt_handle = ''rh-1'', msg_body = Some (JObj [])\<rparr>, \<lparr>receipt_handle = ''rh-2'', msg_body = None\<rparr>], acked = [], w = example_world\<rparr>)"
    by (rule qreach.step [OF example_queue_reach qstep.poll]) (simp_all add: example_config_def)
  have q: "sq (poll_step example_gateway example_config [\<lparr>receipt_handle = ''rh-1'', msg_body = Some (JObj [])\<rparr>, \<lparr>receipt_handle = ''rh-2'', msg_body = None\<rparr>] \<lparr>sq = [\<lparr>receipt_handle = ''rh-1'', msg_body = Some (JObj [])\<rparr>, \<lparr>receipt_handle = ''rh-2'', msg_body = None\<rparr>], sent = [\<lparr>receipt_handle = ''rh-1'', msg_body = Some (JObj [])\<rparr>, \<lparr>receipt_handle = ''rh-2'', msg_body = None\<rparr>], acked = [], w = example_world\<rparr>) = [\<lparr>receipt_handle = ''rh-2'', msg_body = None\<rparr>]"
    using example_msg_ok by (simp add: poll_step_sq)
  show ?thesis
    using queue_no_loss [OF r] r q by simp
qed

lemma poll_drops_exactly_witness:
  "qreach example_gateway example_config \<lparr>sq = [\<lparr>receipt_handle = ''rh-1'', msg_body = Some (JObj [])\<rparr>, \<lparr>receipt_handle = ''rh-2'', msg_body = None\<rparr>], sent = [\<lparr>receipt_handle = ''rh-1'', msg_body = Some (JObj [])\<rparr>, \<lparr>receipt_handle = ''rh-2'', msg_body = None\<rparr>], acked = [], w = example_world\<rparr>
   \<and> set [\<lparr>receipt_handle = ''rh-1'', msg_body = Some (JObj [])\<rparr>, \<lparr>receipt_handle = ''rh-2'', msg_body = None\<rparr>] \<subseteq> set (sq \<lparr>sq = [\<lparr>receipt_handle = ''rh-1'', msg_body = Some (JObj [])\<rparr>, \<lparr>receipt_handle = ''rh-2'', msg_body = None\<rparr>], sent = [\<lparr>receipt_handle = ''rh-1'', msg_body = Some (JObj [])\<rparr>, \<lparr>receipt_handle = ''rh-2'', msg_body = None\<rparr>], acked = [], w = example_world\<rparr>)
   \<and> distinct [\<lparr>receipt_handle = ''rh-1'', msg_body = Some (JObj [])\<rparr>, \<lparr>receipt_handle = ''rh-2'', msg_body = None\<rparr>]
   \<and> \<lparr>receipt_handle = ''rh-1'', msg_body = Some (JObj [])\<rparr> \<notin> set (sq (poll_step example_gateway example_config [\<lparr>receipt_handle = ''rh-1'', msg_body = Some (JObj [])\<rparr>, \<lparr>receipt_handle = ''rh-2'', msg_body = None\<rparr>] \<lparr>sq = [\<lparr>receipt_handle = ''rh-1'', msg_body = Some (JObj [])\<rparr>, \<lparr>receipt_handle = ''rh-2'', msg_body = None\<rparr>], sent = [\<lparr>receipt_handle = ''rh-1'', msg_body = Some (JObj [])\<rparr>, \<lparr>receipt_handle = ''rh-2'', msg_body = None\<rparr>], acked = [], w = example_world\<rparr>))
   \<and> \<lparr>receipt_handle = ''rh-2'', msg_body = None\<rparr> \<in> set (sq (poll_step example_gateway example_config [\<lparr>receipt_handle = ''rh-1'', msg_body = Some (JObj [])\<rparr>, \<lparr>receipt_handle = ''rh-2'', msg_body = None\<rparr>] \<lparr>sq = [\<lparr>receipt_handle = ''rh-1'', msg_body = Some (JObj [])\<rparr>, \<lparr>receipt_handle = ''rh-2'', msg_body = None\<rparr>], sent = [\<lparr>receipt_handle = ''rh-1'', msg_body = Some (JObj [])\<rparr>, \<lparr>receipt_handle = ''rh-2'', msg_body = None\<rparr>], acked = [], w = example_world\<rparr>))"
proof -
  have d: "distinct [\<lparr>receipt_handle = ''rh-1'', msg_body = Some (JObj [])\<rparr>, \<lparr>receipt_handle = ''rh-2'', msg_body = None\<rparr>]" by simp
  show ?thesis
    using poll_drops_exactly [OF example_queue_reach d, of "\<lparr>receipt_handle = ''rh-1'', msg_body = Some (JObj [])\<rparr>"]
          poll_drops_exactly [OF example_queue_reach d, of "\<lparr>receipt_handle = ''rh-2'', msg_body = None\<rparr>"] example_msg_ok d
          example_queue_reach
    by simp
qed

lemma queued_ok_message_deletable_witness:
  "\<lparr>receipt_handle = ''rh-1'', msg_body = Some (JObj [])\<rparr> \<in> set (sq \<lparr>sq = [\<lparr>receipt_handle = ''rh-1'', msg_body = Some (JObj [])\<rparr>, \<lparr>receipt_handle = ''rh-2'', msg_body = None\<rparr>], sent = [\<lparr>receipt_handle = ''rh-1'', msg_body = Some (JObj [])\<rparr>, \<lparr>receipt_handle = ''rh-2'', msg_body = None\<rparr>], acked = [], w = example_world\<rparr>)
   \<and> msg_ok example_gateway example_config example_world \<lparr>receipt_handle = ''rh-1'', msg_body = Some (JObj [])\<rparr>
   \<and> 1 \<le> max_messages (sqs example_config) \<and> max_messages (sqs example_config) \<le> 10
   \<and> (\<exists>y. qstep example_gateway example_config \<lparr>sq = [\<lparr>receipt_handle = ''rh-1'', msg_body = Some (JObj [])\<rparr>, \<lparr>receipt_handle = ''rh-2'', msg_body = None\<rparr>], sent = [\<lparr>receipt_handle = ''rh-1'', msg_body = Some (JObj [])\<rparr>, \<lparr>receipt_handle = ''rh-2'', msg_body = None\<rparr>], acked = [], w = example_world\<rparr> y \<and> \<lparr>receipt_handle = ''rh-1'', msg_body = Some (JObj [])\<rparr> \<notin> set (sq y)
          \<and> (\<lparr>receipt_handle = ''rh-1'', msg_body = Some (JObj [])\<rparr>, example_world) \<in> set (acked y))"
proof -
  have h: "\<lparr>receipt_handle = ''rh-1'', msg_body = Some (JObj [])\<rparr> \<in> set (sq \<lparr>sq = [\<lparr>receipt_handle = ''rh-1'', msg_body = Some (JObj [])\<rparr>, \<lparr>receipt_handle = ''rh-2'', msg_body = None\<rparr>], sent = [\<lparr>receipt_handle = ''rh-1'', msg_body = Some (JObj [])\<rparr>, \<lparr>receipt_handle = ''rh-2'', msg_body = None\<rparr>], acked = [], w = example_world\<rparr>)" "msg_ok example_gateway example_config (w \<lparr>sq = [\<lparr>receipt_handle = ''rh-1'', msg_body = Some (JObj [])\<rparr>, \<lparr>receipt_handle = ''rh-2'', msg_body = None\<rparr>], sent = [\<lparr>receipt_handle = ''rh-1'', msg_body = Some (JObj [])\<rparr>, \<lparr>receipt_handle = ''rh-2'', msg_body = None\<rparr>], acked = [], w = example_world\<rparr>) \<lparr>receipt_handle = ''rh-1'', msg_body = Some (JObj [])\<rparr>"
    "1 \<le> max_messages (sqs example_config)" "max_messages (sqs example_config) \<le> 10"
    using example_msg_ok by (simp_all add: example_config_def)
  show ?thesis
    using queued_ok_message_deletable [OF h] h by simp
qed

lemma drain_terminates_witness:
  "qreach example_gateway example_config \<lparr>sq = [\<lparr>receipt_handle = ''rh-1'', msg_body = Some (JObj [])\<rparr>], sent = [\<lparr>receipt_handle = ''rh-1'', msg_body = Some (JObj [])\<rparr>], acked = [], w = example_world\<rparr>
   \<and> 1 \<le> max_messages (sqs example_config) \<and> max_messages (sqs example_config) \<le> 10
   \<and> msg_ok example_gateway example_config example_world \<lparr>receipt_handle = ''rh-1'', msg_body = Some (JObj [])\<rparr>
   \<and> (\<exists>y. drain example_gateway example_config \<lparr>sq = [\<lparr>receipt_handle = ''rh-1'', msg_body = Some (JObj [])\<rparr>], sent = [\<lparr>receipt_handle = ''rh-1'', msg_body = Some (JObj [])\<rparr>], acked = [], w = example_world\<rparr> = Some y \<and> sq y = []
          \<and> qreach example_gateway example_config y \<and> env_view (w y) = env_view example_world
          \<and> \<lparr>receipt_handle = ''rh-1'', msg_body = Some (JObj [])\<rparr> \<in> fst ` set (acked y))"
proof -
  have h: "1 \<le> max_messages (sqs example_config)" "max_messages (sqs example_config) \<le> 10"
    "\<forall>m \<in> set (sq \<lparr>sq = [\<lparr>receipt_handle = ''rh-1'', msg_body = Some (JObj [])\<rparr>], sent = [\<lparr>receipt_handle = ''rh-1'', msg_body = Some (JObj [])\<rparr>], acked = [], w = example_world\<rparr>). msg_ok example_gateway example_config (w \<lparr>sq = [\<lparr>receipt_handle = ''rh-1'', msg_body = Some (JObj [])\<rparr>], sent = [\<lparr>receipt_handle = ''rh-1'', msg_body = Some (JObj [])\<rparr>], acked = [], w = example_world\<rparr>) m"
    using example_msg_ok by (simp_all add: example_config_def)
  show ?thesis
    using drain_terminates [OF example_queue_reach1 h] example_queue_reach1 h example_msg_ok by simp
qed

lemma drain_blocked_witness:
  "qreach example_gateway example_config \<lparr>sq = [\<lparr>receipt_handle = ''rh-1'', msg_body = Some (JObj [])\<rparr>, \<lparr>receipt_handle = ''rh-2'', msg_body = None\<rparr>], sent = [\<lparr>receipt_handle = ''rh-1'', msg_body = Some (JObj [])\<rparr>, \<lparr>receipt_handle = ''rh-2'', msg_body = None\<rparr>], acked = [], w = example_world\<rparr>
   \<and> \<lparr>receipt_handle = ''rh-2'', msg_body = None\<rparr> \<in> set (sq \<lparr>sq = [\<lparr>receipt_handle = ''rh-1'', msg_body = Some (JObj [])\<rparr>, \<lparr>receipt_handle = ''rh-2'', msg_body = None\<rparr>], sent = [\<lparr>receipt_handle = ''rh-1'', msg_body = Some (JObj [])\<rparr>, \<lparr>receipt_handle = ''rh-2'', msg_body = None\<rparr>], acked = [], w = example_world\<rparr>)
   \<and> \<not> msg_ok example_gateway example_config example_world \<lparr>receipt_handle = ''rh-2'', msg_body = None\<rparr>
   \<and> drain example_gateway example_config \<lparr>sq = [\<lparr>receipt_handle = ''rh-1'', msg_body = Some (JObj [])\<rparr>, \<lparr>receipt_handle = ''rh-2'', msg_body = None\<rparr>], sent = [\<lparr>receipt_handle = ''rh-1'', msg_body = Some (JObj [])\<rparr>, \<lparr>receipt_handle = ''rh-2'', msg_body = None\<rparr>], acked = [], w = example_world\<rparr> = None"
  using drain_blocked [OF example_queue_reach, of "\<lparr>receipt_handle = ''rh-2'', msg_body = None\<rparr>"] example_queue_reach example_msg_ok by simp

end
