(* ===== verification/Similarity.thy ===== *)
theory Similarity
  imports Json "HOL-Library.Multiset"
begin

text \<open>
  The vector utilities of \<open>src/src/processor/embeddings.py\<close>:
  \<open>compute_similarity\<close> (cosine similarity with numpy), \<open>find_similar_tickets\<close>
  (filter by a threshold, stable sort by similarity, highest first, keep the
  first \<open>top_k\<close>) and \<open>get_embedding_stats\<close>. Embedding entries are exact
  rationals and the numpy results exact reals: \<open>np.dot\<close> is the exact sum of
  products and \<open>np.linalg.norm\<close> the exact square root, so the lemmas say what
  the code computes up to floating-point rounding. The lemmas show the
  Cauchy--Schwarz bound that keeps a similarity in [-1, 1], that a nonzero
  vector is similar to itself with score 1, that \<open>find_similar_tickets\<close>
  refines an abstract top-k specification (\<open>top_k_spec\<close>), and that the
  statistics order their minimum, mean and maximum.
\<close>

section \<open>compute_similarity\<close>

text \<open>\<open>np.dot\<close> of two vectors of the same length.\<close>

definition dot :: "rat list \<Rightarrow> rat list \<Rightarrow> rat" where
  "dot xs ys = sum_list (map (\<lambda>(x, y). x * y) (zip xs ys))"

text \<open>\<open>np.linalg.norm\<close> of a vector: the square root of its sum of squares.\<close>

definition sq_norm :: "rat list \<Rightarrow> rat" where
  "sq_norm xs = sum_list (map (\<lambda>x. x * x) xs)"

definition vec_norm :: "rat list \<Rightarrow> real" where
  "vec_norm xs = sqrt (of_rat (sq_norm xs))"

text \<open>\<open>np.dot\<close> of 1-d arrays of different lengths raises \<open>ValueError\<close>
  (shapes not aligned); a zero norm gives 0.0.\<close>

definition compute_similarity :: "rat list \<Rightarrow> rat list \<Rightarrow> real res" where
  "compute_similarity v1 v2 =
     (if length v1 \<noteq> length v2 then Inl ValueError
      else (let d = dot v1 v2; n1 = vec_norm v1; n2 = vec_norm v2
            in if n1 = 0 \<or> n2 = 0 then Inr 0 else Inr (of_rat d / (n1 * n2))))"

section \<open>find_similar_tickets\<close>

text \<open>\<open>np.array(ticket["embedding"])\<close> as numpy reads a JSON array of numbers:
  integers and floats as they are, booleans as 0 and 1 (numpy upcasts them
  against the float query); a string or \<open>None\<close> entry makes \<open>np.dot\<close> raise
  \<open>TypeError\<close>. A value that is not an array is outside the model: numpy
  broadcasts a scalar, which yields a float only for a one-element query, and
  the model raises \<open>TypeError\<close> for it.\<close>

fun json_num :: "json \<Rightarrow> rat res" where
  "json_num (JInt i) = Inr (of_int i)"
| "json_num (JFloat q) = Inr q"
| "json_num (JBool b) = Inr (if b then 1 else 0)"
| "json_num _ = Inl TypeError"

fun json_vector :: "json \<Rightarrow> rat list res" where
  "json_vector (JArr xs) = res_sequence (map json_num xs)"
| "json_vector _ = Inl TypeError"

text \<open>The loop of \<open>find_similar_tickets\<close>: skip a ticket without
  \<open>"embedding"\<close>, compute its similarity, keep it when the similarity reaches
  the threshold. A kept entry is the ticket with its similarity (the source's
  \<open>{**ticket, "similarity": similarity}\<close>).\<close>

fun similarities_of :: "rat list \<Rightarrow> real \<Rightarrow> json list \<Rightarrow> (json \<times> real) list res" where
  "similarities_of q m [] = Inr []"
| "similarities_of q m (t # ts) =
     rbind (py_in ''embedding'' t) (\<lambda>has.
       if \<not> has then similarities_of q m ts
       else rbind (py_getitem t ''embedding'') (\<lambda>e.
              rbind (json_vector e) (\<lambda>v.
                rbind (compute_similarity q v) (\<lambda>s.
                  rbind (similarities_of q m ts) (\<lambda>rest.
                    Inr (if m \<le> s then (t, s) # rest else rest))))))"

text \<open>\<open>similarities.sort(key=..., reverse=True)\<close> is stable: entries with
  equal similarity keep their order, as \<open>sort_key\<close> on the negated key does.
  Then \<open>[:top_k]\<close>.\<close>

definition find_similar_tickets ::
  "rat list \<Rightarrow> json list \<Rightarrow> int \<Rightarrow> real \<Rightarrow> (json \<times> real) list res" where
  "find_similar_tickets q tes top_k min_similarity =
     rbind (similarities_of q min_similarity tes)
       (\<lambda>sims. Inr (py_slice_to (sort_key (\<lambda>x. - snd x) sims) top_k))"

text \<open>What a top-k query promises: at most \<open>k\<close> of the candidates, all of them
  when there are fewer, highest similarity first, and no candidate left out
  that is more similar than one kept.\<close>

definition top_k_spec :: "nat \<Rightarrow> ('a \<times> real) list \<Rightarrow> ('a \<times> real) list \<Rightarrow> bool" where
  "top_k_spec k cands r \<longleftrightarrow>
     mset r \<subseteq># mset cands \<and> length r = min k (length cands)
     \<and> sorted_wrt (\<lambda>a b. snd b \<le> snd a) r
     \<and> (\<forall>x \<in> set r. \<forall>y \<in># mset cands - mset r. snd y \<le> snd x)"

section \<open>get_embedding_stats\<close>

record embedding_stats =
  st_count :: nat
  st_dimension :: nat
  norm_mean :: real
  norm_std :: real
  norm_min :: real
  norm_max :: real

definition py_mean :: "real list \<Rightarrow> real" where
  "py_mean xs = sum_list xs / real (length xs)"

text \<open>A ragged list makes \<open>np.array\<close> raise \<open>ValueError\<close> (numpy 1.24 and
  later); \<open>np.std\<close> is the population deviation.\<close>

definition get_embedding_stats :: "rat list list \<Rightarrow> embedding_stats res" where
  "get_embedding_stats es =
     (if es = [] then
        Inr \<lparr>st_count = 0, st_dimension = 0, norm_mean = 0, norm_std = 0, norm_min = 0, norm_max = 0\<rparr>
      else if \<not> list_all (\<lambda>e. length e = length (hd es)) es then Inl ValueError
      else (let ns = map vec_norm es; mu = py_mean ns
            in Inr \<lparr>st_count = length es, st_dimension = length (hd es), norm_mean = mu,
                    norm_std = sqrt (py_mean (map (\<lambda>n. (n - mu)\<^sup>2) ns)),
                    norm_min = Min (set ns), norm_max = Max (set ns)\<rparr>))"

section \<open>Cauchy--Schwarz\<close>

lemma square_expand_pt:
  fixes x y A C :: "'a::comm_ring_1"
  shows "(A * y - C * x)\<^sup>2 = A\<^sup>2 * (y * y) - 2 * A * C * (x * y) + C\<^sup>2 * (x * x)"
  by (simp add: power2_eq_square algebra_simps)

lemma sum_list_square_expand:
  fixes zs :: "('a::comm_ring_1 \<times> 'a) list"
  shows "sum_list (map (\<lambda>(x, y). (A * y - C * x)\<^sup>2) zs)
         = A\<^sup>2 * sum_list (map (\<lambda>(x, y). y * y) zs) - 2 * A * C * sum_list (map (\<lambda>(x, y). x * y) zs)
           + C\<^sup>2 * sum_list (map (\<lambda>(x, y). x * x) zs)"
proof (induction zs)
  case (Cons z zs)
  obtain x y where "z = (x, y)" by fastforce
  then show ?case
    using Cons.IH by (simp only: list.map sum_list.Cons prod.case square_expand_pt) (simp add: algebra_simps)
qed simp

lemma sum_list_squares_nonneg:
  fixes zs :: "('a::linordered_idom \<times> 'a) list" and f :: "'a \<Rightarrow> 'a \<Rightarrow> 'a"
  shows "0 \<le> sum_list (map (\<lambda>(x, y). f x y * f x y) zs)"
  by (rule sum_list_nonneg) auto

lemma cauchy_schwarz_pairs:
  fixes zs :: "('a::linordered_field \<times> 'a) list"
  defines "A \<equiv> sum_list (map (\<lambda>(x, y). x * x) zs)"
    and "B \<equiv> sum_list (map (\<lambda>(x, y). y * y) zs)"
    and "C \<equiv> sum_list (map (\<lambda>(x, y). x * y) zs)"
  shows "C * C \<le> A * B"
proof (cases "A = 0")
  case True
  then have "\<forall>(x, y) \<in> set zs. x = 0"
    unfolding A_def by (subst (asm) sum_list_nonneg_eq_0_iff) auto
  then have "C = 0"
    unfolding C_def by (induction zs) auto
  then show ?thesis
    using True by simp
next
  case False
  have "0 \<le> A"
    unfolding A_def using sum_list_squares_nonneg [of "\<lambda>x y. x" zs] by simp
  with False have A0: "0 < A" by simp
  have "0 \<le> sum_list (map (\<lambda>(x, y). (A * y - C * x)\<^sup>2) zs)"
    by (rule sum_list_nonneg) auto
  also have "\<dots> = A * (A * B - C * C)"
    unfolding sum_list_square_expand A_def [symmetric] B_def [symmetric] C_def [symmetric]
    by (simp add: power2_eq_square algebra_simps)
  finally show ?thesis
    using A0 by (simp add: zero_le_mult_iff)
qed

section \<open>Norms and dot products\<close>

lemma sq_norm_nonneg: "0 \<le> sq_norm v"
  unfolding sq_norm_def by (rule sum_list_nonneg) auto

lemma sq_norm_eq_0_iff: "sq_norm v = 0 \<longleftrightarrow> (\<forall>x \<in> set v. x = 0)"
  unfolding sq_norm_def by (subst sum_list_nonneg_eq_0_iff) auto

lemma vec_norm_nonneg: "0 \<le> vec_norm v"
  by (simp add: vec_norm_def sq_norm_nonneg)

lemma vec_norm_eq_0_iff: "vec_norm v = 0 \<longleftrightarrow> sq_norm v = 0"
  by (simp add: vec_norm_def)

lemma vec_norm_mult_self: "vec_norm v * vec_norm v = of_rat (sq_norm v)"
  by (simp add: vec_norm_def sq_norm_nonneg)

lemma dot_self: "dot v v = sq_norm v"
  by (induction v) (auto simp: dot_def sq_norm_def)

lemma sq_norm_zip:
  "length v1 = length v2 \<Longrightarrow>
     sq_norm v1 = sum_list (map (\<lambda>(x, y). x * x) (zip v1 v2))
     \<and> sq_norm v2 = sum_list (map (\<lambda>(x, y). y * y) (zip v1 v2))"
  by (induction v1 v2 rule: list_induct2) (auto simp: sq_norm_def)

lemma dot_cauchy_schwarz:
  "length v1 = length v2 \<Longrightarrow> dot v1 v2 * dot v1 v2 \<le> sq_norm v1 * sq_norm v2"
  using cauchy_schwarz_pairs [of "zip v1 v2"] sq_norm_zip [of v1 v2]
  by (simp add: dot_def)

lemma abs_dot_le_norms:
  assumes "length v1 = length v2"
  shows "\<bar>of_rat (dot v1 v2) :: real\<bar> \<le> vec_norm v1 * vec_norm v2"
proof -
  have "\<bar>of_rat (dot v1 v2) :: real\<bar> = sqrt (of_rat (dot v1 v2 * dot v1 v2))"
    by (simp add: of_rat_mult real_sqrt_abs2)
  also have "\<dots> \<le> sqrt (of_rat (sq_norm v1 * sq_norm v2))"
    using dot_cauchy_schwarz [OF assms] by (simp add: of_rat_less_eq)
  also have "\<dots> = vec_norm v1 * vec_norm v2"
    by (simp add: vec_norm_def of_rat_mult real_sqrt_mult)
  finally show ?thesis .
qed

lemma compute_similarity_Inr_iff:
  "compute_similarity v1 v2 = Inr s \<longleftrightarrow>
     length v1 = length v2 \<and>
     s = (if vec_norm v1 = 0 \<or> vec_norm v2 = 0 then 0
          else of_rat (dot v1 v2) / (vec_norm v1 * vec_norm v2))"
  by (auto simp: compute_similarity_def Let_def)

section \<open>Top-k\<close>

lemma take_sort_top_k:
  fixes cands :: "('a \<times> real) list"
  shows "top_k_spec n cands (take n (sort_key (\<lambda>x. - snd x) cands))"
proof -
  let ?s = "sort_key (\<lambda>x. - snd x) cands"
  have srt: "sorted_wrt (\<lambda>a b. snd b \<le> snd a) ?s"
    using sorted_sort_key [of "\<lambda>x. - snd x" cands] by (simp add: sorted_map)
  have split: "mset cands = mset (take n ?s) + mset (drop n ?s)"
    by (metis append_take_drop_id mset_append mset_sort)
  have "sorted_wrt (\<lambda>a b. snd b \<le> snd a) (take n ?s @ drop n ?s)"
    using srt by simp
  then have "\<forall>x \<in> set (take n ?s). \<forall>y \<in> set (drop n ?s). snd y \<le> snd x"
    by (simp only: sorted_wrt_append) blast
  moreover have "sorted_wrt (\<lambda>a b. snd b \<le> snd a) (take n ?s)"
    using srt by (rule sorted_wrt_take)
  ultimately show ?thesis
    using split by (simp add: top_k_spec_def min.commute)
qed

section \<open>Embedding statistics\<close>

lemma sum_list_bounds:
  fixes ns :: "real list"
  assumes "ns \<noteq> []"
  shows "real (length ns) * Min (set ns) \<le> sum_list ns \<and> sum_list ns \<le> real (length ns) * Max (set ns)"
proof -
  have "sum_list (map (\<lambda>_. Min (set ns)) ns) \<le> sum_list (map (\<lambda>x. x) ns)"
    by (rule sum_list_mono) simp
  moreover have "sum_list (map (\<lambda>x. x) ns) \<le> sum_list (map (\<lambda>_. Max (set ns)) ns)"
    by (rule sum_list_mono) simp
  ultimately show ?thesis
    by (simp add: sum_list_triv)
qed

lemma py_mean_bounds:
  assumes "ns \<noteq> []"
  shows "Min (set ns) \<le> py_mean ns \<and> py_mean ns \<le> Max (set ns)"
  using sum_list_bounds [OF assms] assms
  by (simp add: py_mean_def pos_le_divide_eq pos_divide_le_eq mult.commute)

lemma similarities_of_sound:
  "similarities_of q m tes = Inr cands \<Longrightarrow>
     \<forall>(t, s) \<in> set cands. m \<le> s \<and> t \<in> set tes \<and> py_in ''embedding'' t = Inr True"
proof (induction tes arbitrary: cands)
  case (Cons t ts)
  then show ?case
    by (auto simp: rbind_eq_Inr split: if_splits)
qed simp

section \<open>Properties\<close>

text \<open>In exact arithmetic a similarity returned by compute_similarity lies in
  [-1, 1], as its docstring says (Cauchy--Schwarz). The code computes in
  float64 and does not clip, so rounding can take the quotient slightly past
  1 (for two equal vectors, say); the bound below is a fact about the exact
  quotient only.\<close>
lemma compute_similarity_bounds:
  assumes "compute_similarity v1 v2 = Inr s"
  shows "-1 \<le> s \<and> s \<le> 1"
proof (cases "vec_norm v1 = 0 \<or> vec_norm v2 = 0")
  case True
  then show ?thesis using assms by (simp add: compute_similarity_Inr_iff)
next
  case False
  then have p: "0 < vec_norm v1 * vec_norm v2"
    using vec_norm_nonneg [of v1] vec_norm_nonneg [of v2] by simp
  have len: "length v1 = length v2" and s: "s = of_rat (dot v1 v2) / (vec_norm v1 * vec_norm v2)"
    using assms False by (simp_all add: compute_similarity_Inr_iff)
  have "\<bar>s\<bar> \<le> 1"
    using abs_dot_le_norms [OF len] p by (simp add: s abs_divide pos_divide_le_eq)
  then show ?thesis by arith
qed

text \<open>A vector with a nonzero entry has similarity exactly 1 with itself.\<close>
lemma compute_similarity_self:
  assumes "\<exists>x \<in> set v. x \<noteq> 0"
  shows "compute_similarity v v = Inr 1"
proof -
  have "sq_norm v \<noteq> 0" using assms by (simp add: sq_norm_eq_0_iff)
  then show ?thesis
    by (simp add: compute_similarity_Inr_iff vec_norm_eq_0_iff vec_norm_mult_self dot_self)
qed

text \<open>C36: with a non-negative top_k, find_similar_tickets returns and its answer
  meets the top-k specification over the tickets that reach the threshold.\<close>
lemma find_similar_tickets_top_k:
  assumes "similarities_of q m tes = Inr cands" and "0 \<le> k"
  shows "\<exists>r. find_similar_tickets q tes k m = Inr r \<and> top_k_spec (nat k) cands r"
  using assms take_sort_top_k [of "nat k" cands]
  by (simp add: find_similar_tickets_def py_slice_to_def)

text \<open>C37: every ticket find_similar_tickets returns is one of its inputs that
  has an embedding, with a similarity at least min_similarity.\<close>
lemma find_similar_tickets_sound:
  assumes "find_similar_tickets q tes k m = Inr r"
  shows "\<forall>(t, s) \<in> set r. m \<le> s \<and> t \<in> set tes \<and> py_in ''embedding'' t = Inr True"
proof -
  obtain cands where c: "similarities_of q m tes = Inr cands"
    and r: "r = py_slice_to (sort_key (\<lambda>x. - snd x) cands) k"
    using assms by (auto simp: find_similar_tickets_def rbind_eq_Inr)
  have "set r \<subseteq> set cands"
    unfolding r py_slice_to_def by (auto dest: in_set_takeD)
  then show ?thesis
    using similarities_of_sound [OF c] by blast
qed

text \<open>The statistics of a non-empty, rectangular list of embeddings count
  it and order the norms: 0 <= norm_min <= norm_mean <= norm_max.\<close>
lemma get_embedding_stats_order:
  assumes "get_embedding_stats es = Inr st" and "es \<noteq> []"
  shows "st_count st = length es \<and> 0 \<le> norm_min st \<and> norm_min st \<le> norm_mean st
         \<and> norm_mean st \<le> norm_max st"
proof -
  let ?ns = "map vec_norm es"
  have ne: "?ns \<noteq> []" using assms(2) by simp
  have st: "st_count st = length es \<and> norm_mean st = py_mean ?ns
            \<and> norm_min st = Min (set ?ns) \<and> norm_max st = Max (set ?ns)"
    using assms by (auto simp: get_embedding_stats_def Let_def split: if_splits)
  have "0 \<le> Min (set ?ns)"
    using ne by (auto simp: vec_norm_nonneg)
  then show ?thesis
    using st py_mean_bounds [OF ne] by simp
qed

section \<open>Witnesses\<close>

lemma compute_similarity_bounds_witness:
  "compute_similarity [1, 0] [3/5, 4/5] = Inr (3/5) \<and> -1 \<le> (3/5 :: real) \<and> (3/5 :: real) \<le> 1"
proof -
  have "compute_similarity [1, 0] [3/5, 4/5] = Inr (3/5)"
    by (simp add: compute_similarity_def dot_def vec_norm_def sq_norm_def of_rat_divide)
  then show ?thesis using compute_similarity_bounds by blast
qed

lemma compute_similarity_self_witness:
  "(\<exists>x \<in> set [3/5, 4/5 :: rat]. x \<noteq> 0) \<and> compute_similarity [3/5, 4/5] [3/5, 4/5] = Inr 1"
  using compute_similarity_self [of "[3/5, 4/5]"] by simp

lemma find_similar_tickets_witness:
  "similarities_of [1, 0] (1/2)
     [JObj [(''ticket_id'', JStr ''T-1''), (''embedding'', JArr [JInt 1, JInt 0])],
      JObj [(''ticket_id'', JStr ''T-2''), (''embedding'', JArr [JFloat 0, JFloat 1])],
      JObj [(''ticket_id'', JStr ''T-3'')]]
   = Inr [(JObj [(''ticket_id'', JStr ''T-1''), (''embedding'', JArr [JInt 1, JInt 0])], 1)]
   \<and> (\<exists>r. find_similar_tickets [1, 0]
            [JObj [(''ticket_id'', JStr ''T-1''), (''embedding'', JArr [JInt 1, JInt 0])],
             JObj [(''ticket_id'', JStr ''T-2''), (''embedding'', JArr [JFloat 0, JFloat 1])],
             JObj [(''ticket_id'', JStr ''T-3'')]] 1 (1/2) = Inr r
          \<and> top_k_spec 1 [(JObj [(''ticket_id'', JStr ''T-1''), (''embedding'', JArr [JInt 1, JInt 0])], 1)] r)"
proof -
  have c: "similarities_of [1, 0] (1/2)
     [JObj [(''ticket_id'', JStr ''T-1''), (''embedding'', JArr [JInt 1, JInt 0])],
      JObj [(''ticket_id'', JStr ''T-2''), (''embedding'', JArr [JFloat 0, JFloat 1])],
      JObj [(''ticket_id'', JStr ''T-3'')]]
   = Inr [(JObj [(''ticket_id'', JStr ''T-1''), (''embedding'', JArr [JInt 1, JInt 0])], 1)]"
    by (simp add: compute_similarity_def dot_def vec_norm_def sq_norm_def jlookup_def)
  show ?thesis
    using find_similar_tickets_top_k [OF c, of 1] c by simp
qed

lemma find_similar_tickets_sound_witness:
  "find_similar_tickets [1, 0] [JObj [(''embedding'', JArr [JInt 2, JInt 0])]] 5 (1/2)
     = Inr [(JObj [(''embedding'', JArr [JInt 2, JInt 0])], 1)]
   \<and> (1/2 :: real) \<le> 1 \<and> JObj [(''embedding'', JArr [JInt 2, JInt 0])] \<in> set [JObj [(''embedding'', JArr [JInt 2, JInt 0])]]
   \<and> py_in ''embedding'' (JObj [(''embedding'', JArr [JInt 2, JInt 0])]) = Inr True"
proof -
  have f: "find_similar_tickets [1, 0] [JObj [(''embedding'', JArr [JInt 2, JInt 0])]] 5 (1/2)
     = Inr [(JObj [(''embedding'', JArr [JInt 2, JInt 0])], 1)]"
    by (simp add: find_similar_tickets_def compute_similarity_def dot_def vec_norm_def sq_norm_def
                  jlookup_def py_slice_to_def)
  show ?thesis
    using find_similar_tickets_sound [OF f] f by simp
qed

lemma get_embedding_stats_order_witness:
  "get_embedding_stats [[0, 0], [1, 0]]
     = Inr \<lparr>st_count = 2, st_dimension = 2, norm_mean = 1/2, norm_std = 1/2, norm_min = 0, norm_max = 1\<rparr>
   \<and> [[0, 0], [1, 0 :: rat]] \<noteq> [] \<and> (0 :: real) \<le> 0 \<and> (0 :: real) \<le> 1/2 \<and> (1/2 :: real) \<le> 1"
proof -
  have g: "get_embedding_stats [[0, 0], [1, 0]]
     = Inr \<lparr>st_count = 2, st_dimension = 2, norm_mean = 1/2, norm_std = 1/2, norm_min = 0, norm_max = 1\<rparr>"
    by (simp add: get_embedding_stats_def vec_norm_def sq_norm_def py_mean_def power2_eq_square
                  real_sqrt_divide Let_def numeral_2_eq_2)
  show ?thesis
    using get_embedding_stats_order [OF g] g by simp
qed

end
