(* ===== verification/AwsClients.thy ===== *)
theory AwsClients
  imports Config
begin

text \<open>
  \<open>src/src/common/aws_clients.py\<close>: how the boto3 clients are configured.
  boto3 itself is not modelled; a client or resource is the keyword arguments
  the factory passes to \<open>boto3.client\<close> or \<open>boto3.resource\<close> (the record
  \<open>client_kwargs\<close>), computed from the environment. The worker builds its
  three handles in \<open>TicketProcessor.__init__\<close> (\<open>worker_clients\<close>) from
  \<open>config.aws.use_localstack\<close>. The lemmas show that these handles are the
  ones auto-detection would build, that a caller forcing LocalStack mode when
  the environment does not select it gets test credentials and no endpoint,
  and what \<open>get_arn\<close> returns for the docstring's example.
\<close>

definition is_localstack :: "env \<Rightarrow> bool" where
  "is_localstack e \<longleftrightarrow> py_lower (getenv e ''USE_LOCALSTACK'' ''false'') = ''true''"

definition get_endpoint_url :: "env \<Rightarrow> string option" where
  "get_endpoint_url e =
     (if is_localstack e then Some (getenv e ''AWS_ENDPOINT_URL'' ''http://localhost:4566'') else None)"

record botocore_config =
  max_attempts :: nat
  retry_mode :: string
  connect_timeout :: nat
  read_timeout :: nat

definition get_aws_config :: botocore_config where
  "get_aws_config = \<lparr>max_attempts = 3, retry_mode = ''standard'', connect_timeout = 5, read_timeout = 30\<rparr>"

datatype handle_kind = BotoClient | BotoResource

record client_kwargs =
  kind :: handle_kind
  service_name :: string
  ck_config :: botocore_config
  ck_endpoint_url :: "string option"
  access_key_id :: "string option"
  secret_access_key :: "string option"
  region_name :: string

text \<open>\<open>localstack if localstack is not None else is_localstack()\<close>.\<close>

definition use_localstack_of :: "env \<Rightarrow> bool option \<Rightarrow> bool" where
  "use_localstack_of e localstack = (case localstack of Some b \<Rightarrow> b | None \<Rightarrow> is_localstack e)"

definition get_aws_client :: "env \<Rightarrow> string \<Rightarrow> bool option \<Rightarrow> client_kwargs" where
  "get_aws_client e service localstack =
     (if use_localstack_of e localstack then
        \<lparr>kind = BotoClient, service_name = service, ck_config = get_aws_config,
         ck_endpoint_url = get_endpoint_url e,
         access_key_id = Some (getenv e ''AWS_ACCESS_KEY_ID'' ''test''),
         secret_access_key = Some (getenv e ''AWS_SECRET_ACCESS_KEY'' ''test''),
         region_name = getenv e ''AWS_REGION'' ''us-east-1''\<rparr>
      else
        \<lparr>kind = BotoClient, service_name = service, ck_config = get_aws_config,
         ck_endpoint_url = None, access_key_id = None, secret_access_key = None,
         region_name = getenv e ''AWS_REGION'' ''us-east-1''\<rparr>)"

definition get_aws_resource :: "env \<Rightarrow> string \<Rightarrow> bool option \<Rightarrow> client_kwargs" where
  "get_aws_resource e service localstack =
     (if use_localstack_of e localstack then
        \<lparr>kind = BotoResource, service_name = service, ck_config = get_aws_config,
         ck_endpoint_url = get_endpoint_url e,
         access_key_id = Some (getenv e ''AWS_ACCESS_KEY_ID'' ''test''),
         secret_access_key = Some (getenv e ''AWS_SECRET_ACCESS_KEY'' ''test''),
         region_name = getenv e ''AWS_REGION'' ''us-east-1''\<rparr>
      else
        \<lparr>kind = BotoResource, service_name = service, ck_config = get_aws_config,
         ck_endpoint_url = None, access_key_id = None, secret_access_key = None,
         region_name = getenv e ''AWS_REGION'' ''us-east-1''\<rparr>)"

definition get_s3_client :: "env \<Rightarrow> bool option \<Rightarrow> client_kwargs" where
  "get_s3_client e localstack = get_aws_client e ''s3'' localstack"

definition get_sqs_client :: "env \<Rightarrow> bool option \<Rightarrow> client_kwargs" where
  "get_sqs_client e localstack = get_aws_client e ''sqs'' localstack"

definition get_dynamodb_resource :: "env \<Rightarrow> bool option \<Rightarrow> client_kwargs" where
  "get_dynamodb_resource e localstack = get_aws_resource e ''dynamodb'' localstack"

text \<open>The three handles of \<open>TicketProcessor.__init__\<close>, built from the loaded
  configuration.\<close>

definition worker_clients ::
  "env \<Rightarrow> processor_config \<Rightarrow> client_kwargs \<times> client_kwargs \<times> client_kwargs" where
  "worker_clients e cfg =
     (get_s3_client e (Some (use_localstack (aws cfg))),
      get_sqs_client e (Some (use_localstack (aws cfg))),
      get_dynamodb_resource e (Some (use_localstack (aws cfg))))"

definition get_arn :: "env \<Rightarrow> string \<Rightarrow> string \<Rightarrow> bool option \<Rightarrow> string" where
  "get_arn e service resource localstack =
     (let region = getenv e ''AWS_REGION'' ''us-east-1'';
          account_id = (if use_localstack_of e localstack then ''000000000000''
                        else getenv e ''AWS_ACCOUNT_ID'' ''123456789012'')
      in ''arn:aws:'' @ service @ '':'' @ region @ '':'' @ account_id @ '':'' @ resource)"

section \<open>Lemmas\<close>

lemma aws_from_env_localstack: "use_localstack (aws_from_env e) = is_localstack e"
  by (simp add: aws_from_env_def is_localstack_def Let_def)

text \<open>C32: the worker's S3, SQS and DynamoDB handles, built from
  ProcessorConfig.from_env, are exactly the ones auto-detection builds from
  the same environment.\<close>
lemma worker_clients_autodetect:
  assumes "processor_from_env home e = Inr cfg"
  shows "worker_clients e cfg =
           (get_aws_client e ''s3'' None, get_aws_client e ''sqs'' None,
            get_aws_resource e ''dynamodb'' None)"
proof -
  have "aws cfg = aws_from_env e"
    using assms by (auto simp: processor_from_env_def rbind_eq_Inr)
  then show ?thesis
    by (simp add: worker_clients_def get_s3_client_def get_sqs_client_def get_dynamodb_resource_def
                  get_aws_client_def get_aws_resource_def use_localstack_of_def aws_from_env_localstack)
qed

text \<open>C33: a caller that forces LocalStack mode (localstack=True) in an
  environment that does not set USE_LOCALSTACK gets the LocalStack test
  credentials but no endpoint: get_endpoint_url consults the environment
  again, so the client talks to the real AWS endpoint with fake keys.\<close>
lemma forced_localstack_no_endpoint:
  assumes "\<not> is_localstack e"
  shows "ck_endpoint_url (get_aws_client e service (Some True)) = None
         \<and> access_key_id (get_aws_client e service (Some True)) = Some (getenv e ''AWS_ACCESS_KEY_ID'' ''test'')"
  using assms by (simp add: get_aws_client_def get_endpoint_url_def use_localstack_of_def)

text \<open>The docstring's example ARN for the queue, with account
  000000000000, is what get_arn returns when USE_LOCALSTACK=true; in an
  environment without it the account is 123456789012.\<close>
lemma get_arn_example:
  "get_arn [''USE_LOCALSTACK'' \<mapsto> ''true''] ''sqs'' ''ticket-processing-queue'' None
     = ''arn:aws:sqs:us-east-1:000000000000:ticket-processing-queue''
   \<and> get_arn Map.empty ''sqs'' ''ticket-processing-queue'' None
     = ''arn:aws:sqs:us-east-1:123456789012:ticket-processing-queue''"
  by (simp add: get_arn_def getenv_def use_localstack_of_def is_localstack_def py_lower_def
                py_lower_char_def)

section \<open>Witnesses\<close>

lemma worker_clients_autodetect_witness:
  "processor_from_env ''/root'' Map.empty = Inr example_config
   \<and> worker_clients Map.empty example_config =
       (get_aws_client Map.empty ''s3'' None, get_aws_client Map.empty ''sqs'' None,
        get_aws_resource Map.empty ''dynamodb'' None)"
proof -
  have p: "processor_from_env ''/root'' Map.empty = Inr example_config"
    by (simp add: processor_from_env_def sqs_from_env_def model_from_env_def aws_from_env_def
                  s3_from_env_def dynamodb_from_env_def example_config_def getenv_def py_int_def
                  py_strip_def py_isspace_def is_digit_def digits_val_def digit_val_def py_lower_def
                  py_lower_char_def)
  show ?thesis using worker_clients_autodetect [OF p] p by simp
qed

lemma forced_localstack_no_endpoint_witness:
  "\<not> is_localstack Map.empty
   \<and> ck_endpoint_url (get_aws_client Map.empty ''s3'' (Some True)) = None
   \<and> access_key_id (get_aws_client Map.empty ''s3'' (Some True)) = Some ''test''"
proof -
  have n: "\<not> is_localstack Map.empty"
    by (simp add: is_localstack_def getenv_def py_lower_def py_lower_char_def)
  show ?thesis using forced_localstack_no_endpoint [OF n, of "''s3''"] n by (simp add: getenv_def)
qed

end
