(* ===== verification/Models.thy ===== *)
theory Models
  imports Config
begin

text \<open>
  \<open>src/src/processor/models.py\<close> up to the model libraries: the table
  \<open>MODEL_CONFIGS\<close>, \<open>get_device\<close>, \<open>get_model_cache_dir\<close> (which falls back
  to \<open>ModelConfig.from_env()\<close>), each of the three cached loaders as what
  it hands to \<open>SentenceTransformer\<close> or \<open>pipeline\<close> (the model name and the
  cache directory; the device is always the CPU), \<open>get_model_info\<close>,
  \<open>preload_all_models\<close> and \<open>check_model_availability\<close>, then the
  \<open>@lru_cache(maxsize=1)\<close> of each loader as a slot of the process's
  \<open>model_cache\<close>, \<open>clear_model_cache\<close>, the two start-up routines over the
  caches and the script's \<open>__main__\<close> block. The library call itself is the
  parameter \<open>lib\<close>, which says which (name, directory) pairs load; a loaded
  model is the pair it was loaded from. \<open>mkdir\<close>, the log lines and the
  printing are not modelled, and a path is the string it was built from.
  The lemmas show that the loaders use the configured cache directory and
  the table's model names, not the names \<open>ModelConfig\<close> reads from the
  environment; that preloading succeeds exactly when the availability check
  reports every model available; that the caches stay coherent
  (\<open>cache_ok\<close>) while the configuration does not change, so that the
  cached routines refine the uncached ones and \<open>__main__\<close> succeeds exactly
  when every model is available; and that a cached model outlives a change
  of configuration until \<open>clear_model_cache\<close>.
\<close>

record model_spec =
  ms_name :: string
  size_mb :: nat
  ms_dim :: "nat option"
  ms_type :: string

definition MODEL_CONFIGS :: "(string \<times> model_spec) list" where
  "MODEL_CONFIGS = [
     (''embeddings'', \<lparr>ms_name = ''sentence-transformers/all-MiniLM-L6-v2'', size_mb = 22,
                       ms_dim = Some 384, ms_type = ''sentence-transformer''\<rparr>),
     (''classifier'', \<lparr>ms_name = ''distilbert-base-uncased-finetuned-sst-2-english'', size_mb = 255,
                       ms_dim = None, ms_type = ''sequence-classification''\<rparr>),
     (''summarizer'', \<lparr>ms_name = ''sshleifer/distilbart-cnn-6-6'', size_mb = 315,
                       ms_dim = None, ms_type = ''seq2seq''\<rparr>)]"

definition get_device :: string where
  "get_device = ''cpu''"

text \<open>\<open>os.getenv("MODEL_CACHE_DIR")\<close> when it is a non-empty string, else the
  \<open>cache_dir\<close> of \<open>ModelConfig.from_env()\<close>, which raises when
  \<open>MAX_SUMMARY_LENGTH\<close> is not an integer.\<close>

definition get_model_cache_dir :: "string \<Rightarrow> env \<Rightarrow> string res" where
  "get_model_cache_dir home e =
     (case e ''MODEL_CACHE_DIR'' of
        Some d \<Rightarrow> (if d \<noteq> [] then Inr d else rbind (model_from_env home e) (\<lambda>c. Inr (cache_dir c)))
      | None \<Rightarrow> rbind (model_from_env home e) (\<lambda>c. Inr (cache_dir c)))"

text \<open>A loader: \<open>config = MODEL_CONFIGS[kind]\<close>, then the cache directory; the
  result is the model name and the directory passed to the library.\<close>

definition load_model :: "string \<Rightarrow> string \<Rightarrow> env \<Rightarrow> (string \<times> string) res" where
  "load_model kind home e =
     (case map_of MODEL_CONFIGS kind of
        None \<Rightarrow> Inl KeyError
      | Some spec \<Rightarrow> rbind (get_model_cache_dir home e) (\<lambda>d. Inr (ms_name spec, d)))"

definition load_embedding_model :: "string \<Rightarrow> env \<Rightarrow> (string \<times> string) res" where
  "load_embedding_model home e = load_model ''embeddings'' home e"

definition load_classifier_pipeline :: "string \<Rightarrow> env \<Rightarrow> (string \<times> string) res" where
  "load_classifier_pipeline home e = load_model ''classifier'' home e"

definition load_summarizer_pipeline :: "string \<Rightarrow> env \<Rightarrow> (string \<times> string) res" where
  "load_summarizer_pipeline home e = load_model ''summarizer'' home e"

text \<open>\<open>get_model_info()["total_size_mb"]\<close>.\<close>

definition total_size_mb :: nat where
  "total_size_mb = sum_list (map (\<lambda>(k, m). size_mb m) MODEL_CONFIGS)"

text \<open>\<open>get_model_info()\<close> without the PyTorch fields: the cache directory, the
  device and the total size. It raises when \<open>get_model_cache_dir\<close> does.\<close>

definition get_model_info :: "string \<Rightarrow> env \<Rightarrow> (string \<times> string \<times> nat) res" where
  "get_model_info home e = rbind (get_model_cache_dir home e) (\<lambda>d. Inr (d, get_device, total_size_mb))"

text \<open>The \<open>try\<close> around \<open>SentenceTransformer(...)\<close> or \<open>pipeline(...)\<close> in
  each loader: the model library either loads the named model into the cache
  directory or raises, and the loader re-raises. The library is the
  parameter \<open>lib\<close>, which says which (name, directory) pairs load.\<close>

definition library_load :: "(string \<times> string \<Rightarrow> bool) \<Rightarrow> (string \<times> string) res \<Rightarrow> unit res" where
  "library_load lib r = rbind r (\<lambda>a. if lib a then Inr () else Inl ModelError)"

text \<open>\<open>preload_all_models()\<close>: the three loaders in order; the first exception
  propagates.\<close>

definition preload_all_models :: "(string \<times> string \<Rightarrow> bool) \<Rightarrow> string \<Rightarrow> env \<Rightarrow> unit res" where
  "preload_all_models lib home e =
     rbind (library_load lib (load_embedding_model home e)) (\<lambda>_.
     rbind (library_load lib (load_classifier_pipeline home e)) (\<lambda>_.
       library_load lib (load_summarizer_pipeline home e)))"

text \<open>\<open>check_model_availability()\<close>: each loader in its own \<open>try\<close>; a loaded
  model is never \<open>None\<close>, so an entry is \<open>True\<close> exactly when the load did not
  raise.\<close>

definition check_model_availability ::
  "(string \<times> string \<Rightarrow> bool) \<Rightarrow> string \<Rightarrow> env \<Rightarrow> (string \<times> bool) list" where
  "check_model_availability lib home e =
     [(''embeddings'', case library_load lib (load_embedding_model home e) of Inr _ \<Rightarrow> True | Inl _ \<Rightarrow> False),
      (''classifier'', case library_load lib (load_classifier_pipeline home e) of Inr _ \<Rightarrow> True | Inl _ \<Rightarrow> False),
      (''summarizer'', case library_load lib (load_summarizer_pipeline home e) of Inr _ \<Rightarrow> True | Inl _ \<Rightarrow> False)]"

text \<open>The loaded model, as the library builds it from the (name, directory)
  pair, or the loader's exception.\<close>

definition library_model ::
  "(string \<times> string \<Rightarrow> bool) \<Rightarrow> (string \<times> string) res \<Rightarrow> (string \<times> string) res" where
  "library_model lib r = rbind r (\<lambda>a. if lib a then Inr a else Inl ModelError)"

subsection \<open>The caches\<close>

text \<open>\<open>@lru_cache(maxsize=1)\<close> on a function without arguments: one slot,
  the result of the first call that returned; a call that raises caches
  nothing. \<open>call\<close> is what the undecorated body returns.\<close>

definition lru_cache_call :: "'a res \<Rightarrow> 'a option \<Rightarrow> 'a res \<times> 'a option" where
  "lru_cache_call call c =
     (case c of
        Some v \<Rightarrow> (Inr v, c)
      | None \<Rightarrow> (case call of Inl ex \<Rightarrow> (Inl ex, None) | Inr v \<Rightarrow> (Inr v, Some v)))"

text \<open>The process's three caches, one per decorated loader, by its kind in
  \<open>MODEL_CONFIGS\<close>.\<close>

type_synonym model_cache = "string \<rightharpoonup> string \<times> string"

text \<open>A call of a decorated loader: \<open>load_embedding_model()\<close>,
  \<open>load_classifier_pipeline()\<close> or \<open>load_summarizer_pipeline()\<close> for the
  kinds \<open>embeddings\<close>, \<open>classifier\<close>, \<open>summarizer\<close>.\<close>

definition cached_load ::
  "(string \<times> string \<Rightarrow> bool) \<Rightarrow> string \<Rightarrow> string \<Rightarrow> env \<Rightarrow> model_cache
     \<Rightarrow> (string \<times> string) res \<times> model_cache" where
  "cached_load lib kind home e c =
     (case lru_cache_call (library_model lib (load_model kind home e)) (c kind) of
        (r, v) \<Rightarrow> (r, c(kind := v)))"

text \<open>\<open>clear_model_cache()\<close>: the three \<open>cache_clear()\<close> calls.\<close>

definition clear_model_cache :: "model_cache \<Rightarrow> model_cache" where
  "clear_model_cache c = c(''embeddings'' := None, ''classifier'' := None, ''summarizer'' := None)"

text \<open>\<open>preload_all_models()\<close> over the caches.\<close>

definition preload_all_models_cached ::
  "(string \<times> string \<Rightarrow> bool) \<Rightarrow> string \<Rightarrow> env \<Rightarrow> model_cache \<Rightarrow> unit res \<times> model_cache" where
  "preload_all_models_cached lib home e c =
     (case cached_load lib ''embeddings'' home e c of
        (Inl ex, c1) \<Rightarrow> (Inl ex, c1)
      | (Inr _, c1) \<Rightarrow>
          (case cached_load lib ''classifier'' home e c1 of
             (Inl ex, c2) \<Rightarrow> (Inl ex, c2)
           | (Inr _, c2) \<Rightarrow>
               (case cached_load lib ''summarizer'' home e c2 of
                  (Inl ex, c3) \<Rightarrow> (Inl ex, c3)
                | (Inr _, c3) \<Rightarrow> (Inr (), c3))))"

text \<open>\<open>check_model_availability()\<close> over the caches.\<close>

definition check_model_availability_cached ::
  "(string \<times> string \<Rightarrow> bool) \<Rightarrow> string \<Rightarrow> env \<Rightarrow> model_cache \<Rightarrow> (string \<times> bool) list \<times> model_cache" where
  "check_model_availability_cached lib home e c =
     (case cached_load lib ''embeddings'' home e c of
        (r1, c1) \<Rightarrow>
          (case cached_load lib ''classifier'' home e c1 of
             (r2, c2) \<Rightarrow>
               (case cached_load lib ''summarizer'' home e c2 of
                  (r3, c3) \<Rightarrow>
                    ([(''embeddings'', case r1 of Inr _ \<Rightarrow> True | Inl _ \<Rightarrow> False),
                      (''classifier'', case r2 of Inr _ \<Rightarrow> True | Inl _ \<Rightarrow> False),
                      (''summarizer'', case r3 of Inr _ \<Rightarrow> True | Inl _ \<Rightarrow> False)], c3))))"

text \<open>The caches agree with the library and the environment: every cached
  model of a kind is the one its loader would load now.\<close>

definition cache_ok :: "(string \<times> string \<Rightarrow> bool) \<Rightarrow> string \<Rightarrow> env \<Rightarrow> model_cache \<Rightarrow> bool" where
  "cache_ok lib home e c \<longleftrightarrow>
     list_all (\<lambda>k. case c k of None \<Rightarrow> True | Some m \<Rightarrow> library_model lib (load_model k home e) = Inr m)
       (map fst MODEL_CONFIGS)"

text \<open>The script's \<open>__main__\<close> block in a fresh process: \<open>get_model_info()\<close>,
  \<open>check_model_availability()\<close>, then \<open>preload_all_models()\<close>, which raises
  out of the script when a model does not load. The result is what it
  prints: the information and the availability table.\<close>

definition models_main ::
  "(string \<times> string \<Rightarrow> bool) \<Rightarrow> string \<Rightarrow> env \<Rightarrow> ((string \<times> string \<times> nat) \<times> (string \<times> bool) list) res" where
  "models_main lib home e =
     (case get_model_info home e of
        Inl ex \<Rightarrow> Inl ex
      | Inr info \<Rightarrow>
          (case check_model_availability_cached lib home e Map.empty of
             (av, c1) \<Rightarrow>
               (case preload_all_models_cached lib home e c1 of
                  (Inl ex, c2) \<Rightarrow> Inl ex
                | (Inr _, c2) \<Rightarrow> Inr (info, av))))"

section \<open>Lemmas\<close>

lemma model_from_env_cache_dir:
  "model_from_env home e = Inr m \<Longrightarrow>
     cache_dir m = getenv e ''MODEL_CACHE_DIR'' (home @ ''/.cache/models'')"
  by (auto simp: model_from_env_def rbind_eq_Inr)

lemma get_model_cache_dir_config:
  assumes "model_from_env home e = Inr m"
  shows "get_model_cache_dir home e = Inr (cache_dir m)"
  using assms model_from_env_cache_dir [OF assms]
  by (auto simp: get_model_cache_dir_def getenv_def split: option.splits)

lemma get_model_info_config:
  "model_from_env home e = Inr m \<Longrightarrow> get_model_info home e = Inr (cache_dir m, ''cpu'', 592)"
  by (simp add: get_model_info_def get_model_cache_dir_config get_device_def total_size_mb_def
                MODEL_CONFIGS_def)

lemma preload_all_models_config:
  assumes "model_from_env home e = Inr m"
  shows "preload_all_models lib home e =
           (if list_all lib (map (\<lambda>(k, s). (ms_name s, cache_dir m)) MODEL_CONFIGS)
            then Inr () else Inl ModelError)"
  using get_model_cache_dir_config [OF assms]
  by (simp add: preload_all_models_def library_load_def load_embedding_model_def
                load_classifier_pipeline_def load_summarizer_pipeline_def load_model_def MODEL_CONFIGS_def)

text \<open>Each loader hands the library the name MODEL_CONFIGS gives its kind
  and the cache directory of the configuration the worker loaded
  (ModelConfig.cache_dir), whether MODEL_CACHE_DIR is set, empty or unset; a
  kind missing from MODEL_CONFIGS raises KeyError.\<close>
lemma load_model_config:
  assumes "model_from_env home e = Inr m"
  shows "load_model k home e =
           (case map_of MODEL_CONFIGS k of
              None \<Rightarrow> Inl KeyError
            | Some spec \<Rightarrow> Inr (ms_name spec, cache_dir m))"
  using get_model_cache_dir_config [OF assms] by (simp add: load_model_def split: option.splits)

text \<open>C30: the embedding loader loads the model ModelConfig names exactly when
  EMBEDDING_MODEL is unset or names the default; an EMBEDDING_MODEL override
  is read into the configuration and never used.\<close>
lemma load_embedding_model_ignores_setting:
  assumes "model_from_env home e = Inr m" and "load_embedding_model home e = Inr (n, d)"
  shows "n = embedding_model m \<longleftrightarrow>
           getenv e ''EMBEDDING_MODEL'' ''sentence-transformers/all-MiniLM-L6-v2''
             = ''sentence-transformers/all-MiniLM-L6-v2''"
  using assms
  by (auto simp: load_embedding_model_def load_model_def MODEL_CONFIGS_def model_from_env_def
                 rbind_eq_Inr)

text \<open>Preloading succeeds exactly when check_model_availability reports
  every model available: both run the same three loaders, and preloading
  stops at the first that raises.\<close>
lemma preload_all_models_iff_available:
  "preload_all_models lib home e = Inr () \<longleftrightarrow> list_all snd (check_model_availability lib home e)"
  by (simp add: preload_all_models_def check_model_availability_def library_load_def
                load_embedding_model_def load_classifier_pipeline_def load_summarizer_pipeline_def
                load_model_def MODEL_CONFIGS_def rbind_def split: sum.splits)


subsection \<open>The caches\<close>

lemma cached_load_hit: "c k = Some m \<Longrightarrow> cached_load lib k home e c = (Inr m, c)"
  by (simp add: cached_load_def lru_cache_call_def fun_upd_idem)

lemma cached_load_miss:
  "c k = None \<Longrightarrow> cached_load lib k home e c =
     (library_model lib (load_model k home e),
      c(k := case library_model lib (load_model k home e) of Inr m \<Rightarrow> Some m | Inl _ \<Rightarrow> None))"
  by (simp add: cached_load_def lru_cache_call_def split: sum.splits)

lemma cached_load_ok:
  assumes "cache_ok lib home e c" and "k \<in> set (map fst MODEL_CONFIGS)"
  shows "fst (cached_load lib k home e c) = library_model lib (load_model k home e)"
  using assms by (cases "c k") (auto simp: cache_ok_def list_all_iff cached_load_hit cached_load_miss)

lemma cache_ok_cached_load:
  "cache_ok lib home e c \<Longrightarrow> cache_ok lib home e (snd (cached_load lib k home e c))"
  by (cases "c k")
     (auto simp: cache_ok_def list_all_iff cached_load_hit cached_load_miss split: sum.splits)

lemma cache_ok_empty: "cache_ok lib home e Map.empty"
  by (simp add: cache_ok_def MODEL_CONFIGS_def)

lemma cache_ok_clear: "cache_ok lib home e (clear_model_cache c)"
  by (simp add: cache_ok_def clear_model_cache_def MODEL_CONFIGS_def)

lemma cached_load_ok_pair:
  assumes "cache_ok lib home e c" and "k \<in> set (map fst MODEL_CONFIGS)"
  obtains c' where "cached_load lib k home e c = (library_model lib (load_model k home e), c')"
    and "cache_ok lib home e c'"
  using cached_load_ok [OF assms] cache_ok_cached_load [OF assms(1), of k]
  by (metis prod.collapse)

lemma library_load_model: "library_load lib r = rbind (library_model lib r) (\<lambda>_. Inr ())"
  by (simp add: library_load_def library_model_def rbind_def split: sum.splits)

lemma cached_load_three:
  assumes "cache_ok lib home e c"
  obtains c1 c2 c3 where
    "cached_load lib ''embeddings'' home e c = (library_model lib (load_model ''embeddings'' home e), c1)"
    "cached_load lib ''classifier'' home e c1 = (library_model lib (load_model ''classifier'' home e), c2)"
    "cached_load lib ''summarizer'' home e c2 = (library_model lib (load_model ''summarizer'' home e), c3)"
    "cache_ok lib home e c1" "cache_ok lib home e c2" "cache_ok lib home e c3"
proof -
  obtain c1 where 1: "cached_load lib ''embeddings'' home e c = (library_model lib (load_model ''embeddings'' home e), c1)" "cache_ok lib home e c1"
    using cached_load_ok_pair [OF assms, of "''embeddings''"] by (auto simp: MODEL_CONFIGS_def)
  obtain c2 where 2: "cached_load lib ''classifier'' home e c1 = (library_model lib (load_model ''classifier'' home e), c2)" "cache_ok lib home e c2"
    using cached_load_ok_pair [OF 1(2), of "''classifier''"] by (auto simp: MODEL_CONFIGS_def)
  obtain c3 where 3: "cached_load lib ''summarizer'' home e c2 = (library_model lib (load_model ''summarizer'' home e), c3)" "cache_ok lib home e c3"
    using cached_load_ok_pair [OF 2(2), of "''summarizer''"] by (auto simp: MODEL_CONFIGS_def)
  show ?thesis using that 1 2 3 by blast
qed

lemma preload_all_models_cached_ok:
  assumes "cache_ok lib home e c"
  shows "fst (preload_all_models_cached lib home e c) = preload_all_models lib home e
         \<and> cache_ok lib home e (snd (preload_all_models_cached lib home e c))"
  using assms
  by (rule cached_load_three)
     (simp add: preload_all_models_cached_def preload_all_models_def library_load_model
                load_embedding_model_def load_classifier_pipeline_def load_summarizer_pipeline_def
                rbind_def split: sum.splits)

lemma check_model_availability_cached_ok:
  assumes "cache_ok lib home e c"
  shows "fst (check_model_availability_cached lib home e c) = check_model_availability lib home e
         \<and> cache_ok lib home e (snd (check_model_availability_cached lib home e c))"
  using assms
  by (rule cached_load_three)
     (simp add: check_model_availability_cached_def check_model_availability_def library_load_model
                load_embedding_model_def load_classifier_pipeline_def load_summarizer_pipeline_def
                rbind_def split: sum.splits)

lemma preload_all_models_error:
  "preload_all_models lib home e = Inl ex \<Longrightarrow> get_model_cache_dir home e = Inr d \<Longrightarrow> ex = ModelError"
  by (auto simp: preload_all_models_def library_load_def load_embedding_model_def load_classifier_pipeline_def
                 load_summarizer_pipeline_def load_model_def MODEL_CONFIGS_def rbind_def split: sum.splits if_splits)

lemma models_main_eq:
  "models_main lib home e =
     (case get_model_info home e of
        Inl ex \<Rightarrow> Inl ex
      | Inr info \<Rightarrow>
          (if list_all snd (check_model_availability lib home e)
           then Inr (info, check_model_availability lib home e) else Inl ModelError))"
proof (cases "get_model_info home e")
  case (Inl ex)
  then show ?thesis by (simp add: models_main_def)
next
  case (Inr info)
  then obtain d where d: "get_model_cache_dir home e = Inr d"
    by (auto simp: get_model_info_def rbind_eq_Inr)
  obtain av c1 where ch: "check_model_availability_cached lib home e Map.empty = (av, c1)" by fastforce
  then have av: "av = check_model_availability lib home e" and c1: "cache_ok lib home e c1"
    using check_model_availability_cached_ok [OF cache_ok_empty, of lib home e] by simp_all
  obtain r c2 where pr: "preload_all_models_cached lib home e c1 = (r, c2)" by fastforce
  have iff: "preload_all_models lib home e = Inr () \<longleftrightarrow> list_all snd av"
    unfolding av by (rule preload_all_models_iff_available)
  have "r = preload_all_models lib home e"
    using pr preload_all_models_cached_ok [OF c1] by simp
  then show ?thesis
    using Inr ch pr av iff preload_all_models_error [OF _ d, of lib]
    by (cases r) (auto simp: models_main_def split: sum.splits)
qed

text \<open>C31: the model caches outlive the configuration: once a loader has
  returned a model, every later call returns that same model, whatever the
  environment (MODEL_CACHE_DIR, the model library) has become since, until
  clear_model_cache empties the caches; the next call then loads afresh from
  the current configuration.\<close>
lemma cached_load_until_clear:
  assumes "cached_load lib k home e c = (Inr m, c1)" and "k \<in> set (map fst MODEL_CONFIGS)"
  shows "cached_load lib' k home' e' c1 = (Inr m, c1)
         \<and> fst (cached_load lib' k home' e' (clear_model_cache c1)) = library_model lib' (load_model k home' e')"
proof -
  have "c1 k = Some m"
    using assms(1) by (cases "c k") (auto simp: cached_load_hit cached_load_miss split: sum.splits)
  then show ?thesis
    using cached_load_ok [OF cache_ok_clear assms(2)] by (simp add: cached_load_hit)
qed

section \<open>Witnesses\<close>

lemma load_model_config_witness:
  "model_from_env ''/root'' [''MODEL_CACHE_DIR'' \<mapsto> []]
     = Inr \<lparr>cache_dir = [], embedding_model = ''sentence-transformers/all-MiniLM-L6-v2'',
            classifier_model = ''distilbert-base-uncased-finetuned-sst-2-english'',
            summarizer_model = ''sshleifer/distilbart-cnn-6-6'', max_summary_length = 50\<rparr>
   \<and> load_model ''summarizer'' ''/root'' [''MODEL_CACHE_DIR'' \<mapsto> []]
       = Inr (''sshleifer/distilbart-cnn-6-6'', [])
   \<and> load_model ''tokenizer'' ''/root'' [''MODEL_CACHE_DIR'' \<mapsto> []] = Inl KeyError"
proof -
  have m: "model_from_env ''/root'' [''MODEL_CACHE_DIR'' \<mapsto> []]
     = Inr \<lparr>cache_dir = [], embedding_model = ''sentence-transformers/all-MiniLM-L6-v2'',
            classifier_model = ''distilbert-base-uncased-finetuned-sst-2-english'',
            summarizer_model = ''sshleifer/distilbart-cnn-6-6'', max_summary_length = 50\<rparr>"
    by (simp add: model_from_env_def getenv_def py_int_def py_strip_def py_isspace_def is_digit_def
                  digits_val_def digit_val_def)
  show ?thesis
    using load_model_config [OF m, of "''summarizer''"] load_model_config [OF m, of "''tokenizer''"] m
    by (simp add: MODEL_CONFIGS_def)
qed

lemma load_embedding_model_ignores_setting_witness:
  "model_from_env ''/root'' [''EMBEDDING_MODEL'' \<mapsto> ''my-model'']
     = Inr \<lparr>cache_dir = ''/root/.cache/models'', embedding_model = ''my-model'',
            classifier_model = ''distilbert-base-uncased-finetuned-sst-2-english'',
            summarizer_model = ''sshleifer/distilbart-cnn-6-6'', max_summary_length = 50\<rparr>
   \<and> load_embedding_model ''/root'' [''EMBEDDING_MODEL'' \<mapsto> ''my-model'']
     = Inr (''sentence-transformers/all-MiniLM-L6-v2'', ''/root/.cache/models'')
   \<and> ''sentence-transformers/all-MiniLM-L6-v2'' \<noteq> ''my-model''"
proof -
  have m: "model_from_env ''/root'' [''EMBEDDING_MODEL'' \<mapsto> ''my-model'']
     = Inr \<lparr>cache_dir = ''/root/.cache/models'', embedding_model = ''my-model'',
            classifier_model = ''distilbert-base-uncased-finetuned-sst-2-english'',
            summarizer_model = ''sshleifer/distilbart-cnn-6-6'', max_summary_length = 50\<rparr>"
    by (simp add: model_from_env_def getenv_def py_int_def py_strip_def py_isspace_def is_digit_def
                  digits_val_def digit_val_def)
  have l: "load_embedding_model ''/root'' [''EMBEDDING_MODEL'' \<mapsto> ''my-model'']
     = Inr (''sentence-transformers/all-MiniLM-L6-v2'', ''/root/.cache/models'')"
    using m by (simp add: load_embedding_model_def load_model_def MODEL_CONFIGS_def
                          get_model_cache_dir_def)
  show ?thesis
    using load_embedding_model_ignores_setting [OF m l] m l by (simp add: getenv_def)
qed

lemma cached_load_until_clear_witness:
  "cached_load (\<lambda>_. True) ''embeddings'' ''/root'' Map.empty Map.empty
     = (Inr (''sentence-transformers/all-MiniLM-L6-v2'', ''/root/.cache/models''),
        [''embeddings'' \<mapsto> (''sentence-transformers/all-MiniLM-L6-v2'', ''/root/.cache/models'')])
   \<and> ''embeddings'' \<in> set (map fst MODEL_CONFIGS)
   \<and> cached_load (\<lambda>_. False) ''embeddings'' ''/root'' [''MODEL_CACHE_DIR'' \<mapsto> ''/models'']
       [''embeddings'' \<mapsto> (''sentence-transformers/all-MiniLM-L6-v2'', ''/root/.cache/models'')]
     = (Inr (''sentence-transformers/all-MiniLM-L6-v2'', ''/root/.cache/models''),
        [''embeddings'' \<mapsto> (''sentence-transformers/all-MiniLM-L6-v2'', ''/root/.cache/models'')])
   \<and> fst (cached_load (\<lambda>_. True) ''embeddings'' ''/root'' [''MODEL_CACHE_DIR'' \<mapsto> ''/models'']
       (clear_model_cache [''embeddings'' \<mapsto> (''sentence-transformers/all-MiniLM-L6-v2'', ''/root/.cache/models'')]))
     = Inr (''sentence-transformers/all-MiniLM-L6-v2'', ''/models'')"
proof -
  have l: "cached_load (\<lambda>_. True) ''embeddings'' ''/root'' Map.empty Map.empty
     = (Inr (''sentence-transformers/all-MiniLM-L6-v2'', ''/root/.cache/models''),
        [''embeddings'' \<mapsto> (''sentence-transformers/all-MiniLM-L6-v2'', ''/root/.cache/models'')])"
    by (simp add: cached_load_def lru_cache_call_def library_model_def load_model_def MODEL_CONFIGS_def
                  get_model_cache_dir_def model_from_env_def getenv_def py_int_def py_strip_def
                  py_isspace_def is_digit_def digits_val_def digit_val_def)
  have k: "''embeddings'' \<in> set (map fst MODEL_CONFIGS)" by (simp add: MODEL_CONFIGS_def)
  show ?thesis
    using cached_load_until_clear [OF l k, of "\<lambda>_. False" "''/root''" "[''MODEL_CACHE_DIR'' \<mapsto> ''/models'']"]
          cached_load_until_clear [OF l k, of "\<lambda>_. True" "''/root''" "[''MODEL_CACHE_DIR'' \<mapsto> ''/models'']"] l k
    by (simp add: library_model_def load_model_def MODEL_CONFIGS_def get_model_cache_dir_def)
qed

end
