(* ===== verification/Entry.thy ===== *)
theory Entry
  imports AwsClients Models
begin

text \<open>
  The worker's start-up, \<open>main()\<close> in \<open>src/src/processor/worker.py\<close>, up to
  the call of \<open>run_forever\<close>: it loads \<open>ProcessorConfig.from_env()\<close>, reads
  \<open>get_model_info()\<close>, preloads the three models (any exception there ends
  the process with \<open>sys.exit(1)\<close>), and builds the \<open>TicketProcessor\<close>,
  whose constructor creates the three AWS handles and asks SQS for the
  queue URL. The model library is the parameter \<open>lib\<close> of
  \<open>preload_all_models\<close>; SQS answers \<open>get_queue_url\<close> through the parameter
  \<open>get_queue_url\<close>, given the client's keyword arguments (so LocalStack and
  AWS may know different queues) and the queue name, and raises when the
  queue does not exist. An exception that escapes \<open>main\<close> ends the process
  with a traceback (\<open>Crash\<close>). The lemmas show that the worker enters its
  loop exactly when the configuration loads, every model the table names
  loads from the configured cache directory, and the queue exists; and that
  a model that fails to load stops the process with exit status 1 before any
  AWS call, as the specification's process-fatal start-up error demands.
\<close>

datatype main_result =
    Crash py_exc
  | SysExit int
  | RunForever processor_config client_kwargs client_kwargs client_kwargs string

text \<open>\<open>TicketProcessor.__init__(config)\<close>: the S3, SQS and DynamoDB handles,
  then \<open>sqs.get_queue_url(QueueName=config.sqs.queue_name)["QueueUrl"]\<close>.
  The statistics start at zero; \<open>dynamodb.Table(...)\<close> makes no call.\<close>

definition TicketProcessor_init ::
  "(client_kwargs \<Rightarrow> string \<Rightarrow> string option) \<Rightarrow> env \<Rightarrow> processor_config
     \<Rightarrow> (client_kwargs \<times> client_kwargs \<times> client_kwargs \<times> string) res" where
  "TicketProcessor_init get_queue_url e cfg =
     (case worker_clients e cfg of
        (s3c, sqsc, ddb) \<Rightarrow>
          (case get_queue_url sqsc (queue_name (sqs cfg)) of
             None \<Rightarrow> Inl ServiceError
           | Some u \<Rightarrow> Inr (s3c, sqsc, ddb, u)))"

definition main ::
  "(string \<times> string \<Rightarrow> bool) \<Rightarrow> (client_kwargs \<Rightarrow> string \<Rightarrow> string option) \<Rightarrow> string \<Rightarrow> env
     \<Rightarrow> main_result" where
  "main lib get_queue_url home e =
     (case processor_from_env home e of
        Inl ex \<Rightarrow> Crash ex
      | Inr cfg \<Rightarrow>
          (case get_model_info home e of
             Inl ex \<Rightarrow> Crash ex
           | Inr _ \<Rightarrow>
               (case preload_all_models lib home e of
                  Inl _ \<Rightarrow> SysExit 1
                | Inr _ \<Rightarrow>
                    (case TicketProcessor_init get_queue_url e cfg of
                       Inl ex \<Rightarrow> Crash ex
                     | Inr (s3c, sqsc, ddb, u) \<Rightarrow> RunForever cfg s3c sqsc ddb u))))"

text \<open>The pairs the model library is asked to load for a configuration.\<close>

definition model_requests :: "processor_config \<Rightarrow> (string \<times> string) list" where
  "model_requests cfg = map (\<lambda>(k, s). (ms_name s, cache_dir (model cfg))) MODEL_CONFIGS"

section \<open>Lemmas\<close>

lemma processor_from_env_model:
  "processor_from_env home e = Inr cfg \<Longrightarrow> model_from_env home e = Inr (model cfg)"
  by (auto simp: processor_from_env_def rbind_eq_Inr)

lemma main_config:
  assumes "processor_from_env home e = Inr cfg"
  shows "main lib get_queue_url home e =
           (if list_all lib (model_requests cfg) then
              (case TicketProcessor_init get_queue_url e cfg of
                 Inl ex \<Rightarrow> Crash ex
               | Inr (s3c, sqsc, ddb, u) \<Rightarrow> RunForever cfg s3c sqsc ddb u)
            else SysExit 1)"
  using assms get_model_info_config [OF processor_from_env_model [OF assms]]
        preload_all_models_config [OF processor_from_env_model [OF assms], of lib]
  by (simp add: main_def model_requests_def)

text \<open>C17: the worker enters run_forever exactly when ProcessorConfig.from_env
  succeeds, the library loads every model MODEL_CONFIGS names from the
  configured cache directory, and SQS knows the configured queue; it then runs
  with the handles worker_clients builds and the URL SQS returned.\<close>
lemma main_runs_iff:
  "main lib get_queue_url home e = RunForever cfg s3c sqsc ddb u \<longleftrightarrow>
     processor_from_env home e = Inr cfg \<and> list_all lib (model_requests cfg)
     \<and> worker_clients e cfg = (s3c, sqsc, ddb) \<and> get_queue_url sqsc (queue_name (sqs cfg)) = Some u"
proof (cases "processor_from_env home e")
  case (Inl ex)
  then show ?thesis by (simp add: main_def)
next
  case (Inr cfg')
  show ?thesis
    using Inr
    by (auto simp: main_config [OF Inr] TicketProcessor_init_def
             split: prod.splits option.splits sum.splits if_splits)
qed

text \<open>C18: start-up is fatal when a model cannot be loaded: with a valid
  configuration and a model the library fails to load, main ends with exit
  status 1 whatever SQS would answer, and never enters the loop.\<close>
lemma main_model_failure_exits:
  assumes "processor_from_env home e = Inr cfg" and "\<not> list_all lib (model_requests cfg)"
  shows "main lib get_queue_url home e = SysExit 1"
  using main_config [OF assms(1)] assms(2) by simp

section \<open>Witnesses\<close>

lemma example_config_from_env: "processor_from_env ''/root'' Map.empty = Inr example_config"
  by (simp add: processor_from_env_def sqs_from_env_def model_from_env_def aws_from_env_def
                s3_from_env_def dynamodb_from_env_def example_config_def getenv_def py_int_def
                py_strip_def py_isspace_def is_digit_def digits_val_def digit_val_def py_lower_def
                py_lower_char_def)

lemma main_runs_iff_witness:
  "main (\<lambda>_. True) (\<lambda>_ n. Some (''http://localhost/'' @ n)) ''/root'' Map.empty
     = RunForever example_config (get_s3_client Map.empty (Some False))
         (get_sqs_client Map.empty (Some False)) (get_dynamodb_resource Map.empty (Some False))
         ''http://localhost/ticket-processing-queue''"
proof -
  have "worker_clients Map.empty example_config
          = (get_s3_client Map.empty (Some False), get_sqs_client Map.empty (Some False),
             get_dynamodb_resource Map.empty (Some False))"
    by (simp add: worker_clients_def example_config_def)
  then show ?thesis
    using main_runs_iff [of "\<lambda>_. True" "\<lambda>_ n. Some (''http://localhost/'' @ n)" "''/root''" Map.empty
                          example_config] example_config_from_env
    by (simp add: model_requests_def MODEL_CONFIGS_def example_config_def)
qed

lemma main_model_failure_exits_witness:
  "processor_from_env ''/root'' Map.empty = Inr example_config
   \<and> \<not> list_all (\<lambda>(n, d). n \<noteq> ''sshleifer/distilbart-cnn-6-6'') (model_requests example_config)
   \<and> main (\<lambda>(n, d). n \<noteq> ''sshleifer/distilbart-cnn-6-6'') (\<lambda>_ n. Some n) ''/root'' Map.empty = SysExit 1"
proof -
  have l: "\<not> list_all (\<lambda>(n, d). n \<noteq> ''sshleifer/distilbart-cnn-6-6'') (model_requests example_config)"
    by (simp add: model_requests_def MODEL_CONFIGS_def)
  show ?thesis
    using main_model_failure_exits [OF example_config_from_env l] example_config_from_env l by simp
qed

end
