(* ===== verification/JsonText.thy ===== *)
theory JsonText
  imports Json
begin

text \<open>
  The JSON text the programs exchange: \<open>json.dumps(v, indent=2)\<close>, with which
  the generator uploads a ticket (\<open>src/src/generator/ticket_generator.py\<close>),
  and \<open>json.loads\<close>, with which the worker decodes an S3 object and a message
  body (\<open>src/src/processor/worker.py\<close>). Both are the standard library's;
  they are written out here as CPython 3 does them, over code points below
  256. \<open>json_dumps\<close> follows the encoder: \<open>ensure_ascii\<close> escaping, the
  separators \<open>","\<close> and \<open>": "\<close>, a newline and two spaces per level, and
  \<open>{}\<close>/\<open>[]\<close> for empty containers. The text of a float is \<open>repr\<close>, which
  is the parameter \<open>frepr\<close>: floats are exact rationals in this model and
  their shortest decimal form is not written out. \<open>json_loads\<close> follows
  the scanner: whitespace, literals, numbers (an integer literal is an
  \<open>int\<close>, one with a fraction or an exponent a float), strings with their
  escapes (a raw control character is rejected, as \<open>strict=True\<close> does),
  arrays and objects, and nothing but whitespace after the value. The
  recursive descent is a \<open>partial_function (option)\<close>. Not modelled:
  \<open>NaN\<close>, \<open>Infinity\<close> and \<open>-Infinity\<close> (no rational value; the model rejects
  them) and \<open>\u\<close> escapes above 255 (no such character here). The lemmas
  show the round trip: \<open>json.loads\<close> gives back every float-free value
  \<open>json.dumps\<close> wrote.
\<close>

section \<open>json.dumps\<close>

definition bslash :: char where
  "bslash = CHR 0x5C"

definition hex_digit :: "nat \<Rightarrow> char" where
  "hex_digit n = ''0123456789abcdef'' ! n"

text \<open>\<open>ESCAPE_DCT\<close> and \<open>'\\u{0:04x}'\<close> of \<open>json.encoder.py_encode_basestring_ascii\<close>:
  every character outside \<open>' '..'~'\<close>, and the quote and the backslash, is
  escaped.\<close>

definition json_escape_char :: "char \<Rightarrow> string" where
  "json_escape_char c =
     (let n = of_char c :: nat
      in if c = CHR 0x22 then [bslash, CHR 0x22]
         else if c = bslash then [bslash, bslash]
         else if n = 8 then [bslash, CHR ''b'']
         else if n = 12 then [bslash, CHR ''f'']
         else if n = 10 then [bslash, CHR ''n'']
         else if n = 13 then [bslash, CHR ''r'']
         else if n = 9 then [bslash, CHR ''t'']
         else if 32 \<le> n \<and> n \<le> 126 then [c]
         else [bslash, CHR ''u'', CHR ''0'', CHR ''0'', hex_digit (n div 16), hex_digit (n mod 16)])"

definition json_str :: "string \<Rightarrow> string" where
  "json_str s = CHR 0x22 # concat (map json_escape_char s) @ [CHR 0x22]"

definition py_str_int :: "int \<Rightarrow> string" where
  "py_str_int i = (if i < 0 then CHR ''-'' # py_str_nat (nat (- i)) else py_str_nat (nat i))"

text \<open>The newline and indentation before an item at depth \<open>n\<close>.\<close>

definition json_nl :: "nat \<Rightarrow> string" where
  "json_nl n = CHR 0x0A # replicate (2 * n) (CHR '' '')"

fun json_dumps_at :: "(rat \<Rightarrow> string) \<Rightarrow> nat \<Rightarrow> json \<Rightarrow> string" where
  "json_dumps_at frepr n JNull = ''null''"
| "json_dumps_at frepr n (JBool b) = (if b then ''true'' else ''false'')"
| "json_dumps_at frepr n (JInt i) = py_str_int i"
| "json_dumps_at frepr n (JFloat q) = frepr q"
| "json_dumps_at frepr n (JStr s) = json_str s"
| "json_dumps_at frepr n (JArr vs) =
     (if vs = [] then ''[]''
      else CHR ''['' # json_nl (Suc n)
             @ py_join (CHR '','' # json_nl (Suc n)) (map (json_dumps_at frepr (Suc n)) vs)
             @ json_nl n @ '']'')"
| "json_dumps_at frepr n (JObj kvs) =
     (if kvs = [] then ''{}''
      else CHR ''{'' # json_nl (Suc n)
             @ py_join (CHR '','' # json_nl (Suc n))
                 (map (\<lambda>(k, v). json_str k @ '': '' @ json_dumps_at frepr (Suc n) v) kvs)
             @ json_nl n @ ''}'')"

definition json_dumps :: "(rat \<Rightarrow> string) \<Rightarrow> json \<Rightarrow> string" where
  "json_dumps frepr v = json_dumps_at frepr 0 v"

section \<open>json.loads\<close>

definition json_ws :: "char \<Rightarrow> bool" where
  "json_ws c \<longleftrightarrow> c \<in> set [CHR '' '', CHR 0x09, CHR 0x0A, CHR 0x0D]"

definition skip_ws :: "string \<Rightarrow> string" where
  "skip_ws s = dropWhile json_ws s"

definition is_dec :: "char \<Rightarrow> bool" where
  "is_dec c \<longleftrightarrow> 48 \<le> (of_char c :: nat) \<and> (of_char c :: nat) \<le> 57"

definition dec_val :: "string \<Rightarrow> nat" where
  "dec_val ds = foldl (\<lambda>a c. 10 * a + (of_char c - 48)) 0 ds"

definition hex_val :: "char \<Rightarrow> nat option" where
  "hex_val c =
     (let n = of_char c :: nat
      in if 48 \<le> n \<and> n \<le> 57 then Some (n - 48)
         else if 97 \<le> n \<and> n \<le> 102 then Some (n - 87)
         else if 65 \<le> n \<and> n \<le> 70 then Some (n - 55)
         else None)"

text \<open>\<open>py_scanstring\<close> after the opening quote: the characters up to the
  closing quote, with their escapes decoded.\<close>

fun scan_string :: "string \<Rightarrow> string \<Rightarrow> (string \<times> string) option" where
  "scan_string acc [] = None"
| "scan_string acc (c # r) =
     (if c = CHR 0x22 then Some (rev acc, r)
      else if c = bslash then
        (case r of
           [] \<Rightarrow> None
         | e # r' \<Rightarrow>
             if e = CHR 0x22 then scan_string (CHR 0x22 # acc) r'
             else if e = bslash then scan_string (bslash # acc) r'
             else if e = CHR ''/'' then scan_string (CHR ''/'' # acc) r'
             else if e = CHR ''b'' then scan_string (char_of (8::nat) # acc) r'
             else if e = CHR ''f'' then scan_string (char_of (12::nat) # acc) r'
             else if e = CHR ''n'' then scan_string (char_of (10::nat) # acc) r'
             else if e = CHR ''r'' then scan_string (char_of (13::nat) # acc) r'
             else if e = CHR ''t'' then scan_string (char_of (9::nat) # acc) r'
             else if e = CHR ''u'' then
               (case those (map hex_val (take 4 r')) of
                  Some [a, b, c', d] \<Rightarrow>
                    (let n = ((a * 16 + b) * 16 + c') * 16 + d
                     in if n < 256 then scan_string (char_of n # acc) (drop 4 r') else None)
                | _ \<Rightarrow> None)
             else None)
      else if (of_char c :: nat) < 32 then None
      else scan_string (c # acc) r)"

text \<open>\<open>NUMBER_RE\<close>, \<open>-?(?:0|[1-9]\d*)(\.\d+)?([eE][-+]?\d+)?\<close>: an integer
  literal is an \<open>int\<close>; a fraction or an exponent makes it a float.\<close>

text \<open>The fraction \<open>(\.\d+)?\<close>: its digits, or nothing when the text does
  not match it.\<close>

definition num_frac :: "string \<Rightarrow> string" where
  "num_frac s = (if s \<noteq> [] \<and> hd s = CHR ''.'' then takeWhile is_dec (tl s) else [])"

text \<open>The exponent \<open>([eE][-+]?\d+)?\<close>: its sign and digits, or nothing.\<close>

definition num_exp :: "string \<Rightarrow> string \<times> string" where
  "num_exp s =
     (if s \<noteq> [] \<and> hd s \<in> set ''eE'' then
        (let sg = (if tl s \<noteq> [] \<and> hd (tl s) \<in> set ''+-'' then [hd (tl s)] else []);
             ds = takeWhile is_dec (drop (Suc (length sg)) s)
         in if ds = [] then ([], []) else (sg, ds))
      else ([], []))"

text \<open>The number after its optional minus sign.\<close>

definition scan_unsigned :: "bool \<Rightarrow> string \<Rightarrow> (json \<times> string) option" where
  "scan_unsigned neg s1 =
     (if s1 = [] \<or> \<not> is_dec (hd s1) then None
      else
        (let ip = (if hd s1 = CHR ''0'' then ''0'' else takeWhile is_dec s1);
             s2 = drop (length ip) s1;
             fp = num_frac s2;
             s3 = (if fp = [] then s2 else drop (Suc (length fp)) s2);
             (sg, ed) = num_exp s3;
             s4 = (if ed = [] then s3 else drop (Suc (length sg) + length ed) s3);
             sgn = (if neg then -1 else 1)
         in if fp = [] \<and> ed = [] then Some (JInt (sgn * int (dec_val ip)), s4)
            else
              (let m = of_nat (dec_val (ip @ fp)) / 10 ^ length fp :: rat;
                   e = (if sg = ''-'' then - int (dec_val ed) else int (dec_val ed))
               in Some (JFloat (of_int sgn * m * (if 0 \<le> e then 10 ^ nat e else 1 / 10 ^ nat (- e))), s4))))"

definition scan_number :: "string \<Rightarrow> (json \<times> string) option" where
  "scan_number s =
     (if s \<noteq> [] \<and> hd s = CHR ''-'' then scan_unsigned True (tl s) else scan_unsigned False s)"

text \<open>The scanner's context: a value, the rest of an array, or the rest of an
  object, each with the items read so far.\<close>

datatype jctx = JV | JA "json list" | JO "(string \<times> json) list"

partial_function (option) scan_json :: "jctx \<Rightarrow> string \<Rightarrow> (json \<times> string) option" where
  "scan_json ctx s =
     (case ctx of
        JV \<Rightarrow>
          (case skip_ws s of
             [] \<Rightarrow> None
           | c # r \<Rightarrow>
               if c = CHR ''{'' then
                 (if skip_ws r \<noteq> [] \<and> hd (skip_ws r) = CHR ''}'' then Some (JObj [], tl (skip_ws r))
                  else scan_json (JO []) r)
               else if c = CHR ''['' then
                 (if skip_ws r \<noteq> [] \<and> hd (skip_ws r) = CHR '']'' then Some (JArr [], tl (skip_ws r))
                  else scan_json (JA []) r)
               else if c = CHR 0x22 then map_option (\<lambda>(t, r'). (JStr t, r')) (scan_string [] r)
               else if take 4 (c # r) = ''null'' then Some (JNull, drop 3 r)
               else if take 4 (c # r) = ''true'' then Some (JBool True, drop 3 r)
               else if take 5 (c # r) = ''false'' then Some (JBool False, drop 4 r)
               else scan_number (c # r))
      | JA acc \<Rightarrow>
          Option.bind (scan_json JV s) (\<lambda>(v, r).
            (case skip_ws r of
               [] \<Rightarrow> None
             | c # r' \<Rightarrow>
                 if c = CHR '','' then scan_json (JA (acc @ [v])) r'
                 else if c = CHR '']'' then Some (JArr (acc @ [v]), r')
                 else None))
      | JO acc \<Rightarrow>
          (case skip_ws s of
             [] \<Rightarrow> None
           | c # r \<Rightarrow>
               if c \<noteq> CHR 0x22 then None
               else
                 Option.bind (scan_string [] r) (\<lambda>(k, r1).
                   (case skip_ws r1 of
                      [] \<Rightarrow> None
                    | c1 # r2 \<Rightarrow>
                        if c1 \<noteq> CHR '':'' then None
                        else
                          Option.bind (scan_json JV r2) (\<lambda>(v, r3).
                            (case skip_ws r3 of
                               [] \<Rightarrow> None
                             | c3 # r4 \<Rightarrow>
                                 if c3 = CHR '','' then scan_json (JO (acc @ [(k, v)])) r4
                                 else if c3 = CHR ''}'' then Some (JObj (acc @ [(k, v)]), r4)
                                 else None))))))"

declare scan_json.simps [code]

definition json_loads :: "string \<Rightarrow> json option" where
  "json_loads s =
     (case scan_json JV s of
        Some (v, r) \<Rightarrow> if skip_ws r = [] then Some v else None
      | None \<Rightarrow> None)"

text \<open>What may follow a number the scanner reads to its end: the text's end,
  a separator or whitespace.\<close>

definition delim :: "string \<Rightarrow> bool" where
  "delim r \<longleftrightarrow> r = [] \<or> hd r = CHR '','' \<or> json_ws (hd r)"

text \<open>A value without floats: what the round trip covers.\<close>

fun float_free :: "json \<Rightarrow> bool" where
  "float_free (JFloat q) = False"
| "float_free (JArr vs) = list_all float_free vs"
| "float_free (JObj kvs) = list_all (\<lambda>(k, v). float_free v) kvs"
| "float_free v = True"

section \<open>Lemmas\<close>

subsection \<open>Strings\<close>

lemma hex_val_digit: "k < 16 \<Longrightarrow> hex_val (hex_digit k) = Some k"
proof -
  have "\<forall>k < 16. hex_val (hex_digit k) = Some k"
    by (simp add: numeral_eq_Suc All_less_Suc hex_val_def hex_digit_def)
  then show "k < 16 \<Longrightarrow> ?thesis" by blast
qed

lemma scan_string_escape:
  "scan_string acc (json_escape_char c @ x) = scan_string (c # acc) x"
proof -
  let ?n = "of_char c :: nat"
  have lt: "?n < 256" by (rule nat_of_char_less_256)
  consider "c = CHR 0x22" | "c \<noteq> CHR 0x22" "c = bslash"
    | "c \<noteq> CHR 0x22" "c \<noteq> bslash" "?n \<in> {8, 12, 10, 13, 9}"
    | "c \<noteq> CHR 0x22" "c \<noteq> bslash" "?n \<notin> {8, 12, 10, 13, 9}" "32 \<le> ?n \<and> ?n \<le> 126"
    | "c \<noteq> CHR 0x22" "c \<noteq> bslash" "?n \<notin> {8, 12, 10, 13, 9}" "\<not> (32 \<le> ?n \<and> ?n \<le> 126)"
    by blast
  then show ?thesis
  proof cases
    case 1 then show ?thesis by (simp add: json_escape_char_def bslash_def)
  next
    case 2 then show ?thesis by (simp add: json_escape_char_def bslash_def)
  next
    case 3
    then show ?thesis
      by (auto simp: json_escape_char_def bslash_def) (metis char_of_char)+
  next
    case 4
    then have "c \<noteq> bslash" "c \<noteq> CHR 0x22" "\<not> ?n < 32" by auto
    with 4 show ?thesis by (simp add: json_escape_char_def)
  next
    case 5
    have e: "json_escape_char c = [bslash, CHR ''u'', CHR ''0'', CHR ''0'', hex_digit (?n div 16), hex_digit (?n mod 16)]"
      using 5 by (simp add: json_escape_char_def Let_def)
    have h0: "hex_val (CHR ''0'') = Some 0" by (simp add: hex_val_def)
    have h: "hex_val (hex_digit (?n div 16)) = Some (?n div 16)" "hex_val (hex_digit (?n mod 16)) = Some (?n mod 16)"
      using lt by (simp_all add: hex_val_digit less_mult_imp_div_less)
    have b: "bslash \<noteq> CHR 0x22" "CHR ''u'' \<noteq> bslash" by (simp_all add: bslash_def)
    have v: "((0 * 16 + 0) * 16 + ?n div 16) * 16 + ?n mod 16 = ?n" by simp
    show ?thesis
      using lt v by (simp add: e h0 h b del: nat_of_char_less_256)
  qed
qed

lemma scan_string_json_str:
  "scan_string acc (concat (map json_escape_char s) @ CHR 0x22 # rest) = Some (rev acc @ s, rest)"
  by (induction s arbitrary: acc) (simp_all add: scan_string_escape)


subsection \<open>Numbers\<close>

lemma py_str_nat_ne: "py_str_nat n \<noteq> []"
  by (subst py_str_nat.simps) simp

lemma py_str_nat_dec: "list_all is_dec (py_str_nat n)"
  using py_str_nat_digits [of n] by (fastforce simp: list_all_iff is_dec_def)

lemma dec_val_snoc: "dec_val (xs @ [c]) = 10 * dec_val xs + (of_char c - 48)"
  by (simp add: dec_val_def)

lemma dec_val_py_str_nat: "dec_val (py_str_nat n) = n"
proof (induction n rule: py_str_nat.induct)
  case (1 n)
  show ?case
  proof (cases "n < 10")
    case True
    then show ?thesis by (subst py_str_nat.simps) (simp add: dec_val_def)
  next
    case False
    then have "dec_val (py_str_nat n) = 10 * (n div 10) + n mod 10"
      using "1.IH" by (subst py_str_nat.simps) (simp add: dec_val_snoc)
    then show ?thesis by simp
  qed
qed

lemma char_of_48: "char_of (48::nat) = CHR ''0''"
proof -
  have "of_char (CHR ''0'') = (48::nat)" by simp
  then show ?thesis by (metis char_of_char)
qed

lemma py_str_nat_hd_0: "hd (py_str_nat n) = CHR ''0'' \<longleftrightarrow> n = 0"
proof (induction n rule: py_str_nat.induct)
  case (1 n)
  show ?case
  proof (cases "n < 10")
    case True
    have "char_of (48 + n) = CHR ''0'' \<longleftrightarrow> n = 0"
    proof
      assume "char_of (48 + n) = CHR ''0''"
      then have "of_char (char_of (48 + n) :: char) = (48 :: nat)" by simp
      then show "n = 0" using True by simp
    next
      assume "n = 0"
      then show "char_of (48 + n) = CHR ''0''"
        using char_of_48 by simp
    qed
    with True show ?thesis by (subst py_str_nat.simps) simp
  next
    case False
    then show ?thesis using "1.IH" py_str_nat_ne [of "n div 10"] by (subst py_str_nat.simps) simp
  qed
qed

lemma takeWhile_dec_append:
  "list_all is_dec ds \<Longrightarrow> delim rest \<Longrightarrow> takeWhile is_dec (ds @ rest) = ds"
  by (cases rest) (auto simp: list_all_iff takeWhile_append2 delim_def json_ws_def is_dec_def)

lemma scan_unsigned_digits:
  assumes ds: "list_all is_dec ds" "ds \<noteq> []" "hd ds = CHR ''0'' \<longrightarrow> ds = ''0''" and r: "delim rest"
  shows "scan_unsigned neg (ds @ rest) = Some (JInt ((if neg then -1 else 1) * int (dec_val ds)), rest)"
proof -
  have "(48::nat) \<le> of_char (hd ds) \<and> of_char (hd ds) \<le> (57::nat)"
    using ds(1,2) by (simp add: list_all_iff is_dec_def)
  then have hd: "is_dec (hd ds)" by (simp add: is_dec_def)
  have rr: "num_frac rest = []" "num_exp rest = ([], [])"
    using r by (auto simp: delim_def json_ws_def num_frac_def num_exp_def)
  show ?thesis
  proof (cases "hd ds = CHR ''0''")
    case True
    then have "ds = ''0''" using ds(3) by simp
    then show ?thesis by (simp add: scan_unsigned_def is_dec_def rr)
  next
    case False
    then show ?thesis
      using ds(2) hd takeWhile_dec_append [OF ds(1) r] by (simp add: scan_unsigned_def rr)
  qed
qed

lemma scan_number_digits:
  assumes "list_all is_dec ds" "ds \<noteq> []" "hd ds = CHR ''0'' \<longrightarrow> ds = ''0''" and "delim rest"
  shows "scan_number (ds @ rest) = Some (JInt (int (dec_val ds)), rest)"
    and "scan_number (CHR ''-'' # ds @ rest) = Some (JInt (- int (dec_val ds)), rest)"
proof -
  have "(48::nat) \<le> of_char (hd ds)"
    using assms(1,2) by (simp add: list_all_iff is_dec_def)
  then have "hd ds \<noteq> CHR ''-''" by auto
  then show "scan_number (ds @ rest) = Some (JInt (int (dec_val ds)), rest)"
    using scan_unsigned_digits [OF assms, of False] assms(2) by (simp add: scan_number_def)
  show "scan_number (CHR ''-'' # ds @ rest) = Some (JInt (- int (dec_val ds)), rest)"
    using scan_unsigned_digits [OF assms, of True] by (simp add: scan_number_def)
qed

lemma py_str_nat_no_lead: "hd (py_str_nat n) = CHR ''0'' \<longrightarrow> py_str_nat n = ''0''"
  using py_str_nat_hd_0 [of n] by (auto simp: py_str_nat.simps [of 0] char_of_48)

lemma scan_number_py_str_int:
  assumes r: "delim rest"
  shows "scan_number (py_str_int i @ rest) = Some (JInt i, rest)"
proof (cases "i < 0")
  case True
  then show ?thesis
    using scan_number_digits(2) [OF py_str_nat_dec py_str_nat_ne py_str_nat_no_lead r, of "nat (- i)"]
    by (simp add: py_str_int_def dec_val_py_str_nat)
next
  case False
  then show ?thesis
    using scan_number_digits(1) [OF py_str_nat_dec py_str_nat_ne py_str_nat_no_lead r, of "nat i"]
    by (simp add: py_str_int_def dec_val_py_str_nat)
qed

subsection \<open>Whitespace and the first character of a value\<close>

lemma skip_ws_nl: "skip_ws (json_nl n @ s) = skip_ws s"
proof -
  have "dropWhile json_ws (replicate k (CHR '' '') @ s) = dropWhile json_ws s" for k
    by (induction k) (simp_all add: json_ws_def)
  then show ?thesis by (simp add: skip_ws_def json_nl_def json_ws_def)
qed

lemma skip_ws_Cons: "\<not> json_ws c \<Longrightarrow> skip_ws (c # s) = c # s"
  by (simp add: skip_ws_def)

lemma scan_json_JV_skip: "skip_ws s = skip_ws t \<Longrightarrow> scan_json JV s = scan_json JV t"
  by (subst (1 2) scan_json.simps) simp

lemma scan_json_JV_nl: "scan_json JV (json_nl n @ s) = scan_json JV s"
  by (rule scan_json_JV_skip) (simp add: skip_ws_nl)

lemma scan_json_JV_space: "scan_json JV (CHR '' '' # s) = scan_json JV s"
  by (rule scan_json_JV_skip) (simp add: skip_ws_def json_ws_def)

lemma delim_nl: "delim (json_nl n @ s)"
  by (simp add: delim_def json_nl_def json_ws_def)

lemma delim_comma: "delim (CHR '','' # s)"
  by (simp add: delim_def)

lemma py_str_int_start: "\<exists>c r. py_str_int i = c # r \<and> (c = CHR ''-'' \<or> is_dec c)"
proof -
  obtain c r where "py_str_nat (nat \<bar>i\<bar>) = c # r"
    using py_str_nat_ne by (meson neq_Nil_conv)
  moreover have "is_dec c"
    using py_str_nat_dec [of "nat \<bar>i\<bar>"] calculation by simp
  ultimately show ?thesis by (auto simp: py_str_int_def)
qed

lemma dumps_start:
  assumes "float_free v"
  obtains c r where "json_dumps_at f n v = c # r" "\<not> json_ws c" "c \<noteq> CHR '']''" "c \<noteq> CHR ''}''"
proof -
  have "\<exists>c r. json_dumps_at f n v = c # r \<and> \<not> json_ws c \<and> c \<noteq> CHR '']'' \<and> c \<noteq> CHR ''}''"
  proof (cases v)
    case (JInt i)
    obtain c r where cr: "py_str_int i = c # r" "c = CHR ''-'' \<or> is_dec c"
      using py_str_int_start by blast
    then have "\<not> json_ws c \<and> c \<noteq> CHR '']'' \<and> c \<noteq> CHR ''}''"
      by (auto simp: json_ws_def is_dec_def)
    then show ?thesis using JInt cr by simp
  qed (use assms in \<open>auto simp: json_str_def json_ws_def\<close>)
  then show ?thesis using that by blast
qed

subsection \<open>Arrays and objects\<close>

lemma scan_json_JA:
  "scan_json (JA acc) s =
     Option.bind (scan_json JV s) (\<lambda>(v, r).
       (case skip_ws r of
          [] \<Rightarrow> None
        | c # r' \<Rightarrow> if c = CHR '','' then scan_json (JA (acc @ [v])) r'
                    else if c = CHR '']'' then Some (JArr (acc @ [v]), r') else None))"
  by (subst scan_json.simps) simp

lemma scan_json_JO:
  "scan_json (JO acc) s =
     (case skip_ws s of
        [] \<Rightarrow> None
      | c # r \<Rightarrow>
          if c \<noteq> CHR 0x22 then None
          else
            Option.bind (scan_string [] r) (\<lambda>(k, r1).
              (case skip_ws r1 of
                 [] \<Rightarrow> None
               | c1 # r2 \<Rightarrow>
                   if c1 \<noteq> CHR '':'' then None
                   else
                     Option.bind (scan_json JV r2) (\<lambda>(v, r3).
                       (case skip_ws r3 of
                          [] \<Rightarrow> None
                        | c3 # r4 \<Rightarrow>
                            if c3 = CHR '','' then scan_json (JO (acc @ [(k, v)])) r4
                            else if c3 = CHR ''}'' then Some (JObj (acc @ [(k, v)]), r4)
                            else None)))))"
  by (subst scan_json.simps) simp

lemma skip_ws_close: "skip_ws (json_nl n @ c # rest) = c # rest" if "\<not> json_ws c"
  using that by (simp add: skip_ws_nl skip_ws_Cons)

lemma scan_items_arr:
  assumes "vs \<noteq> []"
    and "\<forall>v \<in> set vs. \<forall>rest. delim rest \<longrightarrow> scan_json JV (json_dumps_at f m v @ rest) = Some (v, rest)"
  shows "scan_json (JA acc) (json_nl m @ py_join (CHR '','' # json_nl m) (map (json_dumps_at f m) vs)
            @ json_nl n @ CHR '']'' # rest) = Some (JArr (acc @ vs), rest)"
  using assms
proof (induction vs arbitrary: acc rule: induct_list012)
  case (2 v)
  have "scan_json JV (json_nl m @ json_dumps_at f m v @ json_nl n @ CHR '']'' # rest)
        = Some (v, json_nl n @ CHR '']'' # rest)"
    using "2.prems"(2) delim_nl by (simp add: scan_json_JV_nl)
  then show ?case
    by (simp add: scan_json_JA skip_ws_close json_ws_def)
next
  case (3 v v' vs)
  have "scan_json JV (json_nl m @ json_dumps_at f m v @ CHR '','' # json_nl m
          @ py_join (CHR '','' # json_nl m) (map (json_dumps_at f m) (v' # vs)) @ json_nl n @ CHR '']'' # rest)
        = Some (v, CHR '','' # json_nl m
          @ py_join (CHR '','' # json_nl m) (map (json_dumps_at f m) (v' # vs)) @ json_nl n @ CHR '']'' # rest)"
    using "3.prems"(2) delim_comma by (simp add: scan_json_JV_nl)
  then show ?case
    using "3.IH"(2) [of "acc @ [v]"] "3.prems"(2)
    by (simp add: scan_json_JA skip_ws_Cons json_ws_def)
qed simp

lemma scan_items_obj:
  assumes "kvs \<noteq> []"
    and "\<forall>(k, v) \<in> set kvs. \<forall>rest. delim rest \<longrightarrow> scan_json JV (json_dumps_at f m v @ rest) = Some (v, rest)"
  shows "scan_json (JO acc) (json_nl m @ py_join (CHR '','' # json_nl m)
            (map (\<lambda>(k, v). json_str k @ '': '' @ json_dumps_at f m v) kvs)
            @ json_nl n @ CHR ''}'' # rest) = Some (JObj (acc @ kvs), rest)"
  using assms
proof (induction kvs arbitrary: acc rule: induct_list012)
  case (2 kv)
  obtain k v where kv: "kv = (k, v)" by fastforce
  have "scan_json JV (CHR '' '' # json_dumps_at f m v @ json_nl n @ CHR ''}'' # rest)
        = Some (v, json_nl n @ CHR ''}'' # rest)"
    using "2.prems"(2) kv delim_nl by (simp add: scan_json_JV_space)
  then show ?case
    using kv
    by (simp add: scan_json_JO skip_ws_nl skip_ws_Cons skip_ws_close json_ws_def json_str_def
                  scan_string_json_str)
next
  case (3 kv kv' kvs)
  obtain k v where kv: "kv = (k, v)" by fastforce
  let ?more = "json_nl m @ py_join (CHR '','' # json_nl m)
                 (map (\<lambda>(k, v). json_str k @ '': '' @ json_dumps_at f m v) (kv' # kvs))
                 @ json_nl n @ CHR ''}'' # rest"
  have "scan_json JV (CHR '' '' # json_dumps_at f m v @ CHR '','' # ?more) = Some (v, CHR '','' # ?more)"
    using "3.prems"(2) kv delim_comma by (simp add: scan_json_JV_space)
  then show ?case
    using kv "3.IH"(2) [of "acc @ [(k, v)]"] "3.prems"(2)
    by (simp add: scan_json_JO skip_ws_nl skip_ws_Cons json_ws_def json_str_def scan_string_json_str)
qed simp

lemma skip_ws_join:
  "w = c # r \<Longrightarrow> \<not> json_ws c \<Longrightarrow> skip_ws (py_join sep (w # ws) @ t) = py_join sep (w # ws) @ t"
  by (cases ws) (simp_all add: skip_ws_Cons)

subsection \<open>Every float-free value\<close>

lemma py_join_hd: "w \<noteq> [] \<Longrightarrow> hd (py_join sep (w # ws) @ t) = hd w"
  by (cases ws) simp_all

lemma scan_json_open_arr:
  "skip_ws r \<noteq> [] \<and> hd (skip_ws r) \<noteq> CHR '']'' \<Longrightarrow> scan_json JV (CHR ''['' # r) = scan_json (JA []) r"
  by (subst scan_json.simps) (simp add: skip_ws_Cons json_ws_def)

lemma scan_json_open_obj:
  "skip_ws r \<noteq> [] \<and> hd (skip_ws r) \<noteq> CHR ''}'' \<Longrightarrow> scan_json JV (CHR ''{'' # r) = scan_json (JO []) r"
  by (subst scan_json.simps) (simp add: skip_ws_Cons json_ws_def)

lemma scan_dumps_arr:
  assumes ne: "vs \<noteq> []" and ff: "list_all float_free vs"
    and items: "\<forall>v \<in> set vs. \<forall>rest. delim rest \<longrightarrow>
                  scan_json JV (json_dumps_at f (Suc n) v @ rest) = Some (v, rest)"
  shows "scan_json JV (json_dumps_at f n (JArr vs) @ rest) = Some (JArr vs, rest)"
proof -
  obtain v0 vs' where vs: "vs = v0 # vs'" using ne by (cases vs) auto
  obtain c r where cr: "json_dumps_at f (Suc n) v0 = c # r" "\<not> json_ws c" "c \<noteq> CHR '']''"
    using ff vs by (auto elim: dumps_start [where v = v0 and f = f and n = "Suc n"])
  let ?body = "json_nl (Suc n) @ py_join (CHR '','' # json_nl (Suc n)) (map (json_dumps_at f (Suc n)) vs)
                 @ json_nl n @ CHR '']'' # rest"
  have "skip_ws ?body = py_join (CHR '','' # json_nl (Suc n)) (map (json_dumps_at f (Suc n)) vs)
                 @ json_nl n @ CHR '']'' # rest"
    using skip_ws_join [OF cr(1,2)] by (simp add: skip_ws_nl vs)
  then have "skip_ws ?body \<noteq> [] \<and> hd (skip_ws ?body) \<noteq> CHR '']''"
    using cr by (simp add: vs py_join_hd)
  then show ?thesis
    using scan_items_arr [OF ne items, of "[]" n rest] ne
    by (simp add: scan_json_open_arr)
qed

lemma scan_dumps_obj:
  assumes ne: "kvs \<noteq> []"
    and items: "\<forall>(k, v) \<in> set kvs. \<forall>rest. delim rest \<longrightarrow>
                  scan_json JV (json_dumps_at f (Suc n) v @ rest) = Some (v, rest)"
  shows "scan_json JV (json_dumps_at f n (JObj kvs) @ rest) = Some (JObj kvs, rest)"
proof -
  obtain k0 v0 kvs' where kvs: "kvs = (k0, v0) # kvs'" using ne by (cases kvs) auto
  let ?g = "\<lambda>(k, v). json_str k @ '': '' @ json_dumps_at f (Suc n) v"
  let ?body = "json_nl (Suc n) @ py_join (CHR '','' # json_nl (Suc n)) (map ?g kvs)
                 @ json_nl n @ CHR ''}'' # rest"
  have g0: "?g (k0, v0) = CHR 0x22 # (concat (map json_escape_char k0) @ CHR 0x22 # '': '' @ json_dumps_at f (Suc n) v0)"
    by (simp add: json_str_def)
  have "skip_ws ?body = py_join (CHR '','' # json_nl (Suc n)) (map ?g kvs) @ json_nl n @ CHR ''}'' # rest"
    using skip_ws_join [OF g0] by (simp add: skip_ws_nl kvs json_ws_def)
  then have "skip_ws ?body \<noteq> [] \<and> hd (skip_ws ?body) \<noteq> CHR ''}''"
    using g0 by (simp add: kvs py_join_hd del: py_join.simps)
  then show ?thesis
    using scan_items_obj [OF ne items, of "[]" n rest] ne
    by (simp add: scan_json_open_obj)
qed

lemma scan_dumps_int: "delim rest \<Longrightarrow> scan_json JV (py_str_int i @ rest) = Some (JInt i, rest)"
proof -
  assume r: "delim rest"
  obtain c t where ct: "py_str_int i = c # t" "c = CHR ''-'' \<or> is_dec c"
    using py_str_int_start by blast
  have "\<not> json_ws c" "c \<noteq> CHR ''{''" "c \<noteq> CHR ''[''" "c \<noteq> CHR 0x22"
    "take 4 (c # t @ rest) \<noteq> ''null''" "take 4 (c # t @ rest) \<noteq> ''true''" "take 5 (c # t @ rest) \<noteq> ''false''"
    using ct(2) by (auto simp: json_ws_def is_dec_def)
  then show ?thesis
    using scan_number_py_str_int [OF r, of i] ct(1)
    by (subst scan_json.simps) (simp add: skip_ws_Cons)
qed

lemma scan_json_dumps:
  "float_free v \<Longrightarrow> delim rest \<Longrightarrow> scan_json JV (json_dumps_at f n v @ rest) = Some (v, rest)"
proof (induction f n v arbitrary: rest rule: json_dumps_at.induct)
  case (3 f n i)
  then show ?case by (simp add: scan_dumps_int)
next
  case (4 f n q)
  then show ?case by simp
next
  case (5 f n s)
  then show ?case
    by (subst scan_json.simps) (simp add: skip_ws_Cons json_ws_def json_str_def scan_string_json_str)
next
  case (6 f n vs)
  show ?case
  proof (cases "vs = []")
    case False
    then show ?thesis using 6 by (intro scan_dumps_arr) (auto simp: list_all_iff)
  qed (subst scan_json.simps, simp add: skip_ws_Cons json_ws_def)
next
  case (7 f n kvs)
  show ?case
  proof (cases "kvs = []")
    case False
    then show ?thesis using 7 by (intro scan_dumps_obj) (fastforce simp: list_all_iff)+
  qed (subst scan_json.simps, simp add: skip_ws_Cons json_ws_def)
qed (subst scan_json.simps, simp add: skip_ws_Cons json_ws_def)+

text \<open>json.loads reads back what json.dumps(v, indent=2) writes: for every
  value without floats, decoding the encoder's text gives the value itself,
  with its strings, integers, key order and repeated keys intact.\<close>
lemma json_loads_dumps: "float_free v \<Longrightarrow> json_loads (json_dumps frepr v) = Some v"
  using scan_json_dumps [of v "[]" frepr 0] by (simp add: json_loads_def json_dumps_def delim_def skip_ws_def)

section \<open>Witnesses\<close>

lemma json_loads_dumps_witness:
  "float_free (JObj [(''id'', JStr [CHR 0x22, CHR 0x0A, CHR 0xE9]), (''n'', JInt (-12)), (''t'', JArr [JNull, JBool True, JObj []])])
   \<and> json_loads (json_dumps (\<lambda>_. ''0.0'') (JObj [(''id'', JStr [CHR 0x22, CHR 0x0A, CHR 0xE9]), (''n'', JInt (-12)), (''t'', JArr [JNull, JBool True, JObj []])]))
       = Some (JObj [(''id'', JStr [CHR 0x22, CHR 0x0A, CHR 0xE9]), (''n'', JInt (-12)), (''t'', JArr [JNull, JBool True, JObj []])])"
  using json_loads_dumps [of "JObj [(''id'', JStr [CHR 0x22, CHR 0x0A, CHR 0xE9]), (''n'', JInt (-12)), (''t'', JArr [JNull, JBool True, JObj []])]" "\<lambda>_. ''0.0''"]
  by simp

end
