(* ===== verification/Generator.thy ===== *)
theory Generator
  imports Worker JsonText
begin

text \<open>
  The demo generator, \<open>src/src/generator/ticket_generator.py\<close>: the
  template table \<open>TICKET_TEMPLATES\<close> and the value table \<open>VARIABLES\<close>,
  \<open>generate_ticket\<close> (choose a category and a template, fill every
  placeholder \<open>{name}\<close> with \<open>str.replace\<close>, maybe append an urgency hint,
  draw the ids, priority and source), \<open>upload_ticket_to_s3\<close> (one
  \<open>put_object\<close> under \<open>ticket_id + ".json"\<close>) and the loop of \<open>main\<close>.
  Every draw of \<open>random\<close> is a field of the record \<open>gen_rand\<close>:
  \<open>random.choice(xs)\<close> takes the element at the drawn number modulo the length
  (every element can be drawn), \<open>random.randint(a, b)\<close> is \<open>a\<close> plus the
  drawn number modulo \<open>b - a + 1\<close>, and \<open>random.random()\<close> is a rational.
  The upload writes into the raw-object store of the worker's state
  \<open>wstate\<close>, which holds what the worker's \<open>json.loads\<close> makes of an object:
  the text \<open>json.dumps(ticket, indent=2)\<close> of \<open>JsonText\<close>, read back by
  \<open>json_loads\<close>; \<open>frepr\<close> is the text of a float, which no ticket has. The loop of \<open>main\<close> runs over a list of draws (its
  end is the Ctrl+C) and stops at the first exception. The lemmas show that
  every ticket the generator builds validates as a \<open>RawTicket\<close> whose subject
  and body have every placeholder filled, and that two draws of the same
  ticket number upload to the same key, the later ticket replacing the
  earlier one.
\<close>

record ticket_template =
  tt_subject :: string
  tt_body :: string
  urgency_hints :: "string list"
  tt_sentiment :: string

definition TICKET_TEMPLATES :: "(string \<times> ticket_template list) list" where
  "TICKET_TEMPLATES = [
     (''login_issue'', [
        \<lparr>tt_subject = ''Cannot login to my account'',
         tt_body = ''I've been trying to login for the past {time_period} but keep getting '{error_msg}'. This is urgent as I need to {task}. My username is {username}.'',
         urgency_hints = [''urgent'', ''critical'', ''immediately'', ''asap''], tt_sentiment = ''negative''\<rparr>,
        \<lparr>tt_subject = ''Password reset not working'',
         tt_body = ''The password reset link I received doesn't work. When I click it, I get a '{error_msg}'. I've tried {attempts} times. Can you help?'',
         urgency_hints = [''need help'', ''please help''], tt_sentiment = ''negative''\<rparr>,
        \<lparr>tt_subject = ''Account locked after failed attempts'',
         tt_body = ''My account got locked after I mistyped my password a few times. I need urgent access to {task}. Account email: {email}'',
         urgency_hints = [''urgent'', ''locked'', ''critical''], tt_sentiment = ''negative''\<rparr>
       ]),
     (''payment_issue'', [
        \<lparr>tt_subject = ''Charged twice for the same order'',
         tt_body = ''I was charged ${amount} twice on {date} for order #{order_id}. I only ordered once but see two charges on my card. Transaction IDs: {txn_ids}. Please refund the duplicate charge urgently.'',
         urgency_hints = [''urgently'', ''refund'', ''duplicate''], tt_sentiment = ''negative''\<rparr>,
        \<lparr>tt_subject = ''Subscription renewal failed'',
         tt_body = ''My subscription renewal failed with error '{error_msg}'. My card is valid and has sufficient funds. Account: {username}. Please help resolve this.'',
         urgency_hints = [''failed'', ''help''], tt_sentiment = ''negative''\<rparr>,
        \<lparr>tt_subject = ''Refund request for cancelled order'',
         tt_body = ''I cancelled order #{order_id} on {date} but haven't received my refund yet. The amount is ${amount}. When can I expect the refund?'',
         urgency_hints = [''when'', ''expect''], tt_sentiment = ''neutral''\<rparr>
       ]),
     (''bug_report'', [
        \<lparr>tt_subject = ''Application crashes when {action}'',
         tt_body = ''The application crashes every time I try to {action}. I'm on {platform} version {version}. Error message: '{error_msg}'. This is preventing me from {task}.'',
         urgency_hints = [''crashes'', ''preventing'', ''every time''], tt_sentiment = ''negative''\<rparr>,
        \<lparr>tt_subject = ''Data not syncing across devices'',
         tt_body = ''My {data_type} isn't syncing between my {device1} and {device2}. I made changes on {device1} hours ago but they're not showing on {device2}. Using version {version}.'',
         urgency_hints = [''not syncing'', ''not showing''], tt_sentiment = ''negative''\<rparr>,
        \<lparr>tt_subject = ''Export feature producing corrupted files'',
         tt_body = ''When I export my {data_type} to {format}, the file is corrupted and won't open. Tried {attempts} times with the same result. File size shows {file_size} which seems wrong.'',
         urgency_hints = [''corrupted'', ''won't open''], tt_sentiment = ''negative''\<rparr>
       ]),
     (''feature_request'', [
        \<lparr>tt_subject = ''Add {feature_name} feature'',
         tt_body = ''It would be great if you could add {feature_name} to the platform. This would help with {benefit} and make the workflow much more efficient. Many users in {community} have requested this.'',
         urgency_hints = [''would be great'', ''helpful''], tt_sentiment = ''positive''\<rparr>,
        \<lparr>tt_subject = ''Suggestion: {feature_name}'',
         tt_body = ''I've been using your platform for {time_period} and love it! One feature that would make it even better is {feature_name}. This would be useful for {use_case}.'',
         urgency_hints = [''love it'', ''even better''], tt_sentiment = ''positive''\<rparr>,
        \<lparr>tt_subject = ''Feature enhancement for {module}'',
         tt_body = ''The {module} module works well, but it could be improved by adding {feature_name}. This would enable {benefit} and save users a lot of time.'',
         urgency_hints = [''works well'', ''improved''], tt_sentiment = ''positive''\<rparr>
       ]),
     (''account_issue'', [
        \<lparr>tt_subject = ''Cannot update profile information'',
         tt_body = ''I'm trying to update my {field} in my profile settings but keep getting error '{error_msg}'. I've tried on both {device1} and {device2} with no success.'',
         urgency_hints = [''cannot'', ''no success''], tt_sentiment = ''negative''\<rparr>,
        \<lparr>tt_subject = ''Account deletion request'',
         tt_body = ''I would like to delete my account and all associated data. My account email is {email}. Please confirm when this is completed and provide documentation.'',
         urgency_hints = [''delete'', ''confirm''], tt_sentiment = ''neutral''\<rparr>
       ]),
     (''billing_issue'', [
        \<lparr>tt_subject = ''Invoice incorrect for {month}'',
         tt_body = ''My {month} invoice shows ${amount} but I expected ${expected_amount} based on my plan. Invoice #: {invoice_id}. Can you review this?'',
         urgency_hints = [''incorrect'', ''review''], tt_sentiment = ''negative''\<rparr>,
        \<lparr>tt_subject = ''Need receipt for expense report'',
         tt_body = ''I need an official receipt for my {month} payment of ${amount} for my expense report. Transaction ID: {txn_id}. Can you email this to {email}?'',
         urgency_hints = [''need'', ''can you''], tt_sentiment = ''neutral''\<rparr>
       ])]"

text \<open>\<open>VARIABLES\<close>; the long lists are the f-string comprehensions of the
  source, over \<open>range(a, b)\<close>.\<close>

definition VARIABLES :: "(string \<times> string list) list" where
  "VARIABLES = [
     (''time_period'', [''hours'', ''2 hours'', ''3 hours'', ''half a day'', ''the whole day'']),
     (''error_msg'', [''Invalid credentials'', ''Session expired'', ''Server error 500'', ''Access denied'', ''Too many attempts'']),
     (''task'', [''complete my work'', ''access important files'', ''finish a project'', ''meet a deadline'', ''submit my report'']),
     (''username'', map (\<lambda>i. ''user'' @ py_str_nat i) [1000..<9999]),
     (''email'', map (\<lambda>i. ''user'' @ py_str_nat i @ ''@example.com'') [1000..<9999]),
     (''amount'', [''29.99'', ''49.99'', ''99.99'', ''149.99'', ''19.99'']),
     (''date'', [''yesterday'', ''last week'', ''two days ago'', ''Monday'', ''last Friday'']),
     (''order_id'', map (\<lambda>i. ''ORD-'' @ py_str_nat i) [10000..<99999]),
     (''txn_ids'', [''TXN-12345, TXN-12346'', ''TXN-98765, TXN-98766'']),
     (''action'', [''uploading a file'', ''saving changes'', ''opening a document'', ''generating a report'', ''exporting data'']),
     (''platform'', [''Windows 11'', ''macOS Sonoma'', ''Ubuntu 22.04'', ''iOS 17'', ''Android 14'']),
     (''version'', [''2.5.1'', ''2.6.0'', ''3.0.1'', ''2.4.5'', ''3.1.0'']),
     (''data_type'', [''documents'', ''settings'', ''contacts'', ''files'', ''preferences'']),
     (''device1'', [''laptop'', ''desktop'', ''phone'', ''tablet'']),
     (''device2'', [''phone'', ''tablet'', ''laptop'', ''desktop'']),
     (''format'', [''PDF'', ''CSV'', ''JSON'', ''Excel'']),
     (''file_size'', [''0 KB'', ''1 KB'', ''corrupted'']),
     (''feature_name'', [''dark mode'', ''bulk export'', ''keyboard shortcuts'', ''two-factor authentication'', ''advanced search'']),
     (''benefit'', [''easier navigation'', ''better security'', ''improved productivity'', ''faster workflows'']),
     (''community'', [''the forum'', ''Reddit'', ''social media'', ''user groups'']),
     (''use_case'', [''team collaboration'', ''data analysis'', ''reporting'', ''automation'']),
     (''module'', [''dashboard'', ''reporting'', ''analytics'', ''settings'']),
     (''field'', [''email address'', ''phone number'', ''billing address'', ''company name'']),
     (''month'', [''January'', ''February'', ''March'', ''April'', ''May'']),
     (''expected_amount'', [''19.99'', ''29.99'', ''39.99'']),
     (''invoice_id'', map (\<lambda>i. ''INV-'' @ py_str_nat i) [1000..<9999]),
     (''txn_id'', map (\<lambda>i. ''TXN-'' @ py_str_nat i) [10000..<99999]),
     (''attempts'', [''3'', ''5'', ''several'', ''multiple''])]"

record gen_rand =
  r_category :: nat
  r_template :: nat
  r_value :: "string \<Rightarrow> nat"
  r_random :: rat
  r_hint :: nat
  r_ticket_id :: nat
  r_customer_id :: nat
  r_priority :: nat
  r_source :: nat
  r_now :: int

definition py_choice :: "'a list \<Rightarrow> nat \<Rightarrow> 'a" where
  "py_choice xs n = xs ! (n mod length xs)"

definition py_randint :: "nat \<Rightarrow> nat \<Rightarrow> nat \<Rightarrow> nat" where
  "py_randint a b n = a + n mod (b - a + 1)"

text \<open>The loop over \<open>VARIABLES.items()\<close>: a placeholder present in the subject
  or the body gets one drawn value, replaced in both.\<close>

fun fill_vars :: "gen_rand \<Rightarrow> (string \<times> string list) list \<Rightarrow> string \<times> string \<Rightarrow> string \<times> string" where
  "fill_vars r [] sb = sb"
| "fill_vars r ((name, vals) # vs) (subj, bdy) =
     (let placeholder = ''{'' @ name @ ''}''
      in if py_str_contains subj placeholder \<or> py_str_contains bdy placeholder
         then (let value = py_choice vals (r_value r name)
               in fill_vars r vs (py_replace subj placeholder value, py_replace bdy placeholder value))
         else fill_vars r vs (subj, bdy))"

text \<open>\<open>template.get("urgency_hints")\<close> is truthy when the list is not empty.\<close>

definition add_urgency_hint :: "gen_rand \<Rightarrow> ticket_template \<Rightarrow> string \<Rightarrow> string" where
  "add_urgency_hint r tmpl bdy =
     (if r_random r < 3 / 10 \<and> urgency_hints tmpl \<noteq> [] then
        (let hint = py_choice (urgency_hints tmpl) (r_hint r)
         in if py_str_contains (py_lower bdy) hint then bdy else bdy @ '' This is '' @ hint @ ''!'')
      else bdy)"

definition generate_ticket :: "gen_rand \<Rightarrow> json" where
  "generate_ticket r =
     (let category = py_choice (map fst TICKET_TEMPLATES) (r_category r);
          template = py_choice (case map_of TICKET_TEMPLATES category of Some ts \<Rightarrow> ts | None \<Rightarrow> [])
                               (r_template r);
          (subj, bdy) = fill_vars r VARIABLES (tt_subject template, tt_body template);
          bdy' = add_urgency_hint r template bdy;
          ticket_id = ''DEMO-'' @ py_str_nat (py_randint 10000 99999 (r_ticket_id r))
      in generated_ticket ticket_id (''CUST-'' @ py_str_nat (py_randint 1000 9999 (r_customer_id r)))
           subj bdy' (r_now r) (py_choice [''low'', ''medium'', ''high'', ''critical''] (r_priority r))
           (py_choice [''email'', ''web'', ''api'', ''chat''] (r_source r)))"

text \<open>\<open>upload_ticket_to_s3(ticket, bucket)\<close>: \<open>ticket['ticket_id']\<close>, then one
  \<open>put_object\<close> of the text \<open>json.dumps(ticket, indent=2)\<close> under
  \<open>ticket_id.json\<close>; the call raises when S3 is down. A ticket id that is not
  a string does not occur: the generator always builds one.\<close>

definition upload_ticket_to_s3 ::
  "(rat \<Rightarrow> string) \<Rightarrow> json \<Rightarrow> string \<Rightarrow> wstate \<Rightarrow> unit res \<times> wstate" where
  "upload_ticket_to_s3 frepr ticket bucket s =
     (case py_getitem ticket ''ticket_id'' of
        Inr (JStr tid) \<Rightarrow>
          (if s3_up s then
             (Inr (), s\<lparr>raw_objects := (raw_objects s)((bucket, tid @ ''.json'') \<mapsto>
                                           json_loads (json_dumps frepr ticket))\<rparr>)
           else (Inl ServiceError, s))
      | Inr _ \<Rightarrow> (Inl TypeError, s)
      | Inl ex \<Rightarrow> (Inl ex, s))"

text \<open>The \<open>while True\<close> loop of \<open>main\<close>, one iteration per draw, counting the
  tickets generated; an exception ends it and is raised again.\<close>

fun generator_loop ::
  "(rat \<Rightarrow> string) \<Rightarrow> string \<Rightarrow> gen_rand list \<Rightarrow> nat \<Rightarrow> wstate \<Rightarrow> py_exc option \<times> nat \<times> wstate" where
  "generator_loop frepr bucket [] n s = (None, n, s)"
| "generator_loop frepr bucket (r # rs) n s =
     (case upload_ticket_to_s3 frepr (generate_ticket r) bucket s of
        (Inl ex, s') \<Rightarrow> (Some ex, n, s')
      | (Inr _, s') \<Rightarrow> generator_loop frepr bucket rs (Suc n) s')"

definition generator_main ::
  "(rat \<Rightarrow> string) \<Rightarrow> gen_rand list \<Rightarrow> wstate \<Rightarrow> py_exc option \<times> nat \<times> wstate" where
  "generator_main frepr rs s = generator_loop frepr ''tickets-raw'' rs 0 s"

section \<open>Placeholders\<close>

text \<open>A string made of brace-free text and placeholders \<open>{v}\<close> with \<open>v\<close> one
  of the names \<open>vs\<close>.\<close>

definition brace_free :: "string \<Rightarrow> bool" where
  "brace_free s \<longleftrightarrow> CHR ''{'' \<notin> set s \<and> CHR ''}'' \<notin> set s"

function tmpl_ok :: "string list \<Rightarrow> string \<Rightarrow> bool" where
  "tmpl_ok vs [] = True"
| "tmpl_ok vs (c # s) =
     (if c = CHR ''{'' then
        list_ex (\<lambda>v. take (length v + 1) s = v @ ''}'' \<and> tmpl_ok vs (drop (length v + 1) s)) vs
      else c \<noteq> CHR ''}'' \<and> tmpl_ok vs s)"
  by pat_completeness auto
termination by (relation "measure (\<lambda>(vs, s). length s)") auto

text \<open>Every variable name is brace-free and has a non-empty list of brace-free
  values.\<close>

definition vars_ok :: "(string \<times> string list) list \<Rightarrow> bool" where
  "vars_ok vs \<longleftrightarrow> list_all (\<lambda>(n, vals). brace_free n \<and> vals \<noteq> [] \<and> list_all brace_free vals) vs"

section \<open>Lemmas\<close>

lemma brace_free_append [simp]: "brace_free (xs @ ys) \<longleftrightarrow> brace_free xs \<and> brace_free ys"
  by (auto simp: brace_free_def)

lemma brace_free_Cons [simp]: "brace_free (c # s) \<longleftrightarrow> c \<noteq> CHR ''{'' \<and> c \<noteq> CHR ''}'' \<and> brace_free s"
  by (auto simp: brace_free_def)

lemma brace_free_Nil [simp]: "brace_free []"
  by (simp add: brace_free_def)

lemma brace_free_py_str_nat [simp]: "brace_free (py_str_nat n)"
proof -
  have "of_char c < (58::nat)" if "c \<in> set (py_str_nat n)" for c
    using py_str_nat_digits [of n] that by auto
  from this [of "CHR ''{''"] this [of "CHR ''}''"] show ?thesis
    unfolding brace_free_def by fastforce
qed

lemma brace_prefix_unique:
  "brace_free v \<Longrightarrow> brace_free w \<Longrightarrow> take (length v + 1) s = v @ ''}''
   \<Longrightarrow> take (length w + 1) s = w @ ''}'' \<Longrightarrow> v = w"
proof (induction s arbitrary: v w)
  case (Cons c s)
  then show ?case by (cases v; cases w) auto
qed simp

lemma tmpl_ok_append_free:
  "brace_free xs \<Longrightarrow> tmpl_ok vs (xs @ ys) = tmpl_ok vs ys"
  by (induction xs) auto

lemma tmpl_ok_mono:
  "tmpl_ok vs s \<Longrightarrow> set vs \<subseteq> set ws \<Longrightarrow> tmpl_ok ws s"
proof (induction vs s rule: tmpl_ok.induct)
  case (2 vs c s)
  then show ?case by (auto simp: list_ex_iff split: if_splits)
qed simp

lemma tmpl_ok_Nil: "tmpl_ok [] s \<Longrightarrow> brace_free s"
  by (induction "[] :: string list" s rule: tmpl_ok.induct) (auto split: if_splits)

lemma tmpl_ok_replace:
  assumes "tmpl_ok vs s" and "list_all brace_free vs" and "brace_free v" and "brace_free new"
  shows "tmpl_ok (removeAll v vs) (py_replace_aux (CHR ''{'' # v @ ''}'') new s)"
  using assms
proof (induction vs s rule: tmpl_ok.induct)
  case (1 vs)
  then show ?case by simp
next
  case (2 vs c s)
  let ?old = "CHR ''{'' # v @ ''}''"
  show ?case
  proof (cases "c = CHR ''{''")
    case True
    then obtain w where w: "w \<in> set vs" "take (length w + 1) s = w @ ''}''"
      "tmpl_ok vs (drop (length w + 1) s)"
      using "2.prems"(1) by (auto simp: list_ex_iff)
    have bw: "brace_free w" using w(1) "2.prems"(2) by (simp add: list_all_iff)
    have IH: "tmpl_ok (removeAll v vs) (py_replace_aux ?old new (drop (length w + 1) s))"
      using "2.IH"(1) [OF True w(1) w(3) "2.prems"(2-4)] .
    have s: "s = w @ CHR ''}'' # drop (length w + 1) s"
      using w(2) by (metis append_take_drop_id append.assoc append_Cons append_Nil)
    show ?thesis
    proof (cases "w = v")
      case True
      then have "take (length ?old) (c # s) = ?old" using w(2) \<open>c = CHR ''{''\<close> by simp
      then have "py_replace_aux ?old new (c # s) = new @ py_replace_aux ?old new (drop (length w + 1) s)"
        using True by simp
      then show ?thesis using IH tmpl_ok_append_free [OF "2.prems"(4)] by simp
    next
      case False
      have nt: "\<not> (?old \<noteq> [] \<and> take (length ?old) (c # s) = ?old)"
      proof
        assume "?old \<noteq> [] \<and> take (length ?old) (c # s) = ?old"
        then have "take (length v + 1) s = v @ ''}''" by simp
        then show False using brace_prefix_unique [OF "2.prems"(3) bw _ w(2)] False by simp
      qed
      have "py_replace_aux ?old new (c # s) = c # py_replace_aux ?old new s"
        by (simp only: py_replace_aux.simps if_not_P [OF nt])
      also have "py_replace_aux ?old new s = w @ CHR ''}'' # py_replace_aux ?old new (drop (length w + 1) s)"
        using py_replace_aux_skip [of ?old "w @ ''}''" new "drop (length w + 1) s"] bw
        by (subst s) (simp add: brace_free_def)
      finally show ?thesis
        using IH True False w(1) by (auto simp: list_ex_iff intro!: bexI [of _ w])
    qed
  next
    case False
    then have "c \<noteq> CHR ''}''" "tmpl_ok vs s" using "2.prems"(1) by simp_all
    moreover have "py_replace_aux ?old new (c # s) = c # py_replace_aux ?old new s"
      using False by simp
    ultimately show ?thesis using "2.IH"(2) [OF False _ "2.prems"(2-4)] False by simp
  qed
qed

lemma py_choice_mem: "xs \<noteq> [] \<Longrightarrow> py_choice xs n \<in> set xs"
  by (simp add: py_choice_def)

lemma tmpl_ok_py_replace:
  "tmpl_ok vs s \<Longrightarrow> list_all brace_free vs \<Longrightarrow> brace_free name \<Longrightarrow> brace_free new
   \<Longrightarrow> tmpl_ok (removeAll name vs) (py_replace s (''{'' @ name @ ''}'') new)"
  using tmpl_ok_replace by (simp add: py_replace_def)

lemma fill_vars_brace_free:
  assumes "vars_ok vs" and "tmpl_ok (map fst vs) subj" and "tmpl_ok (map fst vs) bdy"
  shows "brace_free (fst (fill_vars r vs (subj, bdy))) \<and> brace_free (snd (fill_vars r vs (subj, bdy)))"
  using assms
proof (induction vs arbitrary: subj bdy)
  case Nil
  then show ?case by (simp add: tmpl_ok_Nil)
next
  case (Cons nv vs)
  obtain n vals where nv: "nv = (n, vals)" by fastforce
  let ?ph = "''{'' @ n @ ''}''"
  have bn: "brace_free n" "vals \<noteq> []" "list_all brace_free vals" and rest: "vars_ok vs"
    using Cons.prems(1) nv by (simp_all add: vars_ok_def)
  have names: "list_all brace_free (n # map fst vs)"
    using Cons.prems(1) nv by (auto simp: vars_ok_def list_all_iff)
  have step: "tmpl_ok (map fst vs) (py_replace x ?ph new)"
    if x: "tmpl_ok (n # map fst vs) x" and b: "brace_free new" for x new
    by (rule tmpl_ok_mono [OF tmpl_ok_py_replace [OF x names bn(1) b]]) auto
  show ?case
  proof (cases "py_str_contains subj ?ph \<or> py_str_contains bdy ?ph")
    case True
    have "brace_free (py_choice vals (r_value r n))"
      using py_choice_mem [OF bn(2)] bn(3) by (simp add: list_all_iff)
    then show ?thesis
      using True nv Cons.prems(2,3) Cons.IH [OF rest step step] by (simp add: Let_def)
  next
    case False
    have "py_replace subj ?ph [] = subj" "py_replace bdy ?ph [] = bdy"
      using False py_replace_aux_absent by (simp_all add: py_replace_def)
    then have "tmpl_ok (map fst vs) subj" "tmpl_ok (map fst vs) bdy"
      using step [of subj "[]"] step [of bdy "[]"] Cons.prems(2,3) nv by simp_all
    then show ?thesis
      using False nv Cons.IH [OF rest] by (simp add: Let_def)
  qed
qed

lemma VARIABLES_names:
  "map fst VARIABLES =
     [''time_period'', ''error_msg'', ''task'', ''username'', ''email'', ''amount'', ''date'',
      ''order_id'', ''txn_ids'', ''action'', ''platform'', ''version'', ''data_type'', ''device1'',
      ''device2'', ''format'', ''file_size'', ''feature_name'', ''benefit'', ''community'',
      ''use_case'', ''module'', ''field'', ''month'', ''expected_amount'', ''invoice_id'', ''txn_id'',
      ''attempts'']"
  by (simp add: VARIABLES_def del: upt_rec_numeral)

lemma VARIABLES_ok: "vars_ok VARIABLES"
  by (simp add: vars_ok_def VARIABLES_def list_all_iff del: upt_rec_numeral)

lemma TICKET_TEMPLATES_ok:
  "list_all (\<lambda>(c, ts). ts \<noteq> [] \<and>
      list_all (\<lambda>t. tmpl_ok (map fst VARIABLES) (tt_subject t) \<and> tmpl_ok (map fst VARIABLES) (tt_body t)
                    \<and> list_all brace_free (urgency_hints t)) ts) TICKET_TEMPLATES"
  unfolding VARIABLES_names by code_simp

lemma add_urgency_hint_brace_free:
  assumes "brace_free bdy" and "list_all brace_free (urgency_hints t)"
  shows "brace_free (add_urgency_hint r t bdy)"
proof (cases "r_random r < 3 / 10 \<and> urgency_hints t \<noteq> []")
  case True
  then have "brace_free (py_choice (urgency_hints t) (r_hint r))"
    using py_choice_mem [of "urgency_hints t"] assms(2) by (simp add: list_all_iff)
  then show ?thesis using True assms(1) by (simp add: add_urgency_hint_def Let_def)
next
  case False
  then show ?thesis
    using assms(1) unfolding add_urgency_hint_def by (simp only: if_not_P [OF False] if_False)
qed

lemma generate_ticket_template:
  obtains tmpl where "tmpl_ok (map fst VARIABLES) (tt_subject tmpl)" "tmpl_ok (map fst VARIABLES) (tt_body tmpl)"
    "list_all brace_free (urgency_hints tmpl)"
    "generate_ticket r =
       (case fill_vars r VARIABLES (tt_subject tmpl, tt_body tmpl) of
          (subj, bdy) \<Rightarrow>
            generated_ticket (''DEMO-'' @ py_str_nat (py_randint 10000 99999 (r_ticket_id r)))
              (''CUST-'' @ py_str_nat (py_randint 1000 9999 (r_customer_id r)))
              subj (add_urgency_hint r tmpl bdy) (r_now r)
              (py_choice [''low'', ''medium'', ''high'', ''critical''] (r_priority r))
              (py_choice [''email'', ''web'', ''api'', ''chat''] (r_source r)))"
proof -
  let ?cat = "py_choice (map fst TICKET_TEMPLATES) (r_category r)"
  have "?cat \<in> set (map fst TICKET_TEMPLATES)"
    by (rule py_choice_mem) (simp add: TICKET_TEMPLATES_def)
  then obtain ts where ts: "map_of TICKET_TEMPLATES ?cat = Some ts"
    by (metis list.set_map map_of_eq_None_iff not_None_eq)
  have tt: "ts \<noteq> [] \<and> list_all (\<lambda>t. tmpl_ok (map fst VARIABLES) (tt_subject t)
               \<and> tmpl_ok (map fst VARIABLES) (tt_body t) \<and> list_all brace_free (urgency_hints t)) ts"
    using TICKET_TEMPLATES_ok map_of_SomeD [OF ts] by (fastforce simp: list_all_iff)
  let ?t = "py_choice ts (r_template r)"
  have "?t \<in> set ts" using tt by (simp add: py_choice_mem)
  then show ?thesis
    using that [of ?t] tt ts by (auto simp: list_all_iff generate_ticket_def Let_def split: prod.splits)
qed

text \<open>C27: every ticket the generator builds validates as a RawTicket, with
  every placeholder of its subject and body filled (no brace is left), the
  ticket id DEMO- and the drawn number, and the creation time of the draw.\<close>
lemma generate_ticket_valid:
  "\<exists>t. raw_ticket_of_json (generate_ticket r) = Inr t \<and> brace_free (subject t) \<and> brace_free (body t)
       \<and> ticket_id t = ''DEMO-'' @ py_str_nat (py_randint 10000 99999 (r_ticket_id r))
       \<and> created_at t = r_now r"
proof -
  obtain tmpl where t: "tmpl_ok (map fst VARIABLES) (tt_subject tmpl)" "tmpl_ok (map fst VARIABLES) (tt_body tmpl)"
    "list_all brace_free (urgency_hints tmpl)"
    and g: "generate_ticket r =
       (case fill_vars r VARIABLES (tt_subject tmpl, tt_body tmpl) of
          (subj, bdy) \<Rightarrow>
            generated_ticket (''DEMO-'' @ py_str_nat (py_randint 10000 99999 (r_ticket_id r)))
              (''CUST-'' @ py_str_nat (py_randint 1000 9999 (r_customer_id r)))
              subj (add_urgency_hint r tmpl bdy) (r_now r)
              (py_choice [''low'', ''medium'', ''high'', ''critical''] (r_priority r))
              (py_choice [''email'', ''web'', ''api'', ''chat''] (r_source r)))"
    by (rule generate_ticket_template)
  obtain subj bdy where fv: "fill_vars r VARIABLES (tt_subject tmpl, tt_body tmpl) = (subj, bdy)"
    by fastforce
  have "brace_free subj" "brace_free bdy"
    using fill_vars_brace_free [OF VARIABLES_ok t(1,2), of r] fv by simp_all
  then show ?thesis
    using g fv add_urgency_hint_brace_free [OF _ t(3)] by (simp add: generated_ticket_validates)
qed

lemma generate_ticket_id:
  "py_getitem (generate_ticket r) ''ticket_id''
     = Inr (JStr (''DEMO-'' @ py_str_nat (py_randint 10000 99999 (r_ticket_id r))))"
proof -
  obtain tmpl where g: "generate_ticket r =
       (case fill_vars r VARIABLES (tt_subject tmpl, tt_body tmpl) of
          (subj, bdy) \<Rightarrow>
            generated_ticket (''DEMO-'' @ py_str_nat (py_randint 10000 99999 (r_ticket_id r)))
              (''CUST-'' @ py_str_nat (py_randint 1000 9999 (r_customer_id r)))
              subj (add_urgency_hint r tmpl bdy) (r_now r)
              (py_choice [''low'', ''medium'', ''high'', ''critical''] (r_priority r))
              (py_choice [''email'', ''web'', ''api'', ''chat''] (r_source r)))"
    by (rule generate_ticket_template)
  show ?thesis
    using g by (simp add: generated_ticket_def jlookup_def split: prod.splits)
qed

lemma generated_ticket_float_free: "float_free (generated_ticket tid cid subj bdy ts prio src)"
  by (simp add: generated_ticket_def)

lemma generate_ticket_float_free: "float_free (generate_ticket r)"
  by (simp add: generate_ticket_def Let_def generated_ticket_float_free split: prod.splits)

text \<open>What the worker's \<open>json.loads\<close> makes of an uploaded ticket is the ticket.\<close>

lemma generate_ticket_loads: "json_loads (json_dumps frepr (generate_ticket r)) = Some (generate_ticket r)"
  using scan_json_dumps [OF generate_ticket_float_free, of "[]" frepr 0]
  by (simp add: json_loads_def json_dumps_def delim_def skip_ws_def)

text \<open>C16: uploading a generated ticket and reading it back is the identity:
  when S3 is up, upload_ticket_to_s3 stores under the key ticket_id + ".json"
  of the raw bucket exactly the ticket the generator built, since
  json.dumps(ticket, indent=2) of a ticket of strings and an int created_at is
  read back by the worker's json.loads as the same JSON value; when S3 is down
  the upload raises and changes nothing.\<close>
lemma upload_ticket_to_s3_generated:
  "upload_ticket_to_s3 frepr (generate_ticket r) b s =
     (if s3_up s
      then (Inr (), s\<lparr>raw_objects := (raw_objects s)
              ((b, ''DEMO-'' @ py_str_nat (py_randint 10000 99999 (r_ticket_id r)) @ ''.json'')
                 \<mapsto> Some (generate_ticket r))\<rparr>)
      else (Inl ServiceError, s))"
  by (simp add: upload_ticket_to_s3_def generate_ticket_id generate_ticket_loads)

text \<open>C28: ticket ids are drawn from 90000 numbers and the upload key is the
  id: when two tickets of a run draw the same number, the second upload
  replaces the first ticket under the same key, and the first ticket is gone
  from the raw bucket.\<close>
lemma generator_same_id_overwrites:
  assumes "s3_up s" and "r_ticket_id r1 = r_ticket_id r2"
  shows "generator_main frepr [r1, r2] s =
           (None, 2, s\<lparr>raw_objects := (raw_objects s)
              ((''tickets-raw'', ''DEMO-'' @ py_str_nat (py_randint 10000 99999 (r_ticket_id r1)) @ ''.json'')
                 \<mapsto> Some (generate_ticket r2))\<rparr>)"
  using assms by (simp add: generator_main_def upload_ticket_to_s3_def generate_ticket_id generate_ticket_loads)

section \<open>Witnesses\<close>

lemma generator_same_id_overwrites_witness:
  "generator_main (\<lambda>_. ''0.0'')
     [\<lparr>r_category = 0, r_template = 0, r_value = (\<lambda>_. 0), r_random = 1, r_hint = 0,
       r_ticket_id = 7, r_customer_id = 0, r_priority = 0, r_source = 0, r_now = 1700000000\<rparr>,
      \<lparr>r_category = 2, r_template = 1, r_value = (\<lambda>_. 3), r_random = 0, r_hint = 1,
       r_ticket_id = 7, r_customer_id = 5, r_priority = 3, r_source = 2, r_now = 1700000012\<rparr>] example_world
   = (None, 2, example_world\<lparr>raw_objects := (raw_objects example_world)
        ((''tickets-raw'', ''DEMO-'' @ py_str_nat (py_randint 10000 99999 7) @ ''.json'')
           \<mapsto> Some (generate_ticket
                 \<lparr>r_category = 2, r_template = 1, r_value = (\<lambda>_. 3), r_random = 0, r_hint = 1,
                  r_ticket_id = 7, r_customer_id = 5, r_priority = 3, r_source = 2, r_now = 1700000012\<rparr>))\<rparr>)"
  using generator_same_id_overwrites [of example_world] by (simp add: example_world_def)

end
