(* ===== verification/Demos.thy ===== *)
theory Demos
  imports Enrichment Similarity Config
begin

text \<open>
  The self-test scripts at the end of \<open>src/src/processor/classifier.py\<close>,
  \<open>summarizer.py\<close> and \<open>embeddings.py\<close> (their \<open>if __name__ == "__main__"\<close>
  blocks): the test tickets each script builds, and the values it computes and
  prints, in the order it computes them. The printing itself is not modelled.
  A script has no \<open>try\<close>, so the first exception ends it: each script is a
  value of \<open>'a res\<close>. The lemmas show when each script runs to its end: the
  classifier script always does, the summarizer script exactly when
  \<open>ModelConfig.from_env()\<close> does (its \<open>generate_summary(ticket)\<close> reads
  \<open>MAX_SUMMARY_LENGTH\<close>), and the embeddings script whenever the encoder
  answers every text with a vector of one fixed length.
\<close>

section \<open>classifier.py\<close>

text \<open>The three test tickets, as the \<open>ticket.get("priority")\<close>,
  \<open>ticket.get("subject", "")\<close> and \<open>ticket.get("body", "")\<close> the
  classifiers read.\<close>

definition classifier_test_tickets :: "(json option \<times> string \<times> string) list" where
  "classifier_test_tickets =
     [(None, ''URGENT: Cannot login to account'', ''I've been trying to login for hours. This is critical!''),
      (Some (JStr ''low''), ''Feature request: Dark mode'', ''Would love to see a dark mode option. Nice to have.''),
      (None, ''Payment failed'', ''Transaction was declined but money was charged. Need refund!'')]"

text \<open>\<open>for ticket in test_tickets: summary = get_classification_summary(ticket)\<close>.\<close>

definition classifier_main :: "sentiment_model \<Rightarrow> classification list res" where
  "classifier_main clf =
     res_sequence (map (\<lambda>(p, subj, bdy). get_classification_summary clf p subj bdy) classifier_test_tickets)"

section \<open>summarizer.py\<close>

definition summarizer_test_tickets :: "(string \<times> string) list" where
  "summarizer_test_tickets =
     [(''Cannot login to my account'',
       ''I've been trying to login to my account for the past two hours but I keep getting an 'invalid credentials' error message. I'm absolutely certain that I'm using the correct password because I saved it in my password manager. I've tried resetting my password twice already but the problem persists. This is very urgent as I need to access my account for an important work meeting this afternoon.''),
      (''Short ticket'', ''Quick question about pricing.''),
      (''Payment issue'',
       ''My payment was declined yesterday but when I checked my bank statement this morning, the money was actually debited from my account. I need this resolved quickly and want a refund processed. The transaction ID is TXN-12345 and the amount is $99.99. I've been a customer for three years and this has never happened before. Please help!'')]"

text \<open>For each ticket: \<open>len(ticket["body"])\<close>, \<open>generate_summary(ticket)\<close> (whose
  \<open>max_length\<close> is \<open>ModelConfig.from_env().max_summary_length\<close>, read at each
  call from the same environment), \<open>summarize_for_display(ticket,
  max_display_length=50)\<close> and \<open>get_summary_stats(ticket["body"], summary)\<close>.\<close>

definition summarizer_main ::
  "gateway \<Rightarrow> string \<Rightarrow> env \<Rightarrow> (nat \<times> string \<times> string \<times> summary_stats) list res" where
  "summarizer_main gw home e =
     rbind (model_from_env home e) (\<lambda>mc.
       Inr (map (\<lambda>(subj, bdy).
                  let summary = generate_summary gw (max_summary_length mc) 10 subj bdy
                  in (length bdy, summary, summarize_for_display gw subj bdy 50,
                      get_summary_stats bdy summary))
                summarizer_test_tickets))"

section \<open>embeddings.py\<close>

definition embeddings_test_tickets :: "(string \<times> string) list" where
  "embeddings_test_tickets =
     [(''Login issue'', ''Cannot access account''), (''Payment failed'', ''Transaction declined''),
      (''App crash'', ''Application keeps crashing'')]"

text \<open>One embedding (its length and first five values are printed), the batch
  of three, the similarity of the first two and the statistics of the batch.
  \<open>embeddings[0]\<close> and \<open>embeddings[1]\<close> exist: a batch that returns has one
  vector per ticket (\<open>batch_generate_embeddings_length\<close>).\<close>

definition embeddings_main :: "gateway \<Rightarrow> (nat \<times> rat list \<times> nat \<times> real \<times> embedding_stats) res" where
  "embeddings_main gw =
     rbind (generate_ticket_embedding gw ''Cannot login to my account''
              ''I've been trying to login but keep getting errors.'') (\<lambda>emb.
     rbind (batch_generate_embeddings gw embeddings_test_tickets) (\<lambda>embs.
     rbind (compute_similarity (embs ! 0) (embs ! 1)) (\<lambda>sim.
     rbind (get_embedding_stats embs) (\<lambda>st.
       Inr (length emb, take 5 emb, length embs, sim, st)))))"

section \<open>Lemmas\<close>

lemma batch_generate_embeddings_length:
  "batch_generate_embeddings gw tickets = Inr es \<Longrightarrow> length es = length tickets"
  by (auto simp: batch_generate_embeddings_def dest: res_sequence_length)

text \<open>The classifier script runs to its end for every sentiment model: none of
  its tickets has a \<open>null\<close> priority.\<close>

lemma classifier_main_runs: "\<exists>cs. classifier_main clf = Inr cs \<and> length cs = 3"
proof -
  have "\<forall>r \<in> set (map (\<lambda>(p, subj, bdy). get_classification_summary clf p subj bdy) classifier_test_tickets).
          \<exists>a. r = Inr a"
    using classification_ok by (fastforce simp: classifier_test_tickets_def)
  then show ?thesis
    using res_sequence_Inr by (fastforce simp: classifier_main_def classifier_test_tickets_def)
qed

text \<open>The summarizer script runs to its end exactly when the model
  configuration loads, and then prints one line group per test ticket.\<close>

lemma summarizer_main_runs:
  "(\<exists>outs. summarizer_main gw home e = Inr outs \<and> length outs = 3) \<longleftrightarrow> (\<exists>mc. model_from_env home e = Inr mc)"
  by (auto simp: summarizer_main_def rbind_def summarizer_test_tickets_def split: sum.splits)

text \<open>The embeddings script runs to its end when the encoder answers every
  text with a vector of one length \<open>d\<close>, and then prints three vectors of
  that dimension.\<close>

lemma embeddings_main_runs:
  assumes enc: "\<forall>x. \<exists>v. encode gw x = Inr v \<and> length v = d"
  shows "\<exists>v sim st. embeddings_main gw = Inr (d, v, 3, sim, st) \<and> st_count st = 3 \<and> st_dimension st = d"
proof -
  obtain f where f: "\<forall>x. encode gw x = Inr (f x) \<and> length (f x) = d"
    using choice [OF enc] by blast
  let ?es = "map (\<lambda>(subj, bdy). f (batch_text subj bdy)) embeddings_test_tickets"
  have e1: "\<exists>v. generate_ticket_embedding gw ''Cannot login to my account''
              ''I've been trying to login but keep getting errors.'' = Inr v \<and> length v = d"
    using f by (simp add: generate_ticket_embedding_def model_text_def py_blank_iff py_isspace_def)
  have e2: "batch_generate_embeddings gw embeddings_test_tickets = Inr ?es"
    using f res_sequence_map_Inr [of f] by (simp add: batch_generate_embeddings_def embeddings_test_tickets_def)
  have len: "length ?es = 3" "\<forall>v \<in> set ?es. length v = d"
    using f by (auto simp: embeddings_test_tickets_def)
  have "\<exists>sim. compute_similarity (?es ! 0) (?es ! 1) = Inr sim"
    using f by (simp add: compute_similarity_def Let_def embeddings_test_tickets_def)
  then obtain sim where sim: "compute_similarity (?es ! 0) (?es ! 1) = Inr sim" by blast
  obtain st where st: "get_embedding_stats ?es = Inr st" "st_count st = 3" "st_dimension st = d"
    using f by (simp add: get_embedding_stats_def Let_def embeddings_test_tickets_def)
  show ?thesis
    using e1 e2 sim st len(1) by (auto simp: embeddings_main_def)
qed

end
