(* ===== verification/Spec2Isabelle.thy ===== *)
theory Spec2Isabelle
  imports Queue Similarity Entry Generator Demos
begin

text \<open>
  \<^bold>\<open>A verification library for the ticket-enrichment worker\<close>
  (\<open>src/src/processor/worker.py\<close> and the modules it calls).

  \<^bold>\<open>The program.\<close> A single worker loop (\<open>TicketProcessor.run_forever\<close>)
  polls an SQS queue (\<open>poll_and_process\<close>). For each message it decodes the
  body; if the body has \<open>"Records"\<close>, each record names an S3 object (an S3
  event record, or a \<open>key\<close> in the raw bucket). Each object is fetched
  (\<open>fetch_ticket_from_s3\<close>), validated as a \<open>RawTicket\<close> and enriched by three
  ML stages (\<open>process_ticket\<close>: embedding, keyword/ML classification,
  summary), then written to DynamoDB and to the enriched S3 bucket
  (\<open>store_results\<close>). The message is deleted when its body ran without an
  exception; any exception counts one failure and leaves the message for
  redelivery. Before the loop, \<open>main\<close> loads the configuration, preloads
  the three models (a failure ends the process with status 1) and builds the
  \<open>TicketProcessor\<close>, which asks SQS for the queue URL. The demo generator
  (\<open>src/src/generator/ticket_generator.py\<close>) fills random ticket templates
  and uploads them to the raw bucket, whose S3 events feed the queue.

  \<^bold>\<open>Theories, in import order.\<close>
  \<^item> \<open>Prelude\<close>: the Python exceptions as a datatype \<open>py_exc\<close>, the result
    type \<open>'a res = py_exc + 'a\<close> with its bind \<open>rbind\<close>, and Python's string
    primitives over code points below 256 (\<open>str.lower\<close>, \<open>str.strip\<close>,
    \<open>str.split\<close>, \<open>str.replace\<close>, \<open>str(n)\<close>, \<open>s[:n]\<close>, \<open>\w\<close>).
  \<^item> \<open>Json\<close>: the values \<open>json.loads\<close> returns and Python's \<open>in\<close>, \<open>[]\<close>,
    iteration and \<open>.get\<close> on them, dict semantics for repeated keys included.
  \<^item> \<open>JsonText\<close>: the JSON text, \<open>json.dumps(v, indent=2)\<close> as the encoder
    writes it (\<open>json_dumps\<close>, with \<open>ensure_ascii\<close> escaping) and
    \<open>json.loads\<close> as the scanner reads it (\<open>json_loads\<close>, a recursive
    descent written as a \<open>partial_function (option)\<close>, \<open>scan_json\<close>, whose
    \<open>None\<close> is a rejected text or a scan that does not end; the round trip
    proves \<open>Some\<close>, so the scan of an encoder's text returns).
  \<^item> \<open>Schemas\<close> (\<open>src/src/common/schemas.py\<close>): the pydantic models as records,
    their lax-mode validation, \<open>from_raw\<close>, \<open>from_enriched\<close>, the
    documented \<open>json_schema_extra\<close> examples; the shape of the generator's
    ticket dict (\<open>generated_ticket\<close>).
  \<^item> \<open>Classifier\<close> (\<open>src/src/processor/classifier.py\<close>): the keyword tables,
    \<open>\b<kw>\b\<close> as \<open>re.findall\<close> counts it (\<open>findall_count\<close>) and
    \<open>re.search\<close> tests it (\<open>re_search\<close>), \<open>classify_intent\<close>,
    \<open>classify_urgency\<close>, \<open>classify_sentiment\<close>, \<open>get_classification_summary\<close>.
  \<^item> \<open>Enrichment\<close> (\<open>embeddings.py\<close>, \<open>summarizer.py\<close>): the record
    \<open>gateway\<close> of the three models, \<open>generate_ticket_embedding\<close>,
    \<open>batch_generate_embeddings\<close>, \<open>generate_summary\<close>,
    \<open>summarize_for_display\<close>, \<open>generate_summaries_batch\<close>,
    \<open>get_summary_stats\<close>, and \<open>gateway_contract\<close>, what the worker
    expects of the models.
  \<^item> \<open>Config\<close> (\<open>src/src/common/config.py\<close>): the configuration dataclasses
    and \<open>from_env\<close> over an environment map, with \<open>int()\<close> as a parse that
    can raise, and \<open>ProcessorConfig.__repr__\<close>
    (\<open>processor_config_repr\<close>).
  \<^item> \<open>AwsClients\<close> (\<open>src/src/common/aws_clients.py\<close>): each factory as the
    keyword arguments it hands to boto3, and the worker's three handles
    (\<open>worker_clients\<close>, \<open>TicketProcessor.__init__\<close>).
  \<^item> \<open>Models\<close> (\<open>src/src/processor/models.py\<close>): \<open>MODEL_CONFIGS\<close>,
    \<open>get_model_cache_dir\<close> and the three loaders as the model name and cache
    directory they pass to the libraries, \<open>get_model_info\<close>,
    \<open>preload_all_models\<close> and \<open>check_model_availability\<close>, with the
    library's answer a parameter (\<open>library_load\<close>); the
    \<open>@lru_cache(maxsize=1)\<close> of each loader (\<open>lru_cache_call\<close>, one slot
    of \<open>model_cache\<close> per loader, \<open>cached_load\<close>), \<open>clear_model_cache\<close>,
    the start-up routines over the caches and the script's \<open>__main__\<close>
    (\<open>models_main\<close>). \<open>preload_all_models\<close> and
    \<open>check_model_availability\<close> are these routines in a fresh process.
  \<^item> \<open>Entry\<close> (\<open>worker.py\<close>): \<open>main\<close> up to \<open>run_forever\<close>, with
    \<open>TicketProcessor.__init__\<close> (\<open>TicketProcessor_init\<close>); its outcome
    \<open>main_result\<close> is a crash with an exception, \<open>sys.exit\<close>, or the loop
    with the handles and the queue URL.
  \<^item> \<open>Similarity\<close> (\<open>embeddings.py\<close>): \<open>compute_similarity\<close>,
    \<open>find_similar_tickets\<close> and \<open>get_embedding_stats\<close> over exact rationals
    and reals, with the abstract top-k contract \<open>top_k_spec\<close>.
  \<^item> \<open>Demos\<close> (\<open>classifier.py\<close>, \<open>summarizer.py\<close>, \<open>embeddings.py\<close>): the
    modules' \<open>__main__\<close> self-test scripts as the values they compute, the
    first exception ending the script.
  \<^item> \<open>Worker\<close> (\<open>worker.py\<close>): the state \<open>wstate\<close> (the buckets, the table,
    the deleted receipt handles, service availability, the clock, the two
    counters), and one definition per step of the source:
    \<open>fetch_ticket_from_s3\<close>, \<open>process_ticket\<close>, \<open>put_item\<close>/\<open>put_object\<close>/
    \<open>store_results\<close>, \<open>record_location\<close>/\<open>fetch_and_process\<close>/
    \<open>process_record\<close>, \<open>process_records\<close> (the loop over records),
    \<open>delete_message\<close>, \<open>process_message\<close> (the \<open>try\<close> body),
    \<open>handle_message\<close> (the \<open>except\<close>), \<open>poll_and_process\<close>, \<open>run_forever\<close>,
    \<open>print_stats\<close>; and, for the statements, the abstract store of the
    spec (\<open>blob_view\<close>, \<open>ticket_upsert\<close>) and \<open>records_run\<close>, the
    records of a message processed before its first failure.
  \<^item> \<open>Queue\<close>: the worker against its SQS queue, modelled from the spec (SQS
    is not code of the repository): the record \<open>sys\<close> of queue, worker state
    and ghost lists of sent and deleted messages, and the step relation
    \<open>qstep\<close> (S3 sends, the world changes, the worker polls a batch through
    \<open>poll_and_process\<close>, a receive fails) with its reachable states
    \<open>qreach\<close>. A redelivery is a later poll that delivers the same message.
    \<open>drain\<close> is the \<open>run_forever\<close> loop until the queue is empty, each
    poll receiving the first \<open>MaxNumberOfMessages\<close> queued messages.
  \<^item> \<open>Generator\<close> (\<open>ticket_generator.py\<close>): \<open>TICKET_TEMPLATES\<close>,
    \<open>VARIABLES\<close>, \<open>generate_ticket\<close> with every random draw a field of
    \<open>gen_rand\<close> (\<open>fill_vars\<close> is the \<open>str.replace\<close> loop,
    \<open>add_urgency_hint\<close> the hint), \<open>upload_ticket_to_s3\<close> into the worker's
    raw-object store (the store holds what the worker's \<open>json.loads\<close> reads
    from the uploaded text \<open>json.dumps(ticket, indent=2)\<close>), and the loop of
    its \<open>main\<close> over a list of draws.

  \<^bold>\<open>Effects and errors.\<close> Every raise of the source is an \<open>Inl\<close> of \<open>py_exc\<close>.
  A stateful step returns \<open>py_exc option \<times> wstate\<close>: the exception if one
  left it, and the state as the exception left it, so that writes done before
  a failure persist as they do in AWS. The ML models and the SQS receive call
  are inputs: a \<open>gateway\<close> record of functions, and the answer of
  \<open>receive_message\<close> (a batch or an exception). \<open>run_forever\<close> is
  structural recursion over the list of queue answers it sees before the
  interrupt, so no fuel is needed: the loop body always returns. The loop
  run until the queue is empty (\<open>drain\<close>) may not end; it is a
  \<open>while_option\<close>, whose \<open>None\<close> is the loop that never ends, and its
  termination is proved with a measure (the queue length) and an invariant
  (\<open>measure_while_option_Some\<close>), not assumed.

  \<^bold>\<open>What is proved.\<close>
  \<^item> Acknowledgement (\<open>Worker\<close>): a Records message is deleted exactly when
    every record succeeds and SQS accepts the deletion (C1); within a batch the
    deleted messages are exactly those that succeed alone (C7); failures are
    counted per message, not per record, while \<open>tickets_processed\<close> counts
    every record a message got through before its first failure, also when
    the message then fails and comes back (C20, with \<open>records_run\<close>); a body without \<open>"Records"\<close>
    is deleted unprocessed (C21); a non-JSON body counts one failure and stays
    (C22). These rest on a frame lemma: no step writes the raw objects, the
    service flags or the clock (\<open>env_view\<close>), so each record's and message's
    outcome depends only on them (\<open>record_ok\<close>, \<open>msg_ok\<close>).
  \<^item> Delivery (\<open>Queue\<close>, by rule induction over \<open>qreach\<close>): no message is
    lost or duplicated, and every deleted message succeeded when processed
    (C2); a poll drops exactly the delivered messages that succeed, so failed
    ones wait for redelivery (C3); with \<open>MaxNumberOfMessages\<close> in 1..10 a
    queued message that would succeed can always be delivered and deleted
    (C4); when every queued message succeeds the polling loop empties the
    queue in finitely many polls and deletes each of them (C5, termination);
    a message that fails is never drained, so the loop never ends (C6, the
    missing retry cap the spec leaves open).
  \<^item> Dual store (\<open>Worker\<close>): the table is written before the blob, so a failed
    S3 write leaves a row without its blob (C8); every blob has its row, in every state of a run, by induction
    over the run (C9). Seen as a store of tickets by id (\<open>blob_view\<close>),
    the blobs change as the spec's atomic upsert (\<open>ticket_upsert\<close>) when
    \<open>store_results\<close> returns and not at all when it raises (C10, a
    functional refinement); since the table is keyed by id and creation time
    and the blob by id alone, a ticket stored again under the same id with
    another creation time leaves a row naming a blob that holds the other
    ticket (C11). Reprocessing a stored record on redelivery, at any later
    clock, succeeds and leaves both stores as they were up to
    \<open>processed_at\<close> (C12, this theory, with \<open>forget_row\<close> and
    \<open>forget_blob\<close>).
  \<^item> Validation (\<open>Schemas\<close>, \<open>Worker\<close>): a ticket without \<open>customer_id\<close>
    fails with \<open>ValidationError\<close> and writes nothing (C19); the schemas'
    documented examples validate (\<open>raw_ticket_schema_example_valid\<close>,
    \<open>enrichment_schema_example_valid\<close>).
  \<^item> Generator (\<open>Generator\<close>): for every random draw, the generated ticket
    validates and its subject and body have every placeholder filled (C27);
    the proof shows that \<open>str.replace\<close> of a placeholder by a brace-free
    value removes that name from the template structure \<open>tmpl_ok\<close>, and
    checks the two tables by evaluation. Two draws of the same ticket number
    upload to the same key, the later ticket replacing the earlier (C28).
  \<^item> Start-up (\<open>Entry\<close>, \<open>Models\<close>): \<open>main\<close> enters the loop exactly when
    the configuration loads, every model loads and SQS knows the queue
    (C17); a model that fails to load ends the process with status 1 before
    any AWS call (C18); preloading succeeds exactly when the availability
    check reports every model available (\<open>preload_all_models_iff_available\<close>).
  \<^item> End to end (this theory): under \<open>gateway_contract\<close> (the encoder always
    answers, sentiment scores are probabilities) and with every service up, a
    generated ticket announced by its S3 event (\<open>s3_event_body\<close>, the shape of
    \<open>SQSMessage\<close>) is enriched, stored in both stores, counted and its message
    deleted (C13); composed with the generator, every ticket it uploads is
    processed, acknowledged and stored in both stores (C14), the upload
    going through the JSON text: \<open>upload_ticket_to_s3\<close> leaves under
    \<open>ticket_id + ".json"\<close> exactly the ticket the generator built (C16),
    because \<open>json.loads\<close> reads back every float-free value
    \<open>json.dumps(v, indent=2)\<close> writes (\<open>json_loads_dumps\<close>, a round trip
    proved by induction over the encoder with the scanner's rest of input
    left arbitrary, through \<open>scan_json_dumps\<close>). A whole generator run,
    announced on the queue by S3 (\<open>generator_events\<close>), is drained by the
    worker's polling loop, which acknowledges every notification (C15): every
    object the run leaves at an upload key is a generated ticket
    (\<open>generator_loop_objects\<close>), so every notification is one that
    succeeds (\<open>generate_ticket_message_ok\<close>), and the queue's termination
    argument (\<open>drain_ok\<close>) applies. The proofs
    compose the per-stage lemmas \<open>process_ticket_ok\<close>, \<open>store_results_ok\<close>, \<open>embedding_ok\<close> and
    \<open>classification_ok\<close>.
  \<^item> Classification (\<open>Classifier\<close>): the summary the worker stores has an
    urgency among the four levels and all three confidences in [0, 1] when
    the sentiment scores are (C23); a \<open>null\<close> priority raises (C24);
    \<open>classify_intent\<close> returns the first intent of greatest keyword score
    over the whole table \<open>INTENT_KEYWORDS\<close>, with confidence the score over
    3 capped at 1, and \<open>general_inquiry\<close> at 0.5 when no keyword matches
    (C25, through the loop modelling \<open>max(d, key=d.get)\<close>, proved equal to
    the reference \<open>first_max\<close>, and the dict of positive scores having the
    same first maximum as the table); the intent is one of the table or
    \<open>general_inquiry\<close> (C26); the findall scan and the search agree
    (\<open>findall_search\<close>).
  \<^item> Similarity (\<open>Similarity\<close>): in exact arithmetic a cosine similarity
    lies in [-1, 1], by a Cauchy--Schwarz lemma proved over any linearly
    ordered field (\<open>compute_similarity_bounds\<close>; the float64 code can exceed
    1 by rounding, see below);
    \<open>find_similar_tickets\<close> refines \<open>top_k_spec\<close> for \<open>top_k \<ge> 0\<close> (C36)
    and returns only input tickets with an embedding that reach the threshold
    (C37); a nonzero vector has similarity 1 with itself
    (\<open>compute_similarity_self\<close>); the embedding statistics order minimum,
    mean and maximum (\<open>get_embedding_stats_order\<close>).
  \<^item> Enrichment (\<open>Enrichment\<close>): \<open>summarize_for_display\<close> respects its
    length bound when it is at least 3 (C34); \<open>batch_generate_embeddings\<close>
    agrees with \<open>generate_ticket_embedding\<close> on non-blank tickets (C35) and
    differs on blank ones (\<open>batch_blank_differs\<close>).
  \<^item> Configuration (\<open>Config\<close>, \<open>AwsClients\<close>): the defaults
    (\<open>processor_from_env_defaults\<close>); the
    configuration fails exactly on a malformed integer variable (C29); the
    worker's clients equal the auto-detected ones (C32); forcing LocalStack
    without \<open>USE_LOCALSTACK\<close> gives test keys and no endpoint (C33);
    the model loaders use the configured cache directory and raise KeyError
    for an unknown kind (\<open>load_model_config\<close>) but take the
    model names from \<open>MODEL_CONFIGS\<close>, so a model override in the environment
    is never loaded (C30); a cached model outlives a change of the
    configuration until \<open>clear_model_cache\<close> (C31), while under a fixed
    configuration the caches stay coherent (\<open>cache_ok\<close>), so the cached
    start-up routines refine the uncached ones
    (\<open>preload_all_models_cached_ok\<close>) and the script's \<open>__main__\<close>
    succeeds exactly when every model is available (\<open>models_main_eq\<close>);
    \<open>get_arn\<close> yields the docstring's ARN only under LocalStack (\<open>get_arn_example\<close>).
  \<^item> Self-tests (\<open>Demos\<close>, \<open>Models\<close>): the classifier script runs to its
    end for every sentiment model (\<open>classifier_main_runs\<close>), the summarizer
    script exactly when the model configuration loads
    (\<open>summarizer_main_runs\<close>), the embeddings script whenever the encoder
    has one output length (\<open>embeddings_main_runs\<close>).

  \<^bold>\<open>Not modelled.\<close> The ML models' internals (they are gateway parameters);
  \<open>model_dump_json\<close> and the body text of an SQS message (the worker's
  store and messages hold the values \<open>json.loads\<close> returns; the text is
  written out only for the generator's upload, \<open>JsonText\<close>); the text of
  a float (\<open>repr\<close> is the parameter \<open>frepr\<close>: floats are rationals here),
  \<open>NaN\<close> and \<open>Infinity\<close>; boto3 itself (the factories are modelled up to the
  arguments they pass it), loading the models (the loaders are modelled up
  to the name and directory they pass on, a loaded model is that pair) and
  \<open>mkdir\<close>, the PyTorch fields of
  \<open>get_model_info\<close>, the generator's sleeps and the distribution of its
  random draws (every draw is a parameter, so the theorems hold for all of
  them), logging (\<open>print_stats\<close> is modelled by the values it logs);
  floating-point rounding (floats are exact rationals, numpy's square roots
  exact reals; so \<open>compute_similarity\<close>, which does not clip its float64
  quotient, is proved within [-1, 1] only for the exact quotient); time in
  the queue: the visibility timeout is not a clock, and a redelivery is any
  later poll that delivers a message still queued (\<open>Queue\<close>); the receipt
  handle is the message's fixed identity (real SQS issues a fresh handle per
  receive, and a delete with a stale one can fail; the model's delete by
  handle always reaches the message it names); S3 as one store: the model
  keeps the raw bucket (\<open>raw_objects\<close>, only read by the worker) and the
  enriched bucket (\<open>enriched_objects\<close>, only written by it) as two
  disjoint maps, so a configuration naming the same bucket for both is not
  modelled, and reads of the raw store do not consult \<open>s3_up\<close> (an S3
  outage fails the writes only); batching inside the encoder
  (\<open>model.encode(texts)\<close> of \<open>batch_generate_embeddings\<close> is modelled as
  one \<open>encode\<close> call per text, which is what a deterministic encoder
  gives); numeric
  strings accepted by pydantic for \<open>int\<close> fields; DynamoDB's item-size limit;
  code points above 255.

  \<^bold>\<open>Plan for later sittings.\<close> The worker's \<open>json.loads\<close> of a message body
  over text, with the SQS body as a string; redelivery of a multi-record message after
  a partial failure, composed from C3 and C9; the rows a drained generator run
  leaves in the table (C15 shows the acknowledgements).
\<close>

section \<open>The S3 event notification\<close>

text \<open>The body S3 puts on the queue for a new object \<open>k\<close> in bucket \<open>b\<close>: one
  record with \<open>s3.bucket.name\<close> and \<open>s3.object.key\<close>, the fields the
  \<open>S3Event\<close> model names.\<close>

definition s3_event_record :: "string \<Rightarrow> string \<Rightarrow> int \<Rightarrow> json" where
  "s3_event_record b k sz =
     JObj [(''s3'', JObj [(''bucket'', JObj [(''name'', JStr b)]),
                        (''object'', JObj [(''key'', JStr k), (''size'', JInt sz)])]),
           (''eventName'', JStr ''ObjectCreated:Put'')]"

definition s3_event_body :: "string \<Rightarrow> string \<Rightarrow> int \<Rightarrow> json" where
  "s3_event_body b k sz = JObj [(''Records'', JArr [s3_event_record b k sz])]"

section \<open>Reprocessing\<close>

text \<open>A stored row and a stored blob with their processing time left out: what
  the spec's idempotent upsert promises to keep equal under redelivery.\<close>

definition forget_row :: "dynamodb_ticket \<Rightarrow> dynamodb_ticket" where
  "forget_row it = it\<lparr>ddb_processed_at := []\<rparr>"

definition forget_blob :: "enriched_ticket \<Rightarrow> enriched_ticket" where
  "forget_blob t = t\<lparr>enrichment := (enrichment t)\<lparr>processed_at := []\<rparr>\<rparr>"

section \<open>A generator run on the queue\<close>

text \<open>The key \<open>upload_ticket_to_s3\<close> writes a draw's ticket under, and the
  notifications S3 sends for a run's uploads, one per upload, with the receipt
  handles SQS gives them.\<close>

definition generated_key :: "gen_rand \<Rightarrow> string" where
  "generated_key r = ''DEMO-'' @ py_str_nat (py_randint 10000 99999 (r_ticket_id r)) @ ''.json''"

definition generator_events :: "string list \<Rightarrow> gen_rand list \<Rightarrow> int \<Rightarrow> message list" where
  "generator_events hs rs sz =
     map2 (\<lambda>h r. \<lparr>receipt_handle = h, msg_body = Some (s3_event_body ''tickets-raw'' (generated_key r) sz)\<rparr>) hs rs"

section \<open>End to end\<close>

lemma generated_record_ok:
  assumes raw: "raw_objects s (b, k) = Some (Some (generated_ticket tid cid subj bdy ts prio src))"
    and up: "dynamo_up s" "s3_up s" and tid: "tid \<noteq> []"
    and gw: "gateway_contract gw"
  shows "\<exists>e. processed_at e = clock s \<and>
     (let t = from_raw \<lparr>ticket_id = tid, subject = subj, body = bdy, priority = Some prio,
                        created_at = ts, customer_id = cid,
                        metadata = \<lparr>source = src, language = ''en'', tags = []\<rparr>\<rparr> e
      in process_record gw cfg (s3_event_record b k sz) s
         = (None, s\<lparr>table := (table s)((tid, ts) \<mapsto> from_enriched t),
                    enriched_objects := (enriched_objects s)((enriched_bucket (s3 cfg), tid @ ''.json'') \<mapsto> t),
                    tickets_processed := Suc (tickets_processed s)\<rparr>))"
proof -
  let ?r = "\<lparr>ticket_id = tid, subject = subj, body = bdy, priority = Some prio,
             created_at = ts, customer_id = cid,
             metadata = \<lparr>source = src, language = ''en'', tags = []\<rparr>\<rparr>"
  obtain kvs where g: "generated_ticket tid cid subj bdy ts prio src = JObj kvs"
    by (simp add: generated_ticket_def)
  have val: "validate_raw_ticket kvs = Inr ?r"
    using g by (auto simp: generated_ticket_def validate_raw_ticket_def required_def defaulted_def
                           jlookup_def)
  have prio: "jlookup kvs ''priority'' \<noteq> Some JNull"
    using g by (auto simp: generated_ticket_def jlookup_def)
  obtain e where pt: "process_ticket gw cfg (clock s) (JObj kvs) = Inr (from_raw ?r e)"
    and pa: "processed_at e = clock s"
    using process_ticket_ok [OF val gw prio] by blast
  have loc: "record_location cfg (s3_event_record b k sz) = Inr (JStr b, JStr k)"
    by (simp add: record_location_def s3_event_record_def jlookup_def)
  have fp: "fetch_and_process gw cfg (s3_event_record b k sz) s = Inr (from_raw ?r e)"
    using loc raw g pt by (simp add: fetch_and_process_def)
  have st: "store_results cfg (from_raw ?r e) s =
           (None, s\<lparr>table := (table s)((tid, ts) \<mapsto> from_enriched (from_raw ?r e)),
                    enriched_objects := (enriched_objects s)((enriched_bucket (s3 cfg), tid @ ''.json'') \<mapsto> from_raw ?r e)\<rparr>)"
    using store_results_ok [OF up, of "from_raw ?r e" cfg] tid by (simp add: s3_key_of_def)
  show ?thesis
    using pa fp st by (intro exI [of _ e]) (simp add: process_record_def)
qed

lemma generate_ticket_message_ok:
  assumes raw: "raw_objects s (b, k) = Some (Some (generate_ticket r))"
    and up: "dynamo_up s" "s3_up s" "sqs_up s" and gw: "gateway_contract gw"
  shows "\<exists>s2. process_message gw cfg \<lparr>receipt_handle = rh, msg_body = Some (s3_event_body b k sz)\<rparr> s
              = (None, s2)
           \<and> deleted s2 = deleted s @ [rh] \<and> tickets_processed s2 = Suc (tickets_processed s)
           \<and> (''DEMO-'' @ py_str_nat (py_randint 10000 99999 (r_ticket_id r)), r_now r) \<in> dom (table s2)
           \<and> (enriched_bucket (s3 cfg), ''DEMO-'' @ py_str_nat (py_randint 10000 99999 (r_ticket_id r)) @ ''.json'')
               \<in> dom (enriched_objects s2)"
proof -
  let ?tid = "''DEMO-'' @ py_str_nat (py_randint 10000 99999 (r_ticket_id r))"
  obtain tmpl where g: "generate_ticket r =
       (case fill_vars r VARIABLES (tt_subject tmpl, tt_body tmpl) of
          (subj, bdy) \<Rightarrow>
            generated_ticket ?tid (''CUST-'' @ py_str_nat (py_randint 1000 9999 (r_customer_id r)))
              subj (add_urgency_hint r tmpl bdy) (r_now r)
              (py_choice [''low'', ''medium'', ''high'', ''critical''] (r_priority r))
              (py_choice [''email'', ''web'', ''api'', ''chat''] (r_source r)))"
    by (rule generate_ticket_template)
  then obtain cid subj bdy prio src
    where raw': "raw_objects s (b, k) = Some (Some (generated_ticket ?tid cid subj bdy (r_now r) prio src))"
    using raw by (auto split: prod.splits)
  obtain s2 where pr: "process_record gw cfg (s3_event_record b k sz) s = (None, s2)"
    "(?tid, r_now r) \<in> dom (table s2)" "(enriched_bucket (s3 cfg), ?tid @ ''.json'') \<in> dom (enriched_objects s2)"
    "tickets_processed s2 = Suc (tickets_processed s)" "deleted s2 = deleted s" "sqs_up s2"
    using generated_record_ok [OF raw' up(1,2) _ gw, of cfg sz] up(3) by (auto simp: Let_def)
  show ?thesis
    using pr by (simp add: process_message_def s3_event_body_def jlookup_def delete_message_def)
qed

text \<open>C13: when every service is up and the models answer as the gateway contract
  says, a ticket the generator uploaded, announced by its S3 event, is validated,
  enriched at the worker's clock, written to the table and to the enriched bucket,
  counted once, and its message is deleted.\<close>
lemma generated_ticket_end_to_end:
  assumes raw: "raw_objects s (b, k) = Some (Some (generated_ticket tid cid subj bdy ts prio src))"
    and up: "dynamo_up s" "s3_up s" "sqs_up s" and tid: "tid \<noteq> []"
    and gw: "gateway_contract gw"
  shows "\<exists>e. processed_at e = clock s \<and>
     (let t = from_raw \<lparr>ticket_id = tid, subject = subj, body = bdy, priority = Some prio,
                        created_at = ts, customer_id = cid,
                        metadata = \<lparr>source = src, language = ''en'', tags = []\<rparr>\<rparr> e
      in process_message gw cfg \<lparr>receipt_handle = rh, msg_body = Some (s3_event_body b k sz)\<rparr> s
         = (None, s\<lparr>table := (table s)((tid, ts) \<mapsto> from_enriched t),
                    enriched_objects := (enriched_objects s)((enriched_bucket (s3 cfg), tid @ ''.json'') \<mapsto> t),
                    tickets_processed := Suc (tickets_processed s),
                    deleted := deleted s @ [rh]\<rparr>))"
proof -
  obtain e where pa: "processed_at e = clock s"
    and pr: "process_record gw cfg (s3_event_record b k sz) s
             = (None, s\<lparr>table := (table s)((tid, ts) \<mapsto> from_enriched (from_raw \<lparr>ticket_id = tid,
                    subject = subj, body = bdy, priority = Some prio, created_at = ts, customer_id = cid,
                    metadata = \<lparr>source = src, language = ''en'', tags = []\<rparr>\<rparr> e)),
                  enriched_objects := (enriched_objects s)((enriched_bucket (s3 cfg), tid @ ''.json'') \<mapsto>
                    from_raw \<lparr>ticket_id = tid, subject = subj, body = bdy, priority = Some prio,
                    created_at = ts, customer_id = cid,
                    metadata = \<lparr>source = src, language = ''en'', tags = []\<rparr>\<rparr> e),
                  tickets_processed := Suc (tickets_processed s)\<rparr>)"
    using generated_record_ok [OF raw up(1,2) tid gw, of cfg sz] by (auto simp: Let_def)
  show ?thesis
    using pa pr up(3)
    by (intro exI [of _ e])
       (simp add: process_message_def s3_event_body_def jlookup_def delete_message_def)
qed

lemma upload_generated:
  assumes "upload_ticket_to_s3 frepr (generate_ticket r) b s = (Inr (), s1)"
  shows "s3_up s \<and> s1 = s\<lparr>raw_objects := (raw_objects s)
           ((b, ''DEMO-'' @ py_str_nat (py_randint 10000 99999 (r_ticket_id r)) @ ''.json'') \<mapsto> Some (generate_ticket r))\<rparr>"
  using assms by (simp add: upload_ticket_to_s3_def generate_ticket_id generate_ticket_loads split: if_splits)

text \<open>C14: the generator and the worker together: once the generator has
  uploaded a ticket (for any random draws), and with DynamoDB and SQS up and
  the models answering as the gateway contract says, the worker processes
  the S3 event for the upload key, acknowledges the message, counts the
  ticket once, and stores it in the table under its id and creation time and
  in the enriched bucket under the same key.\<close>
theorem generated_upload_processed:
  assumes upl: "upload_ticket_to_s3 frepr (generate_ticket r) b s = (Inr (), s1)"
    and up: "dynamo_up s" "sqs_up s" and gw: "gateway_contract gw"
  shows "\<exists>s2. process_message gw cfg
                \<lparr>receipt_handle = rh,
                 msg_body = Some (s3_event_body b (''DEMO-'' @ py_str_nat (py_randint 10000 99999 (r_ticket_id r)) @ ''.json'') sz)\<rparr> s1
              = (None, s2)
           \<and> deleted s2 = deleted s @ [rh] \<and> tickets_processed s2 = Suc (tickets_processed s)
           \<and> (''DEMO-'' @ py_str_nat (py_randint 10000 99999 (r_ticket_id r)), r_now r) \<in> dom (table s2)
           \<and> (enriched_bucket (s3 cfg), ''DEMO-'' @ py_str_nat (py_randint 10000 99999 (r_ticket_id r)) @ ''.json'')
               \<in> dom (enriched_objects s2)"
proof -
  let ?k = "''DEMO-'' @ py_str_nat (py_randint 10000 99999 (r_ticket_id r)) @ ''.json''"
  have s1: "s3_up s" "s1 = s\<lparr>raw_objects := (raw_objects s)((b, ?k) \<mapsto> Some (generate_ticket r))\<rparr>"
    using upload_generated [OF upl] by simp_all
  have "raw_objects s1 (b, ?k) = Some (Some (generate_ticket r))" "dynamo_up s1" "s3_up s1" "sqs_up s1"
    using s1 up by simp_all
  from generate_ticket_message_ok [OF this gw, of cfg rh sz]
  show ?thesis using s1(2) by simp
qed


lemma generator_loop_objects:
  "generator_loop frepr b rs n s = (None, n', s') \<Longrightarrow>
     s' = s\<lparr>raw_objects := raw_objects s'\<rparr>
     \<and> (\<forall>k r0. raw_objects s k = Some (Some (generate_ticket r0))
          \<longrightarrow> (\<exists>r'. raw_objects s' k = Some (Some (generate_ticket r'))))
     \<and> (\<forall>r \<in> set rs. \<exists>r'. raw_objects s' (b, generated_key r) = Some (Some (generate_ticket r')))"
proof (induction rs arbitrary: n s)
  case Nil
  then have "s' = s" by simp
  then show ?case by simp blast
next
  case (Cons r rs)
  obtain u s1 where u: "upload_ticket_to_s3 frepr (generate_ticket r) b s = (u, s1)" by fastforce
  show ?case
  proof (cases u)
    case (Inl ex)
    then show ?thesis using Cons.prems u by simp
  next
    case (Inr v)
    then have s1: "s1 = s\<lparr>raw_objects := (raw_objects s)((b, generated_key r) \<mapsto> Some (generate_ticket r))\<rparr>"
      using upload_generated [of frepr r b s s1] u by (simp add: generated_key_def)
    have rest: "generator_loop frepr b rs (Suc n) s1 = (None, n', s')"
      using Cons.prems u Inr by simp
    note IH = Cons.IH [OF rest]
    show ?thesis
    proof (intro conjI)
      obtain R where R: "s' = s1\<lparr>raw_objects := R\<rparr>" using IH by blast
      then show "s' = s\<lparr>raw_objects := raw_objects s'\<rparr>" using s1 by simp
      show "\<forall>k r0. raw_objects s k = Some (Some (generate_ticket r0))
              \<longrightarrow> (\<exists>r'. raw_objects s' k = Some (Some (generate_ticket r')))"
      proof (intro allI impI)
        fix k r0 assume "raw_objects s k = Some (Some (generate_ticket r0))"
        then have "\<exists>r1. raw_objects s1 k = Some (Some (generate_ticket r1))"
          using s1 by (cases "k = (b, generated_key r)") auto
        then show "\<exists>r'. raw_objects s' k = Some (Some (generate_ticket r'))" using IH by blast
      qed
      have "raw_objects s1 (b, generated_key r) = Some (Some (generate_ticket r))" using s1 by simp
      then have "\<exists>r''. raw_objects s' (b, generated_key r) = Some (Some (generate_ticket r''))"
        using IH by blast
      then show "\<forall>r' \<in> set (r # rs). \<exists>r''. raw_objects s' (b, generated_key r') = Some (Some (generate_ticket r''))"
        using IH by simp
    qed
  qed
qed

lemma generator_events_handles:
  "length hs = length rs \<Longrightarrow> map receipt_handle (generator_events hs rs sz) = hs"
  by (induction hs rs rule: list_induct2) (simp_all add: generator_events_def)

lemma generator_events_mem:
  "m \<in> set (generator_events hs rs sz) \<Longrightarrow>
     \<exists>h r. r \<in> set rs \<and> m = \<lparr>receipt_handle = h, msg_body = Some (s3_event_body ''tickets-raw'' (generated_key r) sz)\<rparr>"
  by (auto simp: generator_events_def dest: set_zip_rightD)

text \<open>C15: a whole generator run against the queue. When the generator's
  loop has uploaded the tickets of a list of draws without an exception,
  S3 has announced each upload on the queue under its own receipt handle,
  every service is up, the models answer as the gateway contract says and
  MaxNumberOfMessages is in 1..10, then the worker's polling loop empties the
  queue in finitely many polls and acknowledges every notification of the run:
  whatever the draws (including two draws of the same ticket number), every
  uploaded object is a ticket the worker processes.\<close>
theorem generator_run_drained:
  assumes gen: "generator_main frepr rs s0 = (None, n, s1)"
    and up: "dynamo_up s0" "s3_up s0" "sqs_up s0" and gw: "gateway_contract gw"
    and k: "1 \<le> max_messages (sqs cfg)" "max_messages (sqs cfg) \<le> 10"
    and hs: "distinct hs" "length hs = length rs"
  shows "\<exists>y. drain gw cfg \<lparr>sq = generator_events hs rs sz, sent = generator_events hs rs sz,
                           acked = [], w = s1\<rparr> = Some y
           \<and> sq y = [] \<and> set (generator_events hs rs sz) \<subseteq> fst ` set (acked y)"
proof -
  have run: "s1 = s0\<lparr>raw_objects := raw_objects s1\<rparr>"
    "\<forall>r \<in> set rs. \<exists>r'. raw_objects s1 (''tickets-raw'', generated_key r) = Some (Some (generate_ticket r'))"
    using generator_loop_objects [of frepr "''tickets-raw''" rs 0 s0 n s1] gen
    by (simp_all add: generator_main_def)
  have up1: "dynamo_up s1" "s3_up s1" "sqs_up s1"
    using up by (subst run(1), simp)+
  have ok: "\<forall>m \<in> set (generator_events hs rs sz). msg_ok gw cfg s1 m"
  proof
    fix m assume "m \<in> set (generator_events hs rs sz)"
    then obtain h r where r: "r \<in> set rs"
      and m: "m = \<lparr>receipt_handle = h, msg_body = Some (s3_event_body ''tickets-raw'' (generated_key r) sz)\<rparr>"
      using generator_events_mem by blast
    obtain r' where "raw_objects s1 (''tickets-raw'', generated_key r) = Some (Some (generate_ticket r'))"
      using run(2) r by blast
    from generate_ticket_message_ok [OF this up1 gw, of cfg h sz]
    show "msg_ok gw cfg s1 m" using m by (auto simp: msg_ok_def)
  qed
  have reach: "qreach gw cfg \<lparr>sq = generator_events hs rs sz, sent = generator_events hs rs sz,
                              acked = [], w = s1\<rparr>"
    using qreach_queued [of "generator_events hs rs sz"] hs by (simp add: generator_events_handles)
  show ?thesis
    using drain_ok [OF reach k] ok by auto
qed

lemma generated_ticket_end_to_end_witness:
  "raw_objects (example_world\<lparr>raw_objects := [(''tickets-raw'', ''T-1.json'') \<mapsto>
        Some (generated_ticket ''T-1'' ''C-1'' ''Cannot login'' ''I cannot log in'' 1700000000 ''high'' ''email'')]\<rparr>)
     (''tickets-raw'', ''T-1.json'')
     = Some (Some (generated_ticket ''T-1'' ''C-1'' ''Cannot login'' ''I cannot log in'' 1700000000 ''high'' ''email''))
   \<and> ''T-1'' \<noteq> [] \<and> gateway_contract example_gateway
   \<and> (\<exists>e. processed_at e = ''2024-01-15T10:30:00'' \<and>
       (let w = example_world\<lparr>raw_objects := [(''tickets-raw'', ''T-1.json'') \<mapsto>
                 Some (generated_ticket ''T-1'' ''C-1'' ''Cannot login'' ''I cannot log in'' 1700000000 ''high'' ''email'')]\<rparr>;
            t = from_raw \<lparr>ticket_id = ''T-1'', subject = ''Cannot login'', body = ''I cannot log in'',
                           priority = Some ''high'', created_at = 1700000000, customer_id = ''C-1'',
                           metadata = \<lparr>source = ''email'', language = ''en'', tags = []\<rparr>\<rparr> e
        in process_message example_gateway example_config
             \<lparr>receipt_handle = ''rh-1'', msg_body = Some (s3_event_body ''tickets-raw'' ''T-1.json'' 512)\<rparr> w
           = (None, w\<lparr>table := [(''T-1'', 1700000000) \<mapsto> from_enriched t],
                      enriched_objects := [(enriched_bucket (s3 example_config), ''T-1.json'') \<mapsto> t],
                      tickets_processed := 1, deleted := [''rh-1'']\<rparr>)))"
proof -
  have gw: "gateway_contract example_gateway"
    by (simp add: gateway_contract_def example_gateway_def unit_interval_def)
  show ?thesis
    using generated_ticket_end_to_end
            [of "example_world\<lparr>raw_objects := [(''tickets-raw'', ''T-1.json'') \<mapsto>
                 Some (generated_ticket ''T-1'' ''C-1'' ''Cannot login'' ''I cannot log in'' 1700000000 ''high'' ''email'')]\<rparr>"
                "''tickets-raw''" "''T-1.json''" "''T-1''" "''C-1''" "''Cannot login''"
                "''I cannot log in''" 1700000000 "''high''" "''email''" example_gateway example_config
                "''rh-1''" 512, OF _ _ _ _ _ gw]
    by (simp add: example_world_def gw)
qed

lemma generated_upload_processed_witness:
  "upload_ticket_to_s3 (\<lambda>_. ''0.0'') (generate_ticket \<lparr>r_category = 1, r_template = 0, r_value = (\<lambda>_. 2), r_random = 1, r_hint = 0, r_ticket_id = 7, r_customer_id = 3, r_priority = 2, r_source = 1, r_now = 1700000000\<rparr>) ''tickets-raw'' example_world = (Inr (), example_world\<lparr>raw_objects := [(''tickets-raw'', ''DEMO-'' @ py_str_nat (py_randint 10000 99999 7) @ ''.json'') \<mapsto> Some (generate_ticket \<lparr>r_category = 1, r_template = 0, r_value = (\<lambda>_. 2), r_random = 1, r_hint = 0, r_ticket_id = 7, r_customer_id = 3, r_priority = 2, r_source = 1, r_now = 1700000000\<rparr>)]\<rparr>)
   \<and> dynamo_up example_world \<and> sqs_up example_world \<and> gateway_contract example_gateway
   \<and> (\<exists>s2. process_message example_gateway example_config
               \<lparr>receipt_handle = ''rh-1'', msg_body = Some (s3_event_body ''tickets-raw'' (''DEMO-'' @ py_str_nat (py_randint 10000 99999 7) @ ''.json'') 512)\<rparr> (example_world\<lparr>raw_objects := [(''tickets-raw'', ''DEMO-'' @ py_str_nat (py_randint 10000 99999 7) @ ''.json'') \<mapsto> Some (generate_ticket \<lparr>r_category = 1, r_template = 0, r_value = (\<lambda>_. 2), r_random = 1, r_hint = 0, r_ticket_id = 7, r_customer_id = 3, r_priority = 2, r_source = 1, r_now = 1700000000\<rparr>)]\<rparr>)
             = (None, s2)
          \<and> deleted s2 = [''rh-1''] \<and> tickets_processed s2 = 1
          \<and> (''DEMO-'' @ py_str_nat (py_randint 10000 99999 7), 1700000000) \<in> dom (table s2)
          \<and> (enriched_bucket (s3 example_config), ''DEMO-'' @ py_str_nat (py_randint 10000 99999 7) @ ''.json'') \<in> dom (enriched_objects s2))"
proof -
  have u: "upload_ticket_to_s3 (\<lambda>_. ''0.0'') (generate_ticket \<lparr>r_category = 1, r_template = 0, r_value = (\<lambda>_. 2), r_random = 1, r_hint = 0, r_ticket_id = 7, r_customer_id = 3, r_priority = 2, r_source = 1, r_now = 1700000000\<rparr>) ''tickets-raw'' example_world = (Inr (), example_world\<lparr>raw_objects := [(''tickets-raw'', ''DEMO-'' @ py_str_nat (py_randint 10000 99999 7) @ ''.json'') \<mapsto> Some (generate_ticket \<lparr>r_category = 1, r_template = 0, r_value = (\<lambda>_. 2), r_random = 1, r_hint = 0, r_ticket_id = 7, r_customer_id = 3, r_priority = 2, r_source = 1, r_now = 1700000000\<rparr>)]\<rparr>)"
    by (simp add: upload_ticket_to_s3_def generate_ticket_id generate_ticket_loads example_world_def)
  have gw: "gateway_contract example_gateway"
    by (simp add: gateway_contract_def example_gateway_def unit_interval_def)
  have up: "dynamo_up example_world" "sqs_up example_world" by (simp_all add: example_world_def)
  show ?thesis
    using generated_upload_processed [OF u up gw, of example_config "''rh-1''" 512] u up gw
    by (simp add: example_world_def)
qed

lemma generator_run_drained_witness:
  "generator_main (\<lambda>_. ''0.0'') [\<lparr>r_category = 1, r_template = 0, r_value = (\<lambda>_. 2), r_random = 1, r_hint = 0, r_ticket_id = 7, r_customer_id = 3, r_priority = 2, r_source = 1, r_now = 1700000000\<rparr>] example_world = (None, 1, example_world\<lparr>raw_objects := [(''tickets-raw'', generated_key \<lparr>r_category = 1, r_template = 0, r_value = (\<lambda>_. 2), r_random = 1, r_hint = 0, r_ticket_id = 7, r_customer_id = 3, r_priority = 2, r_source = 1, r_now = 1700000000\<rparr>) \<mapsto> Some (generate_ticket \<lparr>r_category = 1, r_template = 0, r_value = (\<lambda>_. 2), r_random = 1, r_hint = 0, r_ticket_id = 7, r_customer_id = 3, r_priority = 2, r_source = 1, r_now = 1700000000\<rparr>)]\<rparr>)
   \<and> dynamo_up example_world \<and> s3_up example_world \<and> sqs_up example_world
   \<and> gateway_contract example_gateway
   \<and> 1 \<le> max_messages (sqs example_config) \<and> max_messages (sqs example_config) \<le> 10
   \<and> distinct [''rh-1''] \<and> length [''rh-1''] = length [\<lparr>r_category = 1, r_template = 0, r_value = (\<lambda>_. 2), r_random = 1, r_hint = 0, r_ticket_id = 7, r_customer_id = 3, r_priority = 2, r_source = 1, r_now = 1700000000\<rparr>]
   \<and> (\<exists>y. drain example_gateway example_config \<lparr>sq = generator_events [''rh-1''] [\<lparr>r_category = 1, r_template = 0, r_value = (\<lambda>_. 2), r_random = 1, r_hint = 0, r_ticket_id = 7, r_customer_id = 3, r_priority = 2, r_source = 1, r_now = 1700000000\<rparr>] 512, sent = generator_events [''rh-1''] [\<lparr>r_category = 1, r_template = 0, r_value = (\<lambda>_. 2), r_random = 1, r_hint = 0, r_ticket_id = 7, r_customer_id = 3, r_priority = 2, r_source = 1, r_now = 1700000000\<rparr>] 512, acked = [], w = example_world\<lparr>raw_objects := [(''tickets-raw'', generated_key \<lparr>r_category = 1, r_template = 0, r_value = (\<lambda>_. 2), r_random = 1, r_hint = 0, r_ticket_id = 7, r_customer_id = 3, r_priority = 2, r_source = 1, r_now = 1700000000\<rparr>) \<mapsto> Some (generate_ticket \<lparr>r_category = 1, r_template = 0, r_value = (\<lambda>_. 2), r_random = 1, r_hint = 0, r_ticket_id = 7, r_customer_id = 3, r_priority = 2, r_source = 1, r_now = 1700000000\<rparr>)]\<rparr>\<rparr> = Some y \<and> sq y = []
          \<and> set (generator_events [''rh-1''] [\<lparr>r_category = 1, r_template = 0, r_value = (\<lambda>_. 2), r_random = 1, r_hint = 0, r_ticket_id = 7, r_customer_id = 3, r_priority = 2, r_source = 1, r_now = 1700000000\<rparr>] 512) \<subseteq> fst ` set (acked y))"
proof -
  have g: "generator_main (\<lambda>_. ''0.0'') [\<lparr>r_category = 1, r_template = 0, r_value = (\<lambda>_. 2), r_random = 1, r_hint = 0, r_ticket_id = 7, r_customer_id = 3, r_priority = 2, r_source = 1, r_now = 1700000000\<rparr>] example_world = (None, 1, example_world\<lparr>raw_objects := [(''tickets-raw'', generated_key \<lparr>r_category = 1, r_template = 0, r_value = (\<lambda>_. 2), r_random = 1, r_hint = 0, r_ticket_id = 7, r_customer_id = 3, r_priority = 2, r_source = 1, r_now = 1700000000\<rparr>) \<mapsto> Some (generate_ticket \<lparr>r_category = 1, r_template = 0, r_value = (\<lambda>_. 2), r_random = 1, r_hint = 0, r_ticket_id = 7, r_customer_id = 3, r_priority = 2, r_source = 1, r_now = 1700000000\<rparr>)]\<rparr>)"
    by (simp add: generator_main_def upload_ticket_to_s3_def generate_ticket_id generate_ticket_loads
                  generated_key_def example_world_def)
  have gw: "gateway_contract example_gateway"
    by (simp add: gateway_contract_def example_gateway_def unit_interval_def)
  have up: "dynamo_up example_world" "s3_up example_world" "sqs_up example_world"
    by (simp_all add: example_world_def)
  have k: "1 \<le> max_messages (sqs example_config)" "max_messages (sqs example_config) \<le> 10"
    by (simp_all add: example_config_def)
  show ?thesis
    using generator_run_drained [OF g up gw k, of "[''rh-1'']" 512] g up gw k by simp
qed

lemma forget_at_clock:
  "forget_blob (at_clock c t) = forget_blob t"
  "forget_row (from_enriched (at_clock c t)) = forget_row (from_enriched t)"
  by (simp_all add: forget_blob_def at_clock_def forget_row_def from_enriched_def)

text \<open>C12: idempotent reprocessing. When a record was processed and stored, a
  redelivery that processes it again at any later clock succeeds again and
  leaves the table and the enriched bucket as the first run left them, up to
  the processing time; only tickets_processed counts the second run.\<close>
lemma reprocess_idempotent:
  assumes first: "process_record gw cfg r s = (None, s1)"
  shows "\<exists>s2. process_record gw cfg r (s1\<lparr>clock := c\<rparr>) = (None, s2)
           \<and> map_option forget_row \<circ> table s2 = map_option forget_row \<circ> table s1
           \<and> map_option forget_blob \<circ> enriched_objects s2 = map_option forget_blob \<circ> enriched_objects s1
           \<and> tickets_processed s2 = Suc (tickets_processed s1)"
proof -
  obtain t s1' where f: "fetch_and_process gw cfg r s = Inr t"
    and st: "store_results cfg t s = (None, s1')"
    and s1: "s1 = s1'\<lparr>tickets_processed := Suc (tickets_processed s1')\<rparr>"
    using first by (auto simp: process_record_def split: sum.splits prod.splits option.splits)
  have up: "dynamo_up s" "s3_up s" "ticket_id t \<noteq> []"
    using store_results_None [OF st] by simp_all
  have s1'_eq: "s1' = s\<lparr>table := (table s)((ticket_id t, created_at t) \<mapsto> from_enriched t),
                    enriched_objects := (enriched_objects s)((enriched_bucket (s3 cfg), s3_key_of (ticket_id t)) \<mapsto> t)\<rparr>"
    using st store_results_ok [OF up] by simp
  let ?s = "s1\<lparr>clock := c\<rparr>"
  let ?t = "at_clock c t"
  have f2: "fetch_and_process gw cfg r ?s = Inr ?t"
    using fetch_and_process_clock [OF f, of ?s] s1 s1'_eq by simp
  have up2: "dynamo_up ?s" "s3_up ?s" "ticket_id ?t \<noteq> []"
    using up s1 s1'_eq by simp_all
  have st2: "store_results cfg ?t ?s =
           (None, ?s\<lparr>table := (table ?s)((ticket_id t, created_at t) \<mapsto> from_enriched ?t),
                    enriched_objects := (enriched_objects ?s)((enriched_bucket (s3 cfg), s3_key_of (ticket_id t)) \<mapsto> ?t)\<rparr>)"
    using store_results_ok [OF up2, of cfg] by simp
  show ?thesis
    using f2 st2 s1 s1'_eq forget_at_clock [of c t]
    by (auto simp: process_record_def fun_eq_iff)
qed

lemma reprocess_idempotent_witness:
  "\<exists>s1 s2. process_record example_gateway example_config (s3_event_record ''tickets-raw'' ''T-1.json'' 512) (example_world\<lparr>raw_objects := [(''tickets-raw'', ''T-1.json'') \<mapsto> Some (generated_ticket ''T-1'' ''C-1'' ''Cannot login'' ''I cannot log in'' 1700000000 ''high'' ''email'')]\<rparr>) = (None, s1)
     \<and> process_record example_gateway example_config (s3_event_record ''tickets-raw'' ''T-1.json'' 512) (s1\<lparr>clock := ''2024-01-16T08:00:00''\<rparr>)
         = (None, s2)
     \<and> map_option forget_row \<circ> table s2 = map_option forget_row \<circ> table s1
     \<and> map_option forget_blob \<circ> enriched_objects s2 = map_option forget_blob \<circ> enriched_objects s1
     \<and> tickets_processed s2 = Suc (tickets_processed s1)"
proof -
  have gw: "gateway_contract example_gateway"
    by (simp add: gateway_contract_def example_gateway_def unit_interval_def)
  obtain s1 where s1: "process_record example_gateway example_config (s3_event_record ''tickets-raw'' ''T-1.json'' 512) (example_world\<lparr>raw_objects := [(''tickets-raw'', ''T-1.json'') \<mapsto> Some (generated_ticket ''T-1'' ''C-1'' ''Cannot login'' ''I cannot log in'' 1700000000 ''high'' ''email'')]\<rparr>) = (None, s1)"
    using generated_record_ok [of "example_world\<lparr>raw_objects := [(''tickets-raw'', ''T-1.json'') \<mapsto> Some (generated_ticket ''T-1'' ''C-1'' ''Cannot login'' ''I cannot log in'' 1700000000 ''high'' ''email'')]\<rparr>" "''tickets-raw''" "''T-1.json''" "''T-1''" "''C-1''"
            "''Cannot login''" "''I cannot log in''" 1700000000 "''high''" "''email''" example_gateway
            example_config 512] gw
    by (auto simp: example_world_def Let_def)
  show ?thesis
    using reprocess_idempotent [OF s1, of "''2024-01-16T08:00:00''"] s1 by blast
qed

end
